theory Spec2Isabelle
  imports Complex_Main
begin

section \<open>JavaScript numbers\<close>

text \<open>
  A JavaScript number is an IEEE 754 binary64 value.  A finite one is carried by its exact
  rational value; the two zeros are identified (the code never divides by a computed zero
  nor inspects the sign of a zero).  Every arithmetic operation computes the exact rational
  result and rounds it to the nearest binary64 value, ties to even, by \<open>fl\<close>.
\<close>

datatype jsnum = NaN | PosInf | NegInf | Fin rat

definition pow2 :: "int \<Rightarrow> rat" where
  "pow2 e = (if 0 \<le> e then 2 ^ nat e else 1 / 2 ^ nat (- e))"

definition pow10 :: "int \<Rightarrow> rat" where
  "pow10 e = (if 0 \<le> e then 10 ^ nat e else 1 / 10 ^ nat (- e))"

text \<open>Number of binary digits of a natural number.\<close>

fun bits :: "nat \<Rightarrow> nat" where
  "bits n = (if n = 0 then 0 else Suc (bits (n div 2)))"

declare bits.simps [simp del]

text \<open>\<open>ilog2 x\<close> is the binary exponent \<open>\<lfloor>log\<^sub>2 x\<rfloor>\<close> of a positive rational.\<close>

definition ilog2 :: "rat \<Rightarrow> int" where
  "ilog2 x = (if 1 \<le> x then int (bits (nat \<lfloor>x\<rfloor>)) - 1
              else - int (bits (nat (\<lceil>1 / x\<rceil> - 1))))"

definition round_half_even :: "rat \<Rightarrow> int" where
  "round_half_even r =
     (if r - of_int \<lfloor>r\<rfloor> < 1 / 2 then \<lfloor>r\<rfloor>
      else if 1 / 2 < r - of_int \<lfloor>r\<rfloor> then \<lfloor>r\<rfloor> + 1
      else if even \<lfloor>r\<rfloor> then \<lfloor>r\<rfloor> else \<lfloor>r\<rfloor> + 1)"

text \<open>
  The spacing of binary64 values around a positive magnitude: 53 significant bits, and the
  fixed spacing \<open>2\<^sup>-\<^sup>1\<^sup>0\<^sup>7\<^sup>4\<close> in the subnormal range.
\<close>

definition ulp_of :: "rat \<Rightarrow> rat" where
  "ulp_of a = pow2 (max (ilog2 a) (- 1022) - 52)"

definition fl_mag :: "rat \<Rightarrow> rat" where
  "fl_mag a = of_int (round_half_even (a / ulp_of a)) * ulp_of a"

definition fl :: "rat \<Rightarrow> jsnum" where
  "fl x = (if x = 0 then Fin 0
           else if pow2 1024 \<le> fl_mag \<bar>x\<bar> then (if 0 < x then PosInf else NegInf)
           else Fin (if 0 < x then fl_mag \<bar>x\<bar> else - fl_mag \<bar>x\<bar>))"

definition num_of_int :: "int \<Rightarrow> jsnum" where
  "num_of_int n = fl (of_int n)"

fun js_neg :: "jsnum \<Rightarrow> jsnum" where
  "js_neg NaN = NaN"
| "js_neg PosInf = NegInf"
| "js_neg NegInf = PosInf"
| "js_neg (Fin x) = Fin (- x)"

fun js_add :: "jsnum \<Rightarrow> jsnum \<Rightarrow> jsnum" where
  "js_add (Fin x) (Fin y) = fl (x + y)"
| "js_add NaN b = NaN"
| "js_add a NaN = NaN"
| "js_add PosInf NegInf = NaN"
| "js_add NegInf PosInf = NaN"
| "js_add PosInf b = PosInf"
| "js_add NegInf b = NegInf"
| "js_add (Fin x) b = b"

declare js_add.simps(1) [simp del]

definition js_sub :: "jsnum \<Rightarrow> jsnum \<Rightarrow> jsnum" where
  "js_sub a b = js_add a (js_neg b)"

fun is_negative :: "jsnum \<Rightarrow> bool" where
  "is_negative NegInf = True"
| "is_negative (Fin x) = (x < 0)"
| "is_negative a = False"

fun js_mul :: "jsnum \<Rightarrow> jsnum \<Rightarrow> jsnum" where
  "js_mul (Fin x) (Fin y) = fl (x * y)"
| "js_mul NaN b = NaN"
| "js_mul a NaN = NaN"
| "js_mul a b = (if a = Fin 0 \<or> b = Fin 0 then NaN
                 else if is_negative a = is_negative b then PosInf else NegInf)"

declare js_mul.simps(1) [simp del]

fun js_div :: "jsnum \<Rightarrow> jsnum \<Rightarrow> jsnum" where
  "js_div (Fin x) (Fin y) =
     (if y = 0 then (if x = 0 then NaN else if 0 < x then PosInf else NegInf)
      else fl (x / y))"
| "js_div NaN b = NaN"
| "js_div a NaN = NaN"
| "js_div (Fin x) b = Fin 0"
| "js_div a (Fin y) = (if is_negative a = (y < 0) then PosInf else NegInf)"
| "js_div a b = NaN"

declare js_div.simps(1) [simp del]

text \<open>The relational operators: every comparison with \<open>NaN\<close> is false.\<close>

fun js_lt :: "jsnum \<Rightarrow> jsnum \<Rightarrow> bool" where
  "js_lt (Fin x) (Fin y) = (x < y)"
| "js_lt NaN b = False"
| "js_lt a NaN = False"
| "js_lt a NegInf = False"
| "js_lt PosInf b = False"
| "js_lt a b = True"

definition js_gt :: "jsnum \<Rightarrow> jsnum \<Rightarrow> bool" where
  "js_gt a b = js_lt b a"

definition js_le :: "jsnum \<Rightarrow> jsnum \<Rightarrow> bool" where
  "js_le a b = (a \<noteq> NaN \<and> b \<noteq> NaN \<and> \<not> js_lt b a)"

text \<open>\<open>Math.max\<close> of two numbers, \<open>Number.isFinite\<close>, and truthiness of a number.\<close>

definition js_max :: "jsnum \<Rightarrow> jsnum \<Rightarrow> jsnum" where
  "js_max a b = (if a = NaN \<or> b = NaN then NaN else if js_lt a b then b else a)"

fun isFinite :: "jsnum \<Rightarrow> bool" where
  "isFinite (Fin x) = True"
| "isFinite a = False"

definition truthy_num :: "jsnum \<Rightarrow> bool" where
  "truthy_num a = (a \<noteq> NaN \<and> a \<noteq> Fin 0)"

text \<open>
  \<open>Number(x.toFixed(2))\<close>: \<open>toFixed(2)\<close> prints the integer \<open>n\<close> for which \<open>n / 100\<close> is
  closest to the exact value of \<open>x\<close> (the larger \<open>n\<close> on a tie, computed on the magnitude),
  with two decimals; \<open>Number\<close> reads that decimal numeral back as the nearest binary64 value.
  From \<open>10\<^sup>2\<^sup>1\<close> on, and for the non-finite values, \<open>toFixed\<close> prints the number itself.
\<close>

definition round_half_up :: "rat \<Rightarrow> int" where
  "round_half_up r = \<lfloor>r + 1 / 2\<rfloor>"

fun toFixed2 :: "jsnum \<Rightarrow> jsnum" where
  "toFixed2 (Fin x) =
     (if 10 ^ 21 \<le> \<bar>x\<bar> then Fin x
      else if x < 0 then fl (- (of_int (round_half_up (- x * 100)) / 100))
      else fl (of_int (round_half_up (x * 100)) / 100))"
| "toFixed2 a = a"

declare toFixed2.simps(1) [simp del]

section \<open>JavaScript values and strings\<close>

datatype jsval = Undefined | Null | Bool bool | Num jsnum | Str string

text \<open>
  A string is a sequence of code units; the strings of this development are those whose
  code units lie below 256.  In that range the white space and line terminators of
  ECMAScript, which \<open>String.prototype.trim\<close> and \<open>Number\<close> strip, are the code units
  9 to 13, 32 and 160 (the no-break space), and \<open>toLowerCase\<close> changes the letters
  65 to 90 and 192 to 222 except 215 (the multiplication sign).
\<close>

definition is_ws :: "char \<Rightarrow> bool" where
  "is_ws c = (of_char c \<in> {9, 10, 11, 12, 13, 32, 160 :: nat})"

definition trim :: "string \<Rightarrow> string" where
  "trim s = rev (dropWhile is_ws (rev (dropWhile is_ws s)))"

definition lower_char :: "char \<Rightarrow> char" where
  "lower_char c =
     (if (65 \<le> (of_char c :: nat) \<and> (of_char c :: nat) \<le> 90)
         \<or> (192 \<le> (of_char c :: nat) \<and> (of_char c :: nat) \<le> 222 \<and> (of_char c :: nat) \<noteq> 215)
      then char_of (of_char c + 32 :: nat) else c)"

definition toLowerCase :: "string \<Rightarrow> string" where
  "toLowerCase s = map lower_char s"

definition is_digit :: "char \<Rightarrow> bool" where
  "is_digit c = (48 \<le> (of_char c :: nat) \<and> (of_char c :: nat) \<le> 57)"

definition digit_val :: "char \<Rightarrow> nat" where
  "digit_val c =
     (if 48 \<le> (of_char c :: nat) \<and> (of_char c :: nat) \<le> 57 then of_char c - 48
      else if 97 \<le> (of_char c :: nat) \<and> (of_char c :: nat) \<le> 102 then of_char c - 87
      else if 65 \<le> (of_char c :: nat) \<and> (of_char c :: nat) \<le> 70 then of_char c - 55
      else 16)"

definition digits_in :: "nat \<Rightarrow> string \<Rightarrow> bool" where
  "digits_in base ds = (ds \<noteq> [] \<and> list_all (\<lambda>c. digit_val c < base) ds)"

definition digits_value :: "nat \<Rightarrow> string \<Rightarrow> nat" where
  "digits_value base ds = foldl (\<lambda>acc c. acc * base + digit_val c) 0 ds"

text \<open>
  \<open>StringToNumber\<close>: the string is trimmed; the empty string is \<open>0\<close>; a radix literal
  (\<open>0x\<close>, \<open>0o\<close>, \<open>0b\<close>) is unsigned; a decimal literal has an optional sign, then
  \<open>Infinity\<close> or digits with an optional fraction and an optional exponent; anything else
  is \<open>NaN\<close>.  The parse yields the exact decimal value, which \<open>fl\<close> rounds.
\<close>

datatype literal = LitNaN | LitInf | LitDec nat int

definition parse_exponent :: "string \<Rightarrow> int option" where
  "parse_exponent r =
     (case r of
        [] \<Rightarrow> Some 0
      | c # ds \<Rightarrow>
          if c = CHR ''e'' \<or> c = CHR ''E'' then
            (case ds of
               [] \<Rightarrow> None
             | s # ds' \<Rightarrow>
                 if s = CHR ''+'' then
                   (if digits_in 10 ds' then Some (int (digits_value 10 ds')) else None)
                 else if s = CHR ''-'' then
                   (if digits_in 10 ds' then Some (- int (digits_value 10 ds')) else None)
                 else if digits_in 10 ds then Some (int (digits_value 10 ds)) else None)
          else None)"

definition fraction_digits :: "string \<Rightarrow> string" where
  "fraction_digits r = (case r of [] \<Rightarrow> [] | c # ds \<Rightarrow>
     if c = CHR ''.'' then takeWhile is_digit ds else [])"

definition after_fraction :: "string \<Rightarrow> string" where
  "after_fraction r = (case r of [] \<Rightarrow> [] | c # ds \<Rightarrow>
     if c = CHR ''.'' then dropWhile is_digit ds else r)"

definition parse_unsigned :: "string \<Rightarrow> literal" where
  "parse_unsigned r =
     (if r = ''Infinity'' then LitInf
      else if takeWhile is_digit r = [] \<and> fraction_digits (dropWhile is_digit r) = [] then LitNaN
      else (case parse_exponent (after_fraction (dropWhile is_digit r)) of
              None \<Rightarrow> LitNaN
            | Some ex \<Rightarrow>
                LitDec (digits_value 10 (takeWhile is_digit r @ fraction_digits (dropWhile is_digit r)))
                       (ex - int (length (fraction_digits (dropWhile is_digit r))))))"

fun num_of_literal :: "bool \<Rightarrow> literal \<Rightarrow> jsnum" where
  "num_of_literal neg LitNaN = NaN"
| "num_of_literal neg LitInf = (if neg then NegInf else PosInf)"
| "num_of_literal neg (LitDec m e) =
     (if neg then fl (- (of_nat m * pow10 e)) else fl (of_nat m * pow10 e))"

definition radix_of :: "string \<Rightarrow> nat" where
  "radix_of t = (case t of
       c # x # ds \<Rightarrow>
         if c \<noteq> CHR ''0'' then 0
         else if x = CHR ''x'' \<or> x = CHR ''X'' then 16
         else if x = CHR ''o'' \<or> x = CHR ''O'' then 8
         else if x = CHR ''b'' \<or> x = CHR ''B'' then 2
         else 0
     | _ \<Rightarrow> 0)"

definition string_to_number :: "string \<Rightarrow> jsnum" where
  "string_to_number s =
     (if trim s = [] then Fin 0
      else if radix_of (trim s) \<noteq> 0 then
        (if digits_in (radix_of (trim s)) (drop 2 (trim s))
         then fl (of_nat (digits_value (radix_of (trim s)) (drop 2 (trim s)))) else NaN)
      else if hd (trim s) = CHR ''+'' then num_of_literal False (parse_unsigned (tl (trim s)))
      else if hd (trim s) = CHR ''-'' then num_of_literal True (parse_unsigned (tl (trim s)))
      else num_of_literal False (parse_unsigned (trim s)))"

text \<open>\<open>Number(v)\<close>, truthiness, and \<open>a || b\<close>.\<close>

fun to_number :: "jsval \<Rightarrow> jsnum" where
  "to_number Undefined = NaN"
| "to_number Null = Fin 0"
| "to_number (Bool b) = (if b then Fin 1 else Fin 0)"
| "to_number (Num n) = n"
| "to_number (Str s) = string_to_number s"

fun truthy :: "jsval \<Rightarrow> bool" where
  "truthy Undefined = False"
| "truthy Null = False"
| "truthy (Bool b) = b"
| "truthy (Num n) = truthy_num n"
| "truthy (Str s) = (s \<noteq> [])"

definition js_or :: "jsval \<Rightarrow> jsval \<Rightarrow> jsval" where
  "js_or a b = (if truthy a then a else b)"

text \<open>Decimal numeral of a natural number, as a template literal prints it.\<close>

fun string_of_nat :: "nat \<Rightarrow> string" where
  "string_of_nat n =
     (if n < 10 then [char_of (48 + n)]
      else string_of_nat (n div 10) @ [char_of (48 + n mod 10)])"

declare string_of_nat.simps [simp del]

section \<open>The database\<close>

text \<open>
  The four relations the code reads and writes.  Integer columns hold integers, money
  columns hold the numbers the code sends.  \<open>cart_items\<close> is kept in insertion order, which
  is the order of its auto-increment key; an upsert on the unique key (userId, productId)
  keeps the position of the row it updates.
\<close>

record product =
  p_productName :: string
  p_quantity :: int
  p_price :: rat
  p_image :: string

record cart_row =
  c_userId :: nat
  c_productId :: nat
  c_quantity :: int

record order_row =
  o_id :: nat
  o_invoiceNumber :: string
  o_userId :: nat
  o_subtotal :: jsnum
  o_tax_amount :: jsnum
  o_total :: jsnum
  o_status :: string

record item_row =
  i_orderId :: nat
  i_productId :: nat
  i_productName :: string
  i_unitPrice :: jsnum
  i_quantity :: jsnum
  i_subtotal :: jsnum

record database =
  products :: "nat \<rightharpoonup> product"
  cart_items :: "cart_row list"
  orders :: "order_row list"
  order_items :: "item_row list"
  next_order_id :: nat

text \<open>
  Every call of \<open>db.query\<close> may fail.  The set of failing queries is a parameter of each
  operation; a failing statement changes nothing.  A statement whose numeric parameter is
  \<open>NaN\<close> or infinite is not valid SQL and fails as well.
\<close>

datatype query =
    QGetCartItems | QGetById | QGetItemQuantity | QSetQuantity | QRemoveItem | QClearCart
  | QOrderCreate | QCreateMany | QDecrease nat | QOrderUpdate | QProductUpdate

datatype db_error = DbError

text \<open>An exact decimal value assigned to an integer column is rounded half away from zero.\<close>

definition sql_round :: "rat \<Rightarrow> int" where
  "sql_round v = (if 0 \<le> v then \<lfloor>v + 1 / 2\<rfloor> else - \<lfloor>- v + 1 / 2\<rfloor>)"

section \<open>models/productModel.js\<close>

definition productModel_getById ::
  "query set \<Rightarrow> nat \<Rightarrow> database \<Rightarrow> db_error + product option" where
  "productModel_getById F pid db =
     (if QGetById \<in> F then Inl DbError else Inr (products db pid))"

text \<open>The object \<open>mapCartRows\<close> builds for one cart line.\<close>

record cart_item =
  item_id :: nat
  item_productName :: string
  item_price :: jsnum
  item_image :: string
  item_quantity :: jsnum

text \<open>\<open>UPDATE products SET quantity = GREATEST(quantity - ?, 0) WHERE id = ?\<close>\<close>

definition decrease_stock :: "nat \<Rightarrow> rat \<Rightarrow> database \<Rightarrow> database" where
  "decrease_stock pid r db =
     (case products db pid of
        None \<Rightarrow> db
      | Some p \<Rightarrow>
          db\<lparr>products := (products db)
               (pid \<mapsto> p\<lparr>p_quantity := sql_round (max (of_int (p_quantity p) - r) 0)\<rparr>)\<rparr>)"

text \<open>
  One iteration of the \<open>forEach\<close> of \<open>decreaseQuantities\<close>; the state carries whether some
  query has failed.
\<close>

definition decrease_one :: "query set \<Rightarrow> cart_item \<Rightarrow> bool \<times> database \<Rightarrow> bool \<times> database" where
  "decrease_one F item acc =
     (let qty = (if truthy_num (item_quantity item) then item_quantity item else Fin 0) in
      if js_le qty (Fin 0) then acc
      else (case qty of
              Fin r \<Rightarrow>
                if QDecrease (item_id item) \<in> F then (True, snd acc)
                else (fst acc, decrease_stock (item_id item) r (snd acc))
            | _ \<Rightarrow> (True, snd acc)))"

fun decrease_loop :: "query set \<Rightarrow> cart_item list \<Rightarrow> bool \<times> database \<Rightarrow> bool \<times> database" where
  "decrease_loop F [] acc = acc"
| "decrease_loop F (item # items) acc = decrease_loop F items (decrease_one F item acc)"

text \<open>The callback receives the first error, or none: the result is the error flag.\<close>

definition productModel_decreaseQuantities ::
  "query set \<Rightarrow> cart_item list \<Rightarrow> database \<Rightarrow> bool \<times> database" where
  "productModel_decreaseQuantities F items db =
     (if items = [] then (False, db) else decrease_loop F items (False, db))"

text \<open>\<open>UPDATE products SET productName=?, quantity=?, price=?, image=? WHERE id=?\<close>\<close>

definition productModel_update ::
  "query set \<Rightarrow> nat \<Rightarrow> string \<Rightarrow> jsnum \<Rightarrow> jsnum \<Rightarrow> string \<Rightarrow> database \<Rightarrow> db_error + database" where
  "productModel_update F pid name qty pr img db =
     (case (qty, pr) of
        (Fin q, Fin r) \<Rightarrow>
          if QProductUpdate \<in> F then Inl DbError
          else Inr (case products db pid of
                      None \<Rightarrow> db
                    | Some p \<Rightarrow>
                        db\<lparr>products := (products db)
                             (pid \<mapsto> \<lparr>p_productName = name, p_quantity = sql_round q,
                                      p_price = r, p_image = img\<rparr>)\<rparr>)
      | _ \<Rightarrow> Inl DbError)"

section \<open>models/cartModel.js\<close>

text \<open>
  \<open>getCartItems\<close>: the user's lines joined with their products, in key order.  The price is
  the number the column value denotes in JavaScript.
\<close>

definition join_row :: "database \<Rightarrow> cart_row \<Rightarrow> (nat \<times> int \<times> string \<times> jsnum \<times> string) option" where
  "join_row db c =
     (case products db (c_productId c) of
        None \<Rightarrow> None
      | Some p \<Rightarrow> Some (c_productId c, c_quantity c, p_productName p, fl (p_price p), p_image p))"

definition cartModel_getCartItems ::
  "query set \<Rightarrow> nat \<Rightarrow> database \<Rightarrow> db_error + (nat \<times> int \<times> string \<times> jsnum \<times> string) list" where
  "cartModel_getCartItems F userId db =
     (if QGetCartItems \<in> F then Inl DbError
      else Inr (List.map_filter (join_row db) (filter (\<lambda>c. c_userId c = userId) (cart_items db))))"

definition cartModel_getItemQuantity ::
  "query set \<Rightarrow> nat \<Rightarrow> nat \<Rightarrow> database \<Rightarrow> db_error + jsnum" where
  "cartModel_getItemQuantity F userId pid db =
     (if QGetItemQuantity \<in> F then Inl DbError
      else (case filter (\<lambda>c. c_userId c = userId \<and> c_productId c = pid) (cart_items db) of
              [] \<Rightarrow> Inr (Fin 0)
            | c # cs \<Rightarrow> Inr (num_of_int (c_quantity c))))"

definition cartModel_removeItem ::
  "query set \<Rightarrow> nat \<Rightarrow> nat \<Rightarrow> database \<Rightarrow> db_error + database" where
  "cartModel_removeItem F userId pid db =
     (if QRemoveItem \<in> F then Inl DbError
      else Inr (db\<lparr>cart_items :=
             filter (\<lambda>c. \<not> (c_userId c = userId \<and> c_productId c = pid)) (cart_items db)\<rparr>))"

text \<open>\<open>INSERT ... ON DUPLICATE KEY UPDATE quantity = VALUES(quantity)\<close>\<close>

definition upsert_quantity :: "nat \<Rightarrow> nat \<Rightarrow> int \<Rightarrow> cart_row list \<Rightarrow> cart_row list" where
  "upsert_quantity userId pid q rows =
     (if \<exists>c \<in> set rows. c_userId c = userId \<and> c_productId c = pid
      then map (\<lambda>c. if c_userId c = userId \<and> c_productId c = pid then c\<lparr>c_quantity := q\<rparr> else c) rows
      else rows @ [\<lparr>c_userId = userId, c_productId = pid, c_quantity = q\<rparr>])"

definition cartModel_setQuantity ::
  "query set \<Rightarrow> nat \<Rightarrow> nat \<Rightarrow> jsnum \<Rightarrow> database \<Rightarrow> db_error + database" where
  "cartModel_setQuantity F userId pid qty db =
     (if js_le qty (Fin 0) then cartModel_removeItem F userId pid db
      else (case qty of
              Fin r \<Rightarrow>
                if QSetQuantity \<in> F then Inl DbError
                else Inr (db\<lparr>cart_items := upsert_quantity userId pid (sql_round r) (cart_items db)\<rparr>)
            | _ \<Rightarrow> Inl DbError))"

definition cartModel_clearCart :: "query set \<Rightarrow> nat \<Rightarrow> database \<Rightarrow> db_error + database" where
  "cartModel_clearCart F userId db =
     (if QClearCart \<in> F then Inl DbError
      else Inr (db\<lparr>cart_items := filter (\<lambda>c. c_userId c \<noteq> userId) (cart_items db)\<rparr>))"

section \<open>models/orderModel.js\<close>

definition ORDER_STATUSES :: "string list" where
  "ORDER_STATUSES =
     [''Pending for delivery'', ''Order delivered'', ''Order completed'', ''Order cancelled'']"

definition DEFAULT_ORDER_STATUS :: string where
  "DEFAULT_ORDER_STATUS = hd ORDER_STATUSES"

definition normalizeStatus :: "jsval \<Rightarrow> string" where
  "normalizeStatus status =
     (case status of
        Str s \<Rightarrow>
          if trim s = [] then DEFAULT_ORDER_STATUS
          else (case find (\<lambda>opt. toLowerCase opt = toLowerCase (trim s)) ORDER_STATUSES of
                  Some match \<Rightarrow> match
                | None \<Rightarrow> DEFAULT_ORDER_STATUS)
      | _ \<Rightarrow> DEFAULT_ORDER_STATUS)"

definition formatMoney :: "jsval \<Rightarrow> jsnum" where
  "formatMoney v = toFixed2 (if truthy_num (to_number v) then to_number v else Fin 0)"

record totals =
  t_subtotal :: jsval
  t_taxAmount :: jsval
  t_total :: jsval
  t_status :: jsval

definition create_total :: "totals \<Rightarrow> jsnum" where
  "create_total payload =
     formatMoney (Num (if isFinite (to_number (t_total payload)) then to_number (t_total payload)
                       else js_add (formatMoney (t_subtotal payload)) (formatMoney (t_taxAmount payload))))"

definition orderModel_create ::
  "query set \<Rightarrow> nat \<Rightarrow> string \<Rightarrow> totals \<Rightarrow> database \<Rightarrow> db_error + nat \<times> database" where
  "orderModel_create F userId invoiceNumber payload db =
     (let subtotal = formatMoney (t_subtotal payload);
          taxAmount = formatMoney (t_taxAmount payload);
          totalAmount = create_total payload;
          normalizedStatus = normalizeStatus (js_or (t_status payload) (Str DEFAULT_ORDER_STATUS))
      in if QOrderCreate \<in> F \<or> \<not> (isFinite subtotal \<and> isFinite taxAmount \<and> isFinite totalAmount)
         then Inl DbError
         else Inr (next_order_id db,
                db\<lparr>orders := orders db @
                     [\<lparr>o_id = next_order_id db, o_invoiceNumber = invoiceNumber, o_userId = userId,
                       o_subtotal = subtotal, o_tax_amount = taxAmount, o_total = totalAmount,
                       o_status = normalizedStatus\<rparr>],
                   next_order_id := Suc (next_order_id db)\<rparr>))"

record update_data =
  u_invoiceNumber :: string
  u_subtotal :: jsval
  u_taxAmount :: jsval
  u_total :: jsval
  u_status :: jsval

fun is_number :: "jsval \<Rightarrow> bool" where
  "is_number (Num n) = True"
| "is_number v = False"

definition safeSubtotal :: "update_data \<Rightarrow> jsnum" where
  "safeSubtotal d = formatMoney (if is_number (u_subtotal d) then u_subtotal d else u_total d)"

definition safeTaxAmount :: "update_data \<Rightarrow> jsnum" where
  "safeTaxAmount d = formatMoney (if is_number (u_taxAmount d) then u_taxAmount d else Num (Fin 0))"

definition safeTotal :: "update_data \<Rightarrow> jsnum" where
  "safeTotal d = formatMoney (if is_number (u_total d) then u_total d
                              else Num (js_add (safeSubtotal d) (safeTaxAmount d)))"

definition orderModel_update ::
  "query set \<Rightarrow> nat \<Rightarrow> update_data \<Rightarrow> database \<Rightarrow> db_error + database" where
  "orderModel_update F orderId d db =
     (if QOrderUpdate \<in> F
         \<or> \<not> (isFinite (safeSubtotal d) \<and> isFinite (safeTaxAmount d) \<and> isFinite (safeTotal d))
      then Inl DbError
      else Inr (db\<lparr>orders :=
             map (\<lambda>row. if o_id row = orderId
                         then row\<lparr>o_invoiceNumber := u_invoiceNumber d,
                                  o_subtotal := safeSubtotal d,
                                  o_tax_amount := safeTaxAmount d,
                                  o_total := safeTotal d,
                                  o_status := normalizeStatus (u_status d)\<rparr>
                         else row) (orders db)\<rparr>))"

section \<open>models/orderItemModel.js\<close>

definition order_item_row :: "nat \<Rightarrow> cart_item \<Rightarrow> item_row" where
  "order_item_row orderId item =
     \<lparr>i_orderId = orderId, i_productId = item_id item, i_productName = item_productName item,
      i_unitPrice = item_price item, i_quantity = item_quantity item,
      i_subtotal = js_mul (item_price item) (item_quantity item)\<rparr>"

definition item_row_ok :: "item_row \<Rightarrow> bool" where
  "item_row_ok r = (isFinite (i_unitPrice r) \<and> isFinite (i_quantity r) \<and> isFinite (i_subtotal r))"

definition orderItemModel_createMany ::
  "query set \<Rightarrow> nat \<Rightarrow> cart_item list \<Rightarrow> database \<Rightarrow> db_error + database" where
  "orderItemModel_createMany F orderId items db =
     (if items = [] then Inr db
      else if QCreateMany \<in> F \<or> \<not> list_all item_row_ok (map (order_item_row orderId) items)
      then Inl DbError
      else Inr (db\<lparr>order_items := order_items db @ map (order_item_row orderId) items\<rparr>))"

definition orderItemModel_getByOrder :: "nat \<Rightarrow> database \<Rightarrow> item_row list" where
  "orderItemModel_getByOrder orderId db = filter (\<lambda>r. i_orderId r = orderId) (order_items db)"

section \<open>controllers/cartController.js\<close>

definition TAX_RATE :: jsnum where
  "TAX_RATE = fl (9 / 100)"

record checkout_view =
  v_cart :: "cart_item list"
  v_invoiceDate :: nat
  v_invoiceNumber :: string
  v_subtotal :: jsnum
  v_taxAmount :: jsnum
  v_total :: jsnum

datatype response = Redirect string | Send nat string | RenderCheckout checkout_view

definition insufficientStockMessage :: "string \<Rightarrow> string" where
  "insufficientStockMessage productName = ''Don't have sufficient stock for '' @ productName @ ''.''"

definition mapCartRow :: "nat \<times> int \<times> string \<times> jsnum \<times> string \<Rightarrow> cart_item" where
  "mapCartRow row =
     (case row of (rid, q, name, pr, img) \<Rightarrow>
        \<lparr>item_id = rid, item_productName = name, item_price = pr, item_image = img,
         item_quantity = (if truthy_num (num_of_int q) then num_of_int q else Fin 1)\<rparr>)"

definition mapCartRows :: "(nat \<times> int \<times> string \<times> jsnum \<times> string) list \<Rightarrow> cart_item list" where
  "mapCartRows rows = map mapCartRow rows"

definition redirect_target :: "jsval \<Rightarrow> string" where
  "redirect_target v =
     (case js_or v (Str []) of
        Str s \<Rightarrow> if toLowerCase s = ''cart'' then ''/cart'' else ''/shopping''
      | _ \<Rightarrow> ''/shopping'')"

text \<open>
  \<open>add\<close>: \<open>bq\<close> and \<open>br\<close> are \<open>req.body.quantity\<close> and \<open>req.body.redirect\<close>, \<open>msgs\<close> the flash
  messages of the session.  The result is the response, the session messages and the
  database.
\<close>

definition requestedQty :: "jsval \<Rightarrow> jsnum" where
  "requestedQty bq = js_max (Fin 1) (to_number (js_or bq (Num (Fin 1))))"

definition availableQty :: "product \<Rightarrow> jsnum" where
  "availableQty p = (if truthy_num (num_of_int (p_quantity p)) then num_of_int (p_quantity p) else Fin 0)"

definition add ::
  "query set \<Rightarrow> nat \<Rightarrow> nat \<Rightarrow> jsval \<Rightarrow> jsval \<Rightarrow> string list \<Rightarrow> database
     \<Rightarrow> response \<times> string list \<times> database" where
  "add F userId productId bq br msgs db =
     (case productModel_getById F productId db of
        Inl err \<Rightarrow> (Send 500 ''Database error'', msgs, db)
      | Inr None \<Rightarrow> (Send 404 ''Not found'', msgs, db)
      | Inr (Some product) \<Rightarrow>
          if js_le (availableQty product) (Fin 0)
          then (Redirect (redirect_target br), [insufficientStockMessage (p_productName product)], db)
          else (case cartModel_getItemQuantity F userId productId db of
                  Inl err2 \<Rightarrow> (Send 500 ''Database error'', msgs, db)
                | Inr currentQty \<Rightarrow>
                    let maxAddable = js_sub (availableQty product) currentQty in
                    if js_le maxAddable (Fin 0) \<or> js_gt (requestedQty bq) maxAddable
                    then (Redirect (redirect_target br),
                          [insufficientStockMessage (p_productName product)], db)
                    else (case cartModel_setQuantity F userId productId
                                 (js_add currentQty (requestedQty bq)) db of
                            Inl err3 \<Rightarrow> (Send 500 ''Database error'', msgs, db)
                          | Inr db' \<Rightarrow> (Redirect (redirect_target br), msgs, db'))))"

definition clampQty :: "jsval \<Rightarrow> jsnum" where
  "clampQty bq =
     (let qty = to_number (js_or bq (Num (Fin 1)));
          qty1 = (if \<not> isFinite qty \<or> js_lt qty (Fin 1) then Fin 1 else qty)
      in if js_gt qty1 (Fin 999) then Fin 999 else qty1)"

definition updateQuantity ::
  "query set \<Rightarrow> nat \<Rightarrow> nat \<Rightarrow> jsval \<Rightarrow> string list \<Rightarrow> database
     \<Rightarrow> response \<times> string list \<times> database" where
  "updateQuantity F userId pid bq msgs db =
     (case productModel_getById F pid db of
        Inl err \<Rightarrow> (Send 500 ''Database error'', msgs, db)
      | Inr None \<Rightarrow> (Send 404 ''Not found'', msgs, db)
      | Inr (Some product) \<Rightarrow>
          if js_le (availableQty product) (Fin 0)
          then (case cartModel_removeItem F userId pid db of
                  Inl err2 \<Rightarrow>
                    (Send 500 ''Database error'', [insufficientStockMessage (p_productName product)], db)
                | Inr db' \<Rightarrow>
                    (Redirect ''/cart'', [insufficientStockMessage (p_productName product)], db'))
          else
            let capped = js_gt (clampQty bq) (availableQty product);
                qty = (if capped then availableQty product else clampQty bq);
                msgs' = (if capped then [insufficientStockMessage (p_productName product)] else msgs)
            in (case cartModel_setQuantity F userId pid qty db of
                  Inl err3 \<Rightarrow> (Send 500 ''Database error'', msgs', db)
                | Inr db' \<Rightarrow> (Redirect ''/cart'', msgs', db')))"

text \<open>The totals of \<open>checkout\<close>, in the order the code computes them.\<close>

definition cart_subtotal :: "cart_item list \<Rightarrow> jsnum" where
  "cart_subtotal cart =
     foldl (\<lambda>sum item. js_add sum (js_mul (item_price item) (item_quantity item))) (Fin 0) cart"

definition cart_taxAmount :: "cart_item list \<Rightarrow> jsnum" where
  "cart_taxAmount cart = toFixed2 (js_mul (cart_subtotal cart) TAX_RATE)"

definition cart_total :: "cart_item list \<Rightarrow> jsnum" where
  "cart_total cart = toFixed2 (js_add (cart_subtotal cart) (cart_taxAmount cart))"

text \<open>\<open>checkout\<close>: \<open>now\<close> is the value of \<open>new Date().getTime()\<close>.\<close>

definition checkout ::
  "query set \<Rightarrow> nat \<Rightarrow> nat \<Rightarrow> string list \<Rightarrow> database \<Rightarrow> response \<times> string list \<times> database" where
  "checkout F now userId msgs db =
     (case cartModel_getCartItems F userId db of
        Inl err \<Rightarrow> (Send 500 ''Database error'', msgs, db)
      | Inr rows \<Rightarrow>
          let cart = mapCartRows rows in
          if cart = [] then (Redirect ''/cart'', [''Your cart is empty.''], db)
          else
            let invoiceNumber = ''INV-'' @ string_of_nat now;
                payload = \<lparr>t_subtotal = Num (cart_subtotal cart), t_taxAmount = Num (cart_taxAmount cart),
                           t_total = Num (cart_total cart), t_status = Undefined\<rparr>
            in (case orderModel_create F userId invoiceNumber payload db of
                  Inl err2 \<Rightarrow> (Send 500 ''Database error'', msgs, db)
                | Inr (orderId, db1) \<Rightarrow>
                    (case orderItemModel_createMany F orderId cart db1 of
                       Inl err3 \<Rightarrow> (Send 500 ''Database error'', msgs, db1)
                     | Inr db2 \<Rightarrow>
                         (case productModel_decreaseQuantities F cart db2 of
                            (True, db3) \<Rightarrow> (Send 500 ''Database error'', msgs, db3)
                          | (False, db3) \<Rightarrow>
                              (case cartModel_clearCart F userId db3 of
                                 Inl err5 \<Rightarrow> (Send 500 ''Database error'', msgs, db3)
                               | Inr db4 \<Rightarrow>
                                   (RenderCheckout
                                      \<lparr>v_cart = cart, v_invoiceDate = now,
                                       v_invoiceNumber = invoiceNumber,
                                       v_subtotal = cart_subtotal cart,
                                       v_taxAmount = cart_taxAmount cart,
                                       v_total = cart_total cart\<rparr>, msgs, db4))))))"

section \<open>controllers/adminOrdersController.js\<close>

definition STATUS_OPTIONS :: "string list" where
  "STATUS_OPTIONS = ORDER_STATUSES"

definition statusValue :: "jsval \<Rightarrow> string option" where
  "statusValue status =
     (case status of
        Str s \<Rightarrow> if trim s \<in> set STATUS_OPTIONS then Some (trim s) else None
      | _ \<Rightarrow> None)"

definition update_errors :: "jsval \<Rightarrow> jsval \<Rightarrow> jsval \<Rightarrow> string list" where
  "update_errors b_invoiceNumber b_total b_status =
     (if \<not> truthy b_invoiceNumber then [''Invoice number is required.''] else [])
     @ (if \<not> isFinite (to_number b_total) \<or> js_lt (to_number b_total) (Fin 0)
        then [''Total must be a positive number.''] else [])
     @ (if statusValue b_status = None then [''Please select a valid order status.''] else [])"

definition edit_subtotal :: "jsnum \<Rightarrow> jsnum" where
  "edit_subtotal parsedTotal = toFixed2 (js_div parsedTotal (js_add (Fin 1) TAX_RATE))"

definition edit_taxAmount :: "jsnum \<Rightarrow> jsnum" where
  "edit_taxAmount parsedTotal =
     (if js_lt (toFixed2 (js_sub parsedTotal (edit_subtotal parsedTotal))) (Fin 0) then Fin 0
      else toFixed2 (js_sub parsedTotal (edit_subtotal parsedTotal)))"

definition the_string :: "jsval \<Rightarrow> string" where
  "the_string v = (case v of Str s \<Rightarrow> s | _ \<Rightarrow> [])"

definition adminOrders_update ::
  "query set \<Rightarrow> nat \<Rightarrow> jsval \<Rightarrow> jsval \<Rightarrow> jsval \<Rightarrow> string list \<Rightarrow> database
     \<Rightarrow> response \<times> string list \<times> database" where
  "adminOrders_update F orderId b_invoiceNumber b_total b_status msgs db =
     (if update_errors b_invoiceNumber b_total b_status \<noteq> []
      then (Redirect (''/admin/orders/'' @ string_of_nat orderId @ ''/edit''),
            update_errors b_invoiceNumber b_total b_status, db)
      else
        let updateData =
              \<lparr>u_invoiceNumber = the_string b_invoiceNumber,
               u_subtotal = Num (edit_subtotal (to_number b_total)),
               u_taxAmount = Num (edit_taxAmount (to_number b_total)),
               u_total = Num (to_number b_total),
               u_status = (case statusValue b_status of Some s \<Rightarrow> Str s | None \<Rightarrow> Null)\<rparr>
        in (case orderModel_update F orderId updateData db of
              Inl err \<Rightarrow> (Redirect (''/admin/orders/'' @ string_of_nat orderId @ ''/edit''),
                          [''Failed to update order''], db)
            | Inr db' \<Rightarrow> (Redirect ''/admin/orders'', [''Order updated''], db')))"

section \<open>controllers/productController.js\<close>

text \<open>
  \<open>update\<close>: the form fields go to the model through \<open>Number\<close>, with no validation.  The
  image name is the uploaded file's or the current one.
\<close>

definition productController_update ::
  "query set \<Rightarrow> nat \<Rightarrow> jsval \<Rightarrow> jsval \<Rightarrow> jsval \<Rightarrow> string \<Rightarrow> database \<Rightarrow> response \<times> database" where
  "productController_update F pid b_name b_quantity b_price img db =
     (case productModel_update F pid (the_string b_name) (to_number b_quantity)
             (to_number b_price) img db of
        Inl err \<Rightarrow> (Send 500 ''Database error'', db)
      | Inr db' \<Rightarrow> (Redirect ''/inventory'', db'))"

section \<open>Notions of the specification\<close>

text \<open>Every product of the catalog has a stock of at least zero.\<close>

definition stock_nonneg :: "database \<Rightarrow> bool" where
  "stock_nonneg db = (\<forall>p \<in> ran (products db). 0 \<le> p_quantity p)"

text \<open>The quantity of a product in a user's cart, zero when there is no line.\<close>

definition cart_quantity :: "nat \<Rightarrow> nat \<Rightarrow> database \<Rightarrow> int" where
  "cart_quantity userId pid db =
     (case filter (\<lambda>c. c_userId c = userId \<and> c_productId c = pid) (cart_items db) of
        [] \<Rightarrow> 0
      | c # cs \<Rightarrow> c_quantity c)"

text \<open>
  The inverse tax calculation in the words of the specification: the subtotal is the total
  divided by 1.09 and rounded to two decimals, the tax is the total minus that subtotal,
  rounded to two decimals and not below zero.
\<close>

definition inverse_subtotal :: "jsnum \<Rightarrow> jsnum" where
  "inverse_subtotal t = toFixed2 (js_div t (fl (109 / 100)))"

definition inverse_taxAmount :: "jsnum \<Rightarrow> jsnum" where
  "inverse_taxAmount t = js_max (Fin 0) (toFixed2 (js_sub t (inverse_subtotal t)))"

text \<open>
  The stages of the checkout pipeline: the cart it works on, the order header it inserts,
  and the database after the header, after the lines, after the stock update and after
  the cart is cleared.
\<close>

definition user_cart :: "nat \<Rightarrow> database \<Rightarrow> cart_item list" where
  "user_cart userId db =
     mapCartRows (List.map_filter (join_row db) (filter (\<lambda>c. c_userId c = userId) (cart_items db)))"

definition checkout_payload :: "cart_item list \<Rightarrow> totals" where
  "checkout_payload cart =
     \<lparr>t_subtotal = Num (cart_subtotal cart), t_taxAmount = Num (cart_taxAmount cart),
      t_total = Num (cart_total cart), t_status = Undefined\<rparr>"

definition order_header :: "nat \<Rightarrow> nat \<Rightarrow> database \<Rightarrow> order_row" where
  "order_header now userId db =
     \<lparr>o_id = next_order_id db, o_invoiceNumber = ''INV-'' @ string_of_nat now, o_userId = userId,
      o_subtotal = formatMoney (Num (cart_subtotal (user_cart userId db))),
      o_tax_amount = formatMoney (Num (cart_taxAmount (user_cart userId db))),
      o_total = create_total (checkout_payload (user_cart userId db)),
      o_status = ''Pending for delivery''\<rparr>"

definition totals_storable :: "cart_item list \<Rightarrow> bool" where
  "totals_storable cart =
     (isFinite (formatMoney (Num (cart_subtotal cart)))
      \<and> isFinite (formatMoney (Num (cart_taxAmount cart)))
      \<and> isFinite (create_total (checkout_payload cart)))"

definition lines_storable :: "cart_item list \<Rightarrow> bool" where
  "lines_storable cart = list_all item_row_ok (map (order_item_row 0) cart)"

definition after_header :: "nat \<Rightarrow> nat \<Rightarrow> database \<Rightarrow> database" where
  "after_header now userId db =
     db\<lparr>orders := orders db @ [order_header now userId db],
        next_order_id := Suc (next_order_id db)\<rparr>"

definition after_lines :: "nat \<Rightarrow> nat \<Rightarrow> database \<Rightarrow> database" where
  "after_lines now userId db =
     (after_header now userId db)
       \<lparr>order_items := order_items db
          @ map (order_item_row (next_order_id db)) (user_cart userId db)\<rparr>"

definition after_stock :: "query set \<Rightarrow> nat \<Rightarrow> nat \<Rightarrow> database \<Rightarrow> database" where
  "after_stock F now userId db =
     snd (productModel_decreaseQuantities F (user_cart userId db) (after_lines now userId db))"

definition stock_failed :: "query set \<Rightarrow> nat \<Rightarrow> nat \<Rightarrow> database \<Rightarrow> bool" where
  "stock_failed F now userId db =
     fst (productModel_decreaseQuantities F (user_cart userId db) (after_lines now userId db))"

definition after_clear :: "query set \<Rightarrow> nat \<Rightarrow> nat \<Rightarrow> database \<Rightarrow> database" where
  "after_clear F now userId db =
     (after_stock F now userId db)
       \<lparr>cart_items := filter (\<lambda>c. c_userId c \<noteq> userId) (cart_items db)\<rparr>"

definition checkout_summary :: "nat \<Rightarrow> cart_item list \<Rightarrow> checkout_view" where
  "checkout_summary now cart =
     \<lparr>v_cart = cart, v_invoiceDate = now, v_invoiceNumber = ''INV-'' @ string_of_nat now,
      v_subtotal = cart_subtotal cart, v_taxAmount = cart_taxAmount cart,
      v_total = cart_total cart\<rparr>"

section \<open>Example data\<close>

text \<open>
  A catalog with one product, ten dollars a piece and five in stock, and the cart of user 7
  holding two of it.  User 8 has no cart.
\<close>

definition apple :: product where
  "apple = \<lparr>p_productName = ''Apple'', p_quantity = 5, p_price = 10, p_image = ''apple.png''\<rparr>"

definition shop_db :: database where
  "shop_db =
     \<lparr>products = [3 \<mapsto> apple],
      cart_items = [\<lparr>c_userId = 7, c_productId = 3, c_quantity = 2\<rparr>],
      orders = [], order_items = [], next_order_id = 1\<rparr>"

text \<open>The same shop after the last apple was sold.\<close>

definition soldout_db :: database where
  "soldout_db = shop_db\<lparr>products := [3 \<mapsto> apple\<lparr>p_quantity := 0\<rparr>]\<rparr>"

text \<open>
  A catalog whose product is priced 2.675, with one unit in the cart of user 7.
\<close>

definition odd_db :: database where
  "odd_db =
     \<lparr>products = [3 \<mapsto> apple\<lparr>p_price := 2675 / 1000\<rparr>],
      cart_items = [\<lparr>c_userId = 7, c_productId = 3, c_quantity = 1\<rparr>],
      orders = [], order_items = [], next_order_id = 1\<rparr>"

text \<open>The same shop with 2000 apples in stock.\<close>

definition warehouse_db :: database where
  "warehouse_db = shop_db\<lparr>products := [3 \<mapsto> apple\<lparr>p_quantity := 2000\<rparr>]\<rparr>"

text \<open>The shop with one earlier order, number 4, of user 7.\<close>

definition ledger_db :: database where
  "ledger_db =
     shop_db\<lparr>orders := [\<lparr>o_id = 4, o_invoiceNumber = ''INV-41'', o_userId = 7, o_subtotal = Fin 5,
                          o_tax_amount = Fin 0, o_total = Fin 5,
                          o_status = ''Pending for delivery''\<rparr>],
             next_order_id := 5\<rparr>"

text \<open>An admin edit of order 1 that gives a status outside the allowed values.\<close>

definition edit_shipped :: update_data where
  "edit_shipped =
     \<lparr>u_invoiceNumber = ''INV-43'', u_subtotal = Num (Fin 20),
      u_taxAmount = Num (Fin (8106479329266893 / 4503599627370496)),
      u_total = Num (Fin (6136154492292301 / 281474976710656)),
      u_status = Str ''shipped''\<rparr>"

text \<open>The same edit with an allowed status in lower case between two spaces.\<close>

definition edit_padded :: update_data where
  "edit_padded = edit_shipped\<lparr>u_status := Str '' order delivered ''\<rparr>"

text \<open>The cart line of user 7, as \<open>mapCartRows\<close> yields it.\<close>

definition apple_line :: cart_item where
  "apple_line = \<lparr>item_id = 3, item_productName = ''Apple'', item_price = Fin 10,
     item_image = ''apple.png'', item_quantity = Fin 2\<rparr>"

section \<open>Properties of the number model\<close>

lemma pow2_pos: "0 < pow2 e"
  by (simp add: pow2_def)

lemma pow2_add: "pow2 (a + b) = pow2 a * pow2 b"
proof -
  have "pow2 e = 2 powi e" for e
    by (simp add: pow2_def power_int_def field_simps)
  then show ?thesis by (simp add: power_int_add)
qed

lemma pow2_mono: "a \<le> b \<Longrightarrow> pow2 a \<le> pow2 b"
proof -
  have "pow2 e = 2 powi e" for e
    by (simp add: pow2_def power_int_def field_simps)
  then show "a \<le> b \<Longrightarrow> pow2 a \<le> pow2 b"
    by (simp add: power_int_increasing)
qed

lemma pow2_nat: "pow2 (int n) = 2 ^ n"
  by (simp add: pow2_def)

lemma bits_bounds: "0 < n \<Longrightarrow> 2 ^ (bits n - 1) \<le> n \<and> n < 2 ^ bits n"
proof (induction n rule: bits.induct)
  case (1 n)
  show ?case
  proof (cases "n div 2 = 0")
    case True
    with "1.prems" have "n = 1" by presburger
    then show ?thesis by (simp add: bits.simps)
  next
    case False
    then have pos: "0 < n div 2" by simp
    from "1.IH" [OF _ pos] "1.prems"
    have ih: "2 ^ (bits (n div 2) - 1) \<le> n div 2" "n div 2 < 2 ^ bits (n div 2)"
      by auto
    have b: "bits n = Suc (bits (n div 2))"
      using "1.prems" by (subst bits.simps) simp
    have bpos: "0 < bits (n div 2)"
      using pos by (subst bits.simps) simp
    then obtain k where k: "bits (n div 2) = Suc k" by (cases "bits (n div 2)") auto
    from ih k have "2 * 2 ^ k \<le> n" "n < 2 * 2 ^ Suc k" by auto
    with b k show ?thesis by simp
  qed
qed

lemma bits_zero: "bits 0 = 0"
  by (simp add: bits.simps)

lemma ilog2_bounds:
  assumes "0 < x"
  shows "pow2 (ilog2 x) \<le> x \<and> x < pow2 (ilog2 x + 1)"
proof (cases "1 \<le> x")
  case True
  define n where "n = nat \<lfloor>x\<rfloor>"
  have npos: "0 < n" using True by (simp add: n_def)
  have nx: "of_nat n \<le> x" "x < of_nat n + 1"
  proof -
    have c: "of_int \<lfloor>x\<rfloor> \<le> x" "x < of_int \<lfloor>x\<rfloor> + 1" by linarith+
    have "int n = \<lfloor>x\<rfloor>" using True by (simp add: n_def)
    then have "(of_nat n :: rat) = of_int \<lfloor>x\<rfloor>"
      by (metis of_int_of_nat_eq)
    with c show "of_nat n \<le> x" "x < of_nat n + 1" by simp_all
  qed
  from bits_bounds [OF npos] have bb: "2 ^ (bits n - 1) \<le> n" "n < 2 ^ bits n" by auto
  have bpos: "0 < bits n" using npos by (subst bits.simps) simp
  have il: "ilog2 x = int (bits n - 1)"
    using True bpos by (simp add: ilog2_def n_def)
  have lo: "pow2 (ilog2 x) \<le> x"
  proof -
    have "(2::rat) ^ (bits n - 1) \<le> of_nat n"
      using bb(1) by (metis of_nat_le_iff of_nat_numeral of_nat_power)
    then have "(2::rat) ^ (bits n - 1) \<le> x" using nx(1) by (rule order_trans)
    moreover have "pow2 (ilog2 x) = 2 ^ (bits n - 1)" by (simp only: il pow2_nat)
    ultimately show ?thesis by (simp only:)
  qed
  have hi: "x < pow2 (ilog2 x + 1)"
  proof -
    have "n + 1 \<le> 2 ^ bits n" using bb(2) by simp
    then have "(of_nat (n + 1) :: rat) \<le> of_nat (2 ^ bits n)"
      by (simp only: of_nat_le_iff)
    then have "(of_nat n :: rat) + 1 \<le> 2 ^ bits n" by simp
    with nx(2) have "x < 2 ^ bits n" by (rule less_le_trans)
    moreover have "ilog2 x + 1 = int (bits n)" using il bpos by simp
    then have "pow2 (ilog2 x + 1) = 2 ^ bits n" by (simp only: pow2_nat)
    ultimately show ?thesis by (simp only:)
  qed
  from lo hi show ?thesis ..
next
  case False
  define y where "y = 1 / x"
  have y1: "1 < y" using False assms by (simp add: y_def)
  define m where "m = nat (\<lceil>y\<rceil> - 1)"
  have mpos: "0 < m" using y1 by (simp add: m_def)
  have my: "of_nat m < y" "y \<le> of_nat m + 1"
  proof -
    have c: "of_int \<lceil>y\<rceil> - 1 < y" "y \<le> of_int \<lceil>y\<rceil>" by linarith+
    have "int m = \<lceil>y\<rceil> - 1" using y1 by (simp add: m_def)
    then have "(of_nat m :: rat) = of_int \<lceil>y\<rceil> - 1"
      by (metis of_int_1 of_int_diff of_int_of_nat_eq)
    with c show "of_nat m < y" "y \<le> of_nat m + 1" by simp_all
  qed
  from bits_bounds [OF mpos] have bb: "2 ^ (bits m - 1) \<le> m" "m < 2 ^ bits m" by auto
  have bpos: "0 < bits m" using mpos by (subst bits.simps) simp
  have il: "ilog2 x = - int (bits m)"
    using False by (simp add: ilog2_def m_def y_def)
  have ylo: "(2::rat) ^ (bits m - 1) < y"
  proof -
    have "(2::rat) ^ (bits m - 1) \<le> of_nat m"
      using bb(1) by (metis of_nat_le_iff of_nat_numeral of_nat_power)
    then show ?thesis using my(1) by (rule le_less_trans)
  qed
  have yhi: "y \<le> 2 ^ bits m"
  proof -
    have "m + 1 \<le> 2 ^ bits m" using bb(2) by simp
    then have "(of_nat (m + 1) :: rat) \<le> of_nat (2 ^ bits m)"
      by (simp only: of_nat_le_iff)
    then have "(of_nat m :: rat) + 1 \<le> 2 ^ bits m" by simp
    with my(2) show ?thesis by (rule order_trans)
  qed
  have lo: "pow2 (ilog2 x) \<le> x"
  proof -
    have "1 / 2 ^ bits m \<le> 1 / y"
      using yhi y1 by (simp add: frac_le)
    then show ?thesis using bpos assms by (simp add: il pow2_def y_def)
  qed
  have hi: "x < pow2 (ilog2 x + 1)"
  proof -
    have "1 / y < 1 / 2 ^ (bits m - 1)"
      using ylo by (simp add: frac_less2)
    moreover have "pow2 (ilog2 x + 1) = 1 / 2 ^ (bits m - 1)"
      using bpos by (simp add: il pow2_def nat_diff_distrib')
    ultimately show ?thesis using assms by (simp add: y_def)
  qed
  from lo hi show ?thesis ..
qed

lemma round_half_even_of_int: "round_half_even (of_int k) = k"
  by (simp add: round_half_even_def)

lemma round_half_even_error: "\<bar>of_int (round_half_even r) - r\<bar> \<le> 1 / 2"
proof -
  have "of_int \<lfloor>r\<rfloor> \<le> r" "r < of_int \<lfloor>r\<rfloor> + 1" by linarith+
  then show ?thesis
    by (auto simp: round_half_even_def)
qed

lemma fl_of_int:
  assumes "\<bar>n\<bar> < 2 ^ 53"
  shows "fl (of_int n) = Fin (of_int n)"
proof (cases "n = 0")
  case True
  then show ?thesis by (simp add: fl_def)
next
  case False
  define a :: rat where "a = of_int \<bar>n\<bar>"
  have a1: "1 \<le> a" using False by (simp add: a_def)
  have a53: "a < pow2 53"
  proof -
    have "(of_int \<bar>n\<bar> :: rat) < of_int (2 ^ 53)" using assms by (simp only: of_int_less_iff)
    then show ?thesis by (simp add: a_def pow2_def)
  qed
  have apos: "0 < a" using a1 by simp
  define e where "e = ilog2 a"
  from ilog2_bounds [OF apos] have eb: "pow2 e \<le> a" "a < pow2 (e + 1)" by (simp_all add: e_def)
  have e_hi: "e \<le> 52"
  proof (rule ccontr)
    assume "\<not> e \<le> 52"
    then have "pow2 53 \<le> pow2 e" by (intro pow2_mono) simp
    with eb(1) a53 show False by simp
  qed
  have e_lo: "0 \<le> e"
  proof (rule ccontr)
    assume "\<not> 0 \<le> e"
    then have "pow2 (e + 1) \<le> pow2 0" by (intro pow2_mono) simp
    with eb(2) a1 show False by (simp add: pow2_def)
  qed
  have u: "ulp_of a = 1 / 2 ^ nat (52 - e)"
  proof -
    have "max e (- 1022) = e" using e_lo by simp
    then have "ulp_of a = pow2 (e - 52)" by (simp add: ulp_of_def e_def)
    also have "\<dots> = 1 / 2 ^ nat (52 - e)"
      using e_hi by (cases "e = 52") (simp_all add: pow2_def)
    finally show ?thesis .
  qed
  have "a / ulp_of a = of_int (\<bar>n\<bar> * 2 ^ nat (52 - e))"
    unfolding u by (simp add: a_def)
  then have "round_half_even (a / ulp_of a) = \<bar>n\<bar> * 2 ^ nat (52 - e)"
    by (simp only: round_half_even_of_int)
  then have "fl_mag a = of_int (\<bar>n\<bar> * 2 ^ nat (52 - e)) * (1 / 2 ^ nat (52 - e))"
    unfolding fl_mag_def u by (simp only:)
  then have m: "fl_mag a = a"
    by (simp add: a_def)
  have abs_eq: "\<bar>of_int n :: rat\<bar> = a" by (simp add: a_def)
  have small: "\<not> pow2 1024 \<le> a"
  proof -
    have "pow2 53 \<le> pow2 1024" by (intro pow2_mono) simp
    with a53 show ?thesis by simp
  qed
  have nz: "(of_int n :: rat) \<noteq> 0" using False by simp
  have "fl (of_int n) = Fin (if 0 < (of_int n :: rat) then fl_mag a else - fl_mag a)"
    unfolding fl_def abs_eq using nz small m by simp
  also have "(if 0 < (of_int n :: rat) then fl_mag a else - fl_mag a) = of_int n"
    unfolding m by (simp add: a_def)
  finally show ?thesis .
qed

lemma num_of_int_exact: "\<bar>n\<bar> < 2 ^ 53 \<Longrightarrow> num_of_int n = Fin (of_int n)"
  by (simp add: num_of_int_def fl_of_int)

section \<open>Properties of the stock update\<close>

lemma sql_round_of_int: "sql_round (of_int k) = k"
  by (simp add: sql_round_def) linarith

lemma sql_round_nonneg: "0 \<le> v \<Longrightarrow> 0 \<le> sql_round v"
  by (simp add: sql_round_def)

lemma decrease_stock_frame:
  "cart_items (decrease_stock pid r db) = cart_items db"
  "orders (decrease_stock pid r db) = orders db"
  "order_items (decrease_stock pid r db) = order_items db"
  "next_order_id (decrease_stock pid r db) = next_order_id db"
  by (simp_all add: decrease_stock_def split: option.splits)

lemma decrease_one_frame:
  "cart_items (snd (decrease_one F item acc)) = cart_items (snd acc)"
  "orders (snd (decrease_one F item acc)) = orders (snd acc)"
  "order_items (snd (decrease_one F item acc)) = order_items (snd acc)"
  "next_order_id (snd (decrease_one F item acc)) = next_order_id (snd acc)"
  by (simp_all add: decrease_one_def Let_def decrease_stock_frame split: jsnum.splits)

lemma decrease_loop_frame:
  "cart_items (snd (decrease_loop F items acc)) = cart_items (snd acc)
   \<and> orders (snd (decrease_loop F items acc)) = orders (snd acc)
   \<and> order_items (snd (decrease_loop F items acc)) = order_items (snd acc)
   \<and> next_order_id (snd (decrease_loop F items acc)) = next_order_id (snd acc)"
  by (induction items arbitrary: acc) (simp_all add: decrease_one_frame)

lemma decreaseQuantities_frame:
  "cart_items (snd (productModel_decreaseQuantities F items db)) = cart_items db
   \<and> orders (snd (productModel_decreaseQuantities F items db)) = orders db
   \<and> order_items (snd (productModel_decreaseQuantities F items db)) = order_items db
   \<and> next_order_id (snd (productModel_decreaseQuantities F items db)) = next_order_id db"
  using decrease_loop_frame [of F items "(False, db)"]
  by (simp add: productModel_decreaseQuantities_def)

lemma decrease_stock_nonneg: "stock_nonneg db \<Longrightarrow> stock_nonneg (decrease_stock pid r db)"
  by (auto simp: stock_nonneg_def decrease_stock_def ran_def sql_round_nonneg split: option.splits if_splits)

lemma decrease_one_nonneg: "stock_nonneg (snd acc) \<Longrightarrow> stock_nonneg (snd (decrease_one F item acc))"
  by (simp add: decrease_one_def Let_def decrease_stock_nonneg split: jsnum.splits)

lemma decrease_loop_nonneg: "stock_nonneg (snd acc) \<Longrightarrow> stock_nonneg (snd (decrease_loop F items acc))"
  by (induction items arbitrary: acc) (simp_all add: decrease_one_nonneg)

lemma decreaseQuantities_nonneg:
  "stock_nonneg db \<Longrightarrow> stock_nonneg (snd (productModel_decreaseQuantities F items db))"
  using decrease_loop_nonneg [of "(False, db)" F items]
  by (simp add: productModel_decreaseQuantities_def)

lemma decrease_one_sticky: "fst acc \<Longrightarrow> fst (decrease_one F item acc)"
  by (simp add: decrease_one_def Let_def split: jsnum.splits)

lemma decrease_loop_sticky: "fst acc \<Longrightarrow> fst (decrease_loop F items acc)"
  by (induction items arbitrary: acc) (simp_all add: decrease_one_sticky)

lemma decrease_one_other:
  "item_id item \<noteq> pid \<Longrightarrow> products (snd (decrease_one F item acc)) pid = products (snd acc) pid"
  by (simp add: decrease_one_def Let_def decrease_stock_def split: jsnum.splits option.splits)

lemma decrease_loop_other:
  "pid \<notin> item_id ` set items \<Longrightarrow>
   products (snd (decrease_loop F items acc)) pid = products (snd acc) pid"
  by (induction items arbitrary: acc) (simp_all add: decrease_one_other)

lemma decrease_one_line:
  assumes "item_quantity item = Fin (of_int q)" and "1 \<le> q"
    and "products (snd acc) (item_id item) = Some p"
    and "\<not> fst (decrease_one F item acc)"
  shows "products (snd (decrease_one F item acc)) (item_id item)
           = Some (p\<lparr>p_quantity := max 0 (p_quantity p - q)\<rparr>)"
proof -
  have t: "truthy_num (Fin (of_int q))" using assms(2) by (simp add: truthy_num_def)
  have nle: "\<not> js_le (Fin (of_int q)) (Fin 0)" using assms(2) by (simp add: js_le_def)
  have nf: "QDecrease (item_id item) \<notin> F"
    using assms(4) t nle by (auto simp: decrease_one_def Let_def assms(1))
  have m: "max (of_int (p_quantity p) - of_int q) (0::rat) = of_int (max 0 (p_quantity p - q))"
    by (simp add: max_def)
  show ?thesis
    using t nle nf assms(3)
    by (simp add: decrease_one_def Let_def assms(1) decrease_stock_def m sql_round_of_int
        del: of_int_diff)
qed

lemma decrease_loop_line:
  assumes "distinct (map item_id items)" and "item \<in> set items"
    and "item_quantity item = Fin (of_int q)" and "1 \<le> q"
    and "products (snd acc) (item_id item) = Some p"
    and "\<not> fst (decrease_loop F items acc)"
  shows "products (snd (decrease_loop F items acc)) (item_id item)
           = Some (p\<lparr>p_quantity := max 0 (p_quantity p - q)\<rparr>)"
  using assms
proof (induction items arbitrary: acc)
  case Nil
  then show ?case by simp
next
  case (Cons x xs)
  show ?case
  proof (cases "x = item")
    case True
    have notin: "item_id item \<notin> item_id ` set xs" using Cons.prems(1) True by auto
    have nf: "\<not> fst (decrease_one F item acc)"
      using Cons.prems(6) True decrease_loop_sticky by fastforce
    from decrease_one_line [OF Cons.prems(3,4,5) nf]
    show ?thesis using True notin by (simp add: decrease_loop_other)
  next
    case False
    with Cons.prems have in_xs: "item \<in> set xs" by simp
    then have ne: "item_id x \<noteq> item_id item" using Cons.prems(1) by auto
    have pr: "products (snd (decrease_one F x acc)) (item_id item) = Some p"
      using Cons.prems(5) ne by (simp add: decrease_one_other)
    from Cons.IH [OF _ in_xs Cons.prems(3,4) pr] Cons.prems(1,6)
    show ?thesis by simp
  qed
qed

section \<open>The checkout pipeline\<close>

lemma default_status: "DEFAULT_ORDER_STATUS = ''Pending for delivery''"
  by (simp add: DEFAULT_ORDER_STATUS_def ORDER_STATUSES_def)

lemma trim_pending: "trim ''Pending for delivery'' = ''Pending for delivery''"
  by (simp add: trim_def is_ws_def)

lemma normalizeStatus_missing:
  "normalizeStatus (js_or Undefined (Str DEFAULT_ORDER_STATUS)) = ''Pending for delivery''"
  by (simp add: js_or_def normalizeStatus_def default_status trim_pending ORDER_STATUSES_def)

lemma lines_storable_any:
  "list_all item_row_ok (map (order_item_row oid) cart) = lines_storable cart"
  by (simp add: lines_storable_def list_all_iff item_row_ok_def order_item_row_def)

lemma create_checkout:
  "orderModel_create F userId (''INV-'' @ string_of_nat now) (checkout_payload (user_cart userId db)) db =
     (if QOrderCreate \<in> F \<or> \<not> totals_storable (user_cart userId db) then Inl DbError
      else Inr (next_order_id db, after_header now userId db))"
  by (simp add: orderModel_create_def Let_def totals_storable_def after_header_def order_header_def
      checkout_payload_def normalizeStatus_missing)

lemma createMany_checkout:
  "user_cart userId db \<noteq> [] \<Longrightarrow>
   orderItemModel_createMany F (next_order_id db) (user_cart userId db) (after_header now userId db) =
     (if QCreateMany \<in> F \<or> \<not> lines_storable (user_cart userId db) then Inl DbError
      else Inr (after_lines now userId db))"
  by (simp add: orderItemModel_createMany_def lines_storable_any after_lines_def after_header_def)

lemma after_stock_cart: "cart_items (after_stock F now userId db) = cart_items db"
  using decreaseQuantities_frame [of F "user_cart userId db" "after_lines now userId db"]
  by (simp add: after_stock_def after_lines_def after_header_def)

lemma clearCart_checkout:
  "cartModel_clearCart F userId (after_stock F now userId db) =
     (if QClearCart \<in> F then Inl DbError else Inr (after_clear F now userId db))"
  by (simp add: cartModel_clearCart_def after_clear_def after_stock_cart)

lemma checkout_pipeline:
  assumes "QGetCartItems \<notin> F" and "user_cart userId db \<noteq> []"
  shows "checkout F now userId msgs db =
     (if QOrderCreate \<in> F \<or> \<not> totals_storable (user_cart userId db)
      then (Send 500 ''Database error'', msgs, db)
      else if QCreateMany \<in> F \<or> \<not> lines_storable (user_cart userId db)
      then (Send 500 ''Database error'', msgs, after_header now userId db)
      else if stock_failed F now userId db
      then (Send 500 ''Database error'', msgs, after_stock F now userId db)
      else if QClearCart \<in> F
      then (Send 500 ''Database error'', msgs, after_stock F now userId db)
      else (RenderCheckout (checkout_summary now (user_cart userId db)), msgs,
            after_clear F now userId db))"
proof -
  have rows: "cartModel_getCartItems F userId db
      = Inr (List.map_filter (join_row db) (filter (\<lambda>c. c_userId c = userId) (cart_items db)))"
    using assms(1) by (simp add: cartModel_getCartItems_def)
  have cart: "mapCartRows (List.map_filter (join_row db) (filter (\<lambda>c. c_userId c = userId) (cart_items db)))
      = user_cart userId db"
    by (simp add: user_cart_def)
  have pay: "\<lparr>t_subtotal = Num (cart_subtotal (user_cart userId db)),
              t_taxAmount = Num (cart_taxAmount (user_cart userId db)),
              t_total = Num (cart_total (user_cart userId db)), t_status = Undefined\<rparr>
      = checkout_payload (user_cart userId db)"
    by (simp add: checkout_payload_def)
  have dq: "productModel_decreaseQuantities F (user_cart userId db) (after_lines now userId db)
      = (stock_failed F now userId db, after_stock F now userId db)"
    by (simp add: stock_failed_def after_stock_def)
  show ?thesis
    unfolding checkout_def rows sum.case cart Let_def pay create_checkout
    using assms(2)
    by (simp add: createMany_checkout dq clearCart_checkout checkout_summary_def)
qed

section \<open>Evaluation of the example\<close>

lemma floor_numeral_div: "\<lfloor>numeral a / numeral b :: rat\<rfloor> = numeral a div numeral b"
  using floor_divide_of_int_eq [of "numeral a" "numeral b", where ?'a = rat] by simp

lemma ceiling_numeral_div: "\<lceil>numeral a / numeral b :: rat\<rceil> = - ((- numeral a) div numeral b)"
  using floor_divide_of_int_eq [of "- numeral a" "numeral b", where ?'a = rat]
  by (simp add: ceiling_def)

lemmas fl_eval = fl_def fl_mag_def ulp_of_def ilog2_def pow2_def round_half_even_def bits.simps
  floor_numeral_div ceiling_numeral_div

lemma tax_rate_value: "TAX_RATE = Fin (3242591731706757 / 36028797018963968)"
  by (simp add: TAX_RATE_def fl_eval)

lemma fl_10: "fl 10 = Fin 10"
  using fl_of_int [of 10] by simp

lemma num_2: "num_of_int 2 = Fin 2"
  using num_of_int_exact [of 2] by simp


lemma shop_cart: "user_cart 7 shop_db = [apple_line]"
  by (simp add: user_cart_def shop_db_def List.map_filter_def join_row_def apple_def
      mapCartRows_def mapCartRow_def num_2 fl_10 truthy_num_def apple_line_def)

lemma shop_cart_8: "user_cart 8 shop_db = []"
  by (simp add: user_cart_def shop_db_def List.map_filter_def mapCartRows_def)

lemma mul_10_2: "js_mul (Fin 10) (Fin 2) = Fin 20"
  using fl_of_int [of 20] by (simp add: js_mul.simps)

lemma add_0_20: "js_add (Fin 0) (Fin 20) = Fin 20"
  using fl_of_int [of 20] by (simp add: js_add.simps)

lemma shop_subtotal: "cart_subtotal [apple_line] = Fin 20"
  by (simp add: cart_subtotal_def apple_line_def mul_10_2 add_0_20)

lemma mul_20_tax: "js_mul (Fin 20) TAX_RATE = Fin (2026619832316723 / 1125899906842624)"
  by (simp add: tax_rate_value js_mul.simps fl_eval)

lemma fixed_tax: "toFixed2 (Fin (2026619832316723 / 1125899906842624)) = Fin (8106479329266893 / 4503599627370496)"
  by (simp add: toFixed2.simps round_half_up_def fl_eval)

lemma shop_tax: "cart_taxAmount [apple_line] = Fin (8106479329266893 / 4503599627370496)"
  by (simp add: cart_taxAmount_def shop_subtotal mul_20_tax fixed_tax)

lemma add_20_tax: "js_add (Fin 20) (Fin (8106479329266893 / 4503599627370496)) = Fin (6136154492292301 / 281474976710656)"
  by (simp add: js_add.simps fl_eval)

lemma fixed_total: "toFixed2 (Fin (6136154492292301 / 281474976710656)) = Fin (6136154492292301 / 281474976710656)"
  by (simp add: toFixed2.simps round_half_up_def fl_eval)

lemma shop_total: "cart_total [apple_line] = Fin (6136154492292301 / 281474976710656)"
  by (simp add: cart_total_def shop_subtotal shop_tax add_20_tax fixed_total)

lemma fixed_20: "toFixed2 (Fin 20) = Fin 20"
  by (simp add: toFixed2.simps round_half_up_def fl_eval)

lemma fixed_18: "toFixed2 (Fin (8106479329266893 / 4503599627370496)) = Fin (8106479329266893 / 4503599627370496)"
  by (simp add: toFixed2.simps round_half_up_def fl_eval)

lemma fl_18: "fl (9 / 5) = Fin (8106479329266893 / 4503599627370496)"
  by (simp add: fl_eval)

lemma fl_218: "fl (109 / 5) = Fin (6136154492292301 / 281474976710656)"
  by (simp add: fl_eval)

lemma after_header_frame:
  "orders (after_header now userId db) = orders db @ [order_header now userId db]"
  "order_items (after_header now userId db) = order_items db"
  "products (after_header now userId db) = products db"
  "cart_items (after_header now userId db) = cart_items db"
  by (simp_all add: after_header_def)

lemma after_lines_frame:
  "orders (after_lines now userId db) = orders db @ [order_header now userId db]"
  "order_items (after_lines now userId db)
     = order_items db @ map (order_item_row (next_order_id db)) (user_cart userId db)"
  "products (after_lines now userId db) = products db"
  "cart_items (after_lines now userId db) = cart_items db"
  by (simp_all add: after_lines_def after_header_def)

lemma after_stock_frame:
  "orders (after_stock F now userId db) = orders db @ [order_header now userId db]"
  "order_items (after_stock F now userId db)
     = order_items db @ map (order_item_row (next_order_id db)) (user_cart userId db)"
  "cart_items (after_stock F now userId db) = cart_items db"
  using decreaseQuantities_frame [of F "user_cart userId db" "after_lines now userId db"]
  by (simp_all add: after_stock_def after_lines_frame)

lemma after_clear_frame:
  "orders (after_clear F now userId db) = orders db @ [order_header now userId db]"
  "order_items (after_clear F now userId db)
     = order_items db @ map (order_item_row (next_order_id db)) (user_cart userId db)"
  "products (after_clear F now userId db) = products (after_stock F now userId db)"
  "cart_items (after_clear F now userId db) = filter (\<lambda>c. c_userId c \<noteq> userId) (cart_items db)"
  by (simp_all add: after_clear_def after_stock_frame)


lemma shop_formatMoney:
  "formatMoney (Num (Fin 20)) = Fin 20"
  "formatMoney (Num (Fin (8106479329266893 / 4503599627370496))) = Fin (8106479329266893 / 4503599627370496)"
  "formatMoney (Num (Fin (6136154492292301 / 281474976710656))) = Fin (6136154492292301 / 281474976710656)"
  by (simp_all add: formatMoney_def truthy_num_def fixed_20 fixed_18 fixed_total)

lemma shop_create_total:
  "create_total (checkout_payload [apple_line]) = Fin (6136154492292301 / 281474976710656)"
  by (simp add: create_total_def checkout_payload_def shop_total shop_formatMoney)

lemma shop_totals_storable: "totals_storable [apple_line]"
  by (simp add: totals_storable_def shop_subtotal shop_tax shop_create_total shop_formatMoney)

lemma shop_lines_storable: "lines_storable [apple_line]"
  by (simp add: lines_storable_def item_row_ok_def order_item_row_def apple_line_def mul_10_2)

lemma shop_header:
  "order_header 42 7 shop_db =
     \<lparr>o_id = 1, o_invoiceNumber = ''INV-42'', o_userId = 7, o_subtotal = Fin 20,
      o_tax_amount = Fin (8106479329266893 / 4503599627370496),
      o_total = Fin (6136154492292301 / 281474976710656),
      o_status = ''Pending for delivery''\<rparr>"
proof -
  have "string_of_nat 42 = ''42''" by code_simp
  moreover have "next_order_id shop_db = 1" by (simp add: shop_db_def)
  ultimately show ?thesis
    by (simp add: order_header_def shop_cart shop_subtotal shop_tax shop_create_total
        shop_formatMoney)
qed

lemma shop_stock_failed: "stock_failed {QDecrease 3} 42 7 shop_db"
  by (simp add: stock_failed_def shop_cart productModel_decreaseQuantities_def decrease_one_def
      apple_line_def truthy_num_def js_le_def)

section \<open>Properties of the cart operations\<close>

lemma availableQty_exact:
  assumes "\<bar>p_quantity p\<bar> < 2 ^ 53"
  shows "availableQty p = Fin (of_int (p_quantity p))"
  using num_of_int_exact [OF assms] by (auto simp: availableQty_def truthy_num_def)

lemma getItemQuantity_exact:
  assumes "QGetItemQuantity \<notin> F" and "\<bar>cart_quantity userId pid db\<bar> < 2 ^ 53"
  shows "cartModel_getItemQuantity F userId pid db = Inr (Fin (of_int (cart_quantity userId pid db)))"
  using assms num_of_int_exact [of "cart_quantity userId pid db"]
  by (auto simp: cartModel_getItemQuantity_def cart_quantity_def split: list.splits)

lemma js_sub_int:
  assumes "\<bar>a - b\<bar> < 2 ^ 53"
  shows "js_sub (Fin (of_int a)) (Fin (of_int b)) = Fin (of_int (a - b))"
  using fl_of_int [OF assms] by (simp add: js_sub_def js_add.simps)

lemma js_add_int:
  assumes "\<bar>a + b\<bar> < 2 ^ 53"
  shows "js_add (Fin (of_int a)) (Fin (of_int b)) = Fin (of_int (a + b))"
  using fl_of_int [OF assms] by (simp add: js_add.simps)

lemma setQuantity_positive:
  assumes "QSetQuantity \<notin> F" and "0 < k"
  shows "cartModel_setQuantity F userId pid (Fin (of_int k)) db
           = Inr (db\<lparr>cart_items := upsert_quantity userId pid k (cart_items db)\<rparr>)"
  using assms by (simp add: cartModel_setQuantity_def js_le_def sql_round_of_int)

lemma cart_quantity_upsert:
  "cart_quantity userId pid (db\<lparr>cart_items := upsert_quantity userId pid k (cart_items db)\<rparr>) = k"
proof -
  have "filter (\<lambda>c. c_userId c = userId \<and> c_productId c = pid)
          (map (\<lambda>c. if c_userId c = userId \<and> c_productId c = pid then c\<lparr>c_quantity := k\<rparr> else c) rows)
        = map (\<lambda>c. c\<lparr>c_quantity := k\<rparr>) (filter (\<lambda>c. c_userId c = userId \<and> c_productId c = pid) rows)"
    for rows :: "cart_row list"
    by (induction rows) auto
  moreover have "\<not> (\<exists>c \<in> set rows. c_userId c = userId \<and> c_productId c = pid) \<Longrightarrow>
      filter (\<lambda>c. c_userId c = userId \<and> c_productId c = pid) rows = []"
    for rows :: "cart_row list"
    by (induction rows) auto
  moreover have "(\<exists>c \<in> set rows. c_userId c = userId \<and> c_productId c = pid) \<Longrightarrow>
      filter (\<lambda>c. c_userId c = userId \<and> c_productId c = pid) rows \<noteq> []"
    for rows :: "cart_row list"
    by (induction rows) auto
  ultimately show ?thesis
    by (auto simp: cart_quantity_def upsert_quantity_def split: list.splits)
qed

lemma add_outcome:
  assumes "QGetById \<notin> F" and "QGetItemQuantity \<notin> F" and "QSetQuantity \<notin> F"
    and "products db pid = Some p"
    and "requestedQty bq = Fin (of_int q)" and "1 \<le> q"
    and "0 \<le> cart_quantity userId pid db"
    and "\<bar>p_quantity p\<bar> < 2 ^ 52" and "cart_quantity userId pid db < 2 ^ 52"
  shows "add F userId pid bq br msgs db =
     (if q \<le> p_quantity p - cart_quantity userId pid db
      then (Redirect (redirect_target br), msgs,
            db\<lparr>cart_items := upsert_quantity userId pid (cart_quantity userId pid db + q) (cart_items db)\<rparr>)
      else (Redirect (redirect_target br), [insufficientStockMessage (p_productName p)], db))"
proof -
  define s where "s = p_quantity p"
  define c where "c = cart_quantity userId pid db"
  have av: "availableQty p = Fin (of_int s)"
    using assms(8) by (simp add: s_def availableQty_exact)
  have cur: "cartModel_getItemQuantity F userId pid db = Inr (Fin (of_int c))"
    using assms(2,7,9) by (simp add: c_def getItemQuantity_exact)
  have sub: "js_sub (Fin (of_int s)) (Fin (of_int c)) = Fin (of_int (s - c))"
    using assms(7,8,9) by (intro js_sub_int) (simp add: s_def c_def)
  have get: "productModel_getById F pid db = Inr (Some p)"
    using assms(1,4) by (simp add: productModel_getById_def)
  show ?thesis
  proof (cases "q \<le> s - c")
    case True
    then have pos: "0 < s" "0 < s - c" "0 < c + q" using assms(6,7) by (simp_all add: c_def)
    have "q < 2 ^ 52" using True assms(7,8) by (simp add: s_def c_def)
    then have sum: "js_add (Fin (of_int c)) (Fin (of_int q)) = Fin (of_int (c + q))"
      using assms(6,7,9) by (intro js_add_int) (simp add: c_def)
    have set: "cartModel_setQuantity F userId pid (Fin (of_int (c + q))) db
        = Inr (db\<lparr>cart_items := upsert_quantity userId pid (c + q) (cart_items db)\<rparr>)"
      using assms(3) pos(3) by (rule setQuantity_positive)
    show ?thesis
      using True pos
      by (simp add: add_def get av cur sub sum set assms(5) js_le_def js_gt_def Let_def
          del: of_int_add of_int_diff flip: s_def c_def)
  next
    case False
    show ?thesis
      using False assms(6,7)
      by (auto simp: add_def get av cur sub assms(5) js_le_def js_gt_def Let_def
          simp del: of_int_add of_int_diff simp flip: s_def c_def)
  qed
qed

lemma string_to_number_unsigned:
  assumes "trim s = t" and "t \<noteq> []" and "radix_of t = 0"
    and "hd t \<noteq> CHR ''+''" and "hd t \<noteq> CHR ''-''"
  shows "string_to_number s = num_of_literal False (parse_unsigned t)"
  using assms by (simp add: string_to_number_def)

lemma string_to_number_minus:
  assumes "trim s = CHR ''-'' # t"
  shows "string_to_number s = num_of_literal True (parse_unsigned t)"
proof -
  have "radix_of (CHR ''-'' # t) = 0"
    by (simp add: radix_of_def split: list.splits)
  with assms show ?thesis by (simp add: string_to_number_def)
qed

lemma number_3: "string_to_number ''3'' = Fin 3"
proof -
  have "trim ''3'' = ''3''" "radix_of ''3'' = 0" "parse_unsigned ''3'' = LitDec 3 0"
    by code_simp+
  then show ?thesis
    using string_to_number_unsigned [of "''3''" "''3''"] fl_of_int [of 3]
    by (simp add: pow10_def)
qed

lemma requested_3: "requestedQty (Str ''3'') = Fin (of_int 3)"
  by (simp add: requestedQty_def js_or_def number_3 js_max_def)

lemma redirect_default: "redirect_target Undefined = ''/shopping''"
  by (simp add: redirect_target_def js_or_def toLowerCase_def)

lemma number_literals:
  "string_to_number ''0'' = Fin 0"
  "string_to_number ''1'' = Fin 1"
  "string_to_number ''9'' = Fin 9"
  "string_to_number ''-4'' = Fin (- 4)"
  "string_to_number ''abc'' = NaN"
proof -
  have t: "trim ''0'' = ''0''" "trim ''1'' = ''1''" "trim ''9'' = ''9''" "trim ''-4'' = ''-4''"
    "trim ''abc'' = ''abc''"
    by code_simp+
  have r: "radix_of ''0'' = 0" "radix_of ''1'' = 0" "radix_of ''9'' = 0" "radix_of ''abc'' = 0"
    by code_simp+
  have p: "parse_unsigned ''0'' = LitDec 0 0" "parse_unsigned ''1'' = LitDec 1 0"
    "parse_unsigned ''9'' = LitDec 9 0" "parse_unsigned ''4'' = LitDec 4 0"
    "parse_unsigned ''abc'' = LitNaN"
    by code_simp+
  show "string_to_number ''0'' = Fin 0"
    using string_to_number_unsigned [OF t(1)] r(1) p(1) by (simp add: pow10_def fl_def)
  show "string_to_number ''1'' = Fin 1"
    using string_to_number_unsigned [OF t(2)] r(2) p(2) fl_of_int [of 1] by (simp add: pow10_def)
  show "string_to_number ''9'' = Fin 9"
    using string_to_number_unsigned [OF t(3)] r(3) p(3) fl_of_int [of 9] by (simp add: pow10_def)
  show "string_to_number ''-4'' = Fin (- 4)"
    using string_to_number_minus [OF t(4)] p(4) fl_of_int [of "- 4"] by (simp add: pow10_def)
  show "string_to_number ''abc'' = NaN"
    using string_to_number_unsigned [OF t(5)] r(4) p(5) by simp
qed

lemma requested_values:
  "requestedQty Undefined = Fin 1"
  "requestedQty (Str []) = Fin 1"
  "requestedQty (Str ''0'') = Fin 1"
  "requestedQty (Str ''-4'') = Fin 1"
  "requestedQty (Str ''1'') = Fin (of_int 1)"
  "requestedQty (Str ''abc'') = NaN"
  by (simp_all add: requestedQty_def js_or_def truthy_num_def number_literals js_max_def)

lemma shop_user9:
  "products shop_db 3 = Some apple" "cart_quantity 9 3 shop_db = 0"
  "p_quantity apple = 5"
  by (simp_all add: shop_db_def cart_quantity_def apple_def)

lemma add_one_shop:
  "add {} 9 3 (Str ''1'') Undefined [] shop_db
     = (Redirect ''/shopping'', [],
        shop_db\<lparr>cart_items := cart_items shop_db @ [\<lparr>c_userId = 9, c_productId = 3, c_quantity = 1\<rparr>]\<rparr>)"
proof -
  have "add {} 9 3 (Str ''1'') Undefined [] shop_db =
     (if 1 \<le> p_quantity apple - cart_quantity 9 3 shop_db
      then (Redirect (redirect_target Undefined), [],
            shop_db\<lparr>cart_items := upsert_quantity 9 3 (cart_quantity 9 3 shop_db + 1) (cart_items shop_db)\<rparr>)
      else (Redirect (redirect_target Undefined), [insufficientStockMessage (p_productName apple)], shop_db))"
    by (rule add_outcome) (simp_all add: shop_user9 requested_values)
  also have "upsert_quantity 9 3 (cart_quantity 9 3 shop_db + 1) (cart_items shop_db)
      = cart_items shop_db @ [\<lparr>c_userId = 9, c_productId = 3, c_quantity = 1\<rparr>]"
    unfolding shop_user9 by (simp add: upsert_quantity_def shop_db_def)
  finally show ?thesis by (simp add: shop_user9 redirect_default)
qed

lemma add_nan_shop:
  "add {} 9 3 (Str ''abc'') Undefined [] shop_db = (Send 500 ''Database error'', [], shop_db)"
proof -
  have av: "availableQty apple = Fin 5"
    using availableQty_exact [of apple] by (simp add: shop_user9)
  have cur: "cartModel_getItemQuantity {} 9 3 shop_db = Inr (Fin 0)"
    using getItemQuantity_exact [of "{}" 9 3 shop_db] by (simp add: shop_user9)
  have sub: "js_sub (Fin 5) (Fin 0) = Fin 5"
    using js_sub_int [of 5 0] by simp
  have get: "productModel_getById {} 3 shop_db = Inr (Some apple)"
    by (simp add: productModel_getById_def shop_user9)
  show ?thesis
    by (simp add: add_def get av cur sub requested_values js_le_def js_gt_def
        cartModel_setQuantity_def)
qed

lemma clampQty_range: "\<exists>r. clampQty bq = Fin r \<and> 1 \<le> r \<and> r \<le> 999"
  by (cases "to_number (js_or bq (Num (Fin 1)))")
    (auto simp: clampQty_def Let_def js_gt_def)

lemma removeItem_ok:
  "QRemoveItem \<notin> F \<Longrightarrow>
   cartModel_removeItem F userId pid db
     = Inr (db\<lparr>cart_items := filter (\<lambda>c. \<not> (c_userId c = userId \<and> c_productId c = pid)) (cart_items db)\<rparr>)"
  by (simp add: cartModel_removeItem_def)

lemma cart_quantity_removed:
  "cart_quantity userId pid
     (db\<lparr>cart_items := filter (\<lambda>c. \<not> (c_userId c = userId \<and> c_productId c = pid)) (cart_items db)\<rparr>) = 0"
proof -
  have "filter (\<lambda>c. c_userId c = userId \<and> c_productId c = pid)
          (filter (\<lambda>c. \<not> (c_userId c = userId \<and> c_productId c = pid)) rows) = []"
    for rows :: "cart_row list"
    by (induction rows) auto
  then show ?thesis by (simp add: cart_quantity_def)
qed

lemma updateQuantity_outcome:
  assumes "QGetById \<notin> F" and "QRemoveItem \<notin> F" and "QSetQuantity \<notin> F"
    and "products db pid = Some p" and "\<bar>p_quantity p\<bar> < 2 ^ 53"
    and "clampQty bq = Fin r" and "1 \<le> r"
  shows "updateQuantity F userId pid bq msgs db =
     (if p_quantity p \<le> 0
      then (Redirect ''/cart'', [insufficientStockMessage (p_productName p)],
            db\<lparr>cart_items := filter (\<lambda>c. \<not> (c_userId c = userId \<and> c_productId c = pid)) (cart_items db)\<rparr>)
      else if of_int (p_quantity p) < r
      then (Redirect ''/cart'', [insufficientStockMessage (p_productName p)],
            db\<lparr>cart_items := upsert_quantity userId pid (p_quantity p) (cart_items db)\<rparr>)
      else (Redirect ''/cart'', msgs,
            db\<lparr>cart_items := upsert_quantity userId pid (sql_round r) (cart_items db)\<rparr>))"
proof -
  have av: "availableQty p = Fin (of_int (p_quantity p))"
    using assms(5) by (rule availableQty_exact)
  have get: "productModel_getById F pid db = Inr (Some p)"
    using assms(1,4) by (simp add: productModel_getById_def)
  show ?thesis
  proof (cases "p_quantity p \<le> 0")
    case True
    then show ?thesis
      using assms(2) by (simp add: updateQuantity_def get av js_le_def removeItem_ok)
  next
    case False
    then have pos: "0 < p_quantity p" by simp
    show ?thesis
    proof (cases "of_int (p_quantity p) < r")
      case True
      with pos assms(3) show ?thesis
        by (simp add: updateQuantity_def get av js_le_def js_gt_def Let_def assms(6)
            setQuantity_positive)
    next
      case nc: False
      have "cartModel_setQuantity F userId pid (Fin r) db
          = Inr (db\<lparr>cart_items := upsert_quantity userId pid (sql_round r) (cart_items db)\<rparr>)"
        using assms(3,7) by (simp add: cartModel_setQuantity_def js_le_def)
      with pos nc show ?thesis
        by (simp add: updateQuantity_def get av js_le_def js_gt_def Let_def assms(6))
    qed
  qed
qed

lemma clamp_9: "clampQty (Str ''9'') = Fin 9"
  by (simp add: clampQty_def js_or_def number_literals js_gt_def Let_def)

lemma number_more:
  "string_to_number ''5000'' = Fin 5000"
  "string_to_number (CHR 0xA0 # ''4'') = Fin 4"
proof -
  have t: "trim ''5000'' = ''5000''" "trim (CHR 0xA0 # ''4'') = ''4''"
    by code_simp+
  have r: "radix_of ''5000'' = 0" "radix_of ''4'' = 0"
    by code_simp+
  have p: "parse_unsigned ''5000'' = LitDec 5000 0" "parse_unsigned ''4'' = LitDec 4 0"
    by code_simp+
  show "string_to_number ''5000'' = Fin 5000"
    using string_to_number_unsigned [OF t(1)] r(1) p(1) fl_of_int [of 5000] by (simp add: pow10_def)
  show "string_to_number (CHR 0xA0 # ''4'') = Fin 4"
    using string_to_number_unsigned [OF t(2)] r(2) p(2) fl_of_int [of 4] by (simp add: pow10_def)
qed

lemma clamp_values:
  "clampQty (Str ''5000'') = Fin 999"
  "clampQty (Str ''0'') = Fin 1"
  "clampQty (Str ''abc'') = Fin 1"
  "clampQty (Str (CHR 0xA0 # ''4'')) = Fin 4"
  "clampQty Undefined = Fin 1"
  by (simp_all add: clampQty_def js_or_def number_literals number_more js_gt_def Let_def
      truthy_num_def)

lemma clampQty_spec:
  "\<exists>r. clampQty bq = Fin r \<and> 1 \<le> r \<and> r \<le> 999
     \<and> (\<forall>n. to_number (js_or bq (Num (Fin 1))) = Fin n \<longrightarrow> r = max 1 (min 999 n))
     \<and> (\<not> isFinite (to_number (js_or bq (Num (Fin 1)))) \<longrightarrow> r = 1)"
  by (cases "to_number (js_or bq (Num (Fin 1)))")
    (auto simp: clampQty_def Let_def js_gt_def)

lemma warehouse:
  "products warehouse_db 3 = Some (apple\<lparr>p_quantity := 2000\<rparr>)"
  "cart_items warehouse_db = [\<lparr>c_userId = 7, c_productId = 3, c_quantity = 2\<rparr>]"
  by (simp_all add: warehouse_db_def shop_db_def)


section \<open>Properties of the order status\<close>

lemma allowed_statuses:
  "set ORDER_STATUSES
     = {''Pending for delivery'', ''Order delivered'', ''Order completed'', ''Order cancelled''}"
  by (simp add: ORDER_STATUSES_def)

lemma find_in_set: "find P xs = Some x \<Longrightarrow> x \<in> set xs"
  by (induction xs) (auto split: if_splits)

lemma normalizeStatus_allowed: "normalizeStatus v \<in> set ORDER_STATUSES"
proof -
  have d: "DEFAULT_ORDER_STATUS \<in> set ORDER_STATUSES"
    by (simp add: DEFAULT_ORDER_STATUS_def ORDER_STATUSES_def)
  show ?thesis
    by (cases v) (auto simp: normalizeStatus_def d dest: find_in_set split: option.splits)
qed

lemma normalizeStatus_unmatched:
  assumes "\<forall>s. v = Str s \<longrightarrow> toLowerCase (trim s) \<notin> set (map toLowerCase ORDER_STATUSES)"
  shows "normalizeStatus v = ''Pending for delivery''"
proof (cases v)
  case (Str s)
  with assms have n: "toLowerCase (trim s) \<notin> set (map toLowerCase ORDER_STATUSES)" by simp
  show ?thesis
  proof (cases "trim s = []")
    case True
    with Str show ?thesis by (simp add: normalizeStatus_def default_status)
  next
    case False
    have "toLowerCase opt \<noteq> toLowerCase (trim s)" if "opt \<in> set ORDER_STATUSES" for opt
    proof -
      from that have "toLowerCase opt \<in> set (map toLowerCase ORDER_STATUSES)" by simp
      with n show ?thesis by auto
    qed
    then have "find (\<lambda>opt. toLowerCase opt = toLowerCase (trim s)) ORDER_STATUSES = None"
      by (simp add: find_None_iff)
    with Str show ?thesis by (simp add: normalizeStatus_def default_status)
  qed
qed (simp_all add: normalizeStatus_def default_status)

lemma trim_nil: "trim [] = []"
  by (simp add: trim_def)

lemma lowered_nonempty: "toLowerCase t \<noteq> [] \<Longrightarrow> t \<noteq> []"
  by (auto simp: toLowerCase_def)

lemma lower_literals:
  "toLowerCase ''Pending for delivery'' = ''pending for delivery''"
  "toLowerCase ''Order delivered'' = ''order delivered''"
  "toLowerCase ''Order completed'' = ''order completed''"
  "toLowerCase ''Order cancelled'' = ''order cancelled''"
  by code_simp+

lemma normalizeStatus_canonical:
  assumes "opt \<in> set ORDER_STATUSES" and "toLowerCase (trim s) = toLowerCase opt"
  shows "normalizeStatus (Str s) = opt" and "s \<noteq> []"
proof -
  from assms(1) consider "opt = ''Pending for delivery''" | "opt = ''Order delivered''"
    | "opt = ''Order completed''" | "opt = ''Order cancelled''"
    by (auto simp: ORDER_STATUSES_def)
  then have "normalizeStatus (Str s) = opt \<and> trim s \<noteq> []"
  proof cases
    case 1
    with assms(2) have h: "toLowerCase (trim s) = ''pending for delivery''"
      by (simp add: lower_literals)
    then have "toLowerCase (trim s) \<noteq> []" by simp
    then have "trim s \<noteq> []" by (rule lowered_nonempty)
    then show ?thesis
      by (simp add: normalizeStatus_def ORDER_STATUSES_def lower_literals h 1)
  next
    case 2
    with assms(2) have h: "toLowerCase (trim s) = ''order delivered''"
      by (simp add: lower_literals)
    then have "toLowerCase (trim s) \<noteq> []" by simp
    then have "trim s \<noteq> []" by (rule lowered_nonempty)
    then show ?thesis
      by (simp add: normalizeStatus_def ORDER_STATUSES_def lower_literals h 2)
  next
    case 3
    with assms(2) have h: "toLowerCase (trim s) = ''order completed''"
      by (simp add: lower_literals)
    then have "toLowerCase (trim s) \<noteq> []" by simp
    then have "trim s \<noteq> []" by (rule lowered_nonempty)
    then show ?thesis
      by (simp add: normalizeStatus_def ORDER_STATUSES_def lower_literals h 3)
  next
    case 4
    with assms(2) have h: "toLowerCase (trim s) = ''order cancelled''"
      by (simp add: lower_literals)
    then have "toLowerCase (trim s) \<noteq> []" by simp
    then have "trim s \<noteq> []" by (rule lowered_nonempty)
    then show ?thesis
      by (simp add: normalizeStatus_def ORDER_STATUSES_def lower_literals h 4)
  qed
  then show "normalizeStatus (Str s) = opt" and "s \<noteq> []"
    using trim_nil by auto
qed

lemma create_status_unmatched:
  assumes "\<forall>s. v = Str s \<longrightarrow> toLowerCase (trim s) \<notin> set (map toLowerCase ORDER_STATUSES)"
  shows "normalizeStatus (js_or v (Str DEFAULT_ORDER_STATUS)) = ''Pending for delivery''"
proof (cases "truthy v")
  case True
  with assms show ?thesis by (simp add: js_or_def normalizeStatus_unmatched)
next
  case False
  then show ?thesis
    using normalizeStatus_missing by (simp add: js_or_def)
qed

lemma create_status_canonical:
  assumes "opt \<in> set ORDER_STATUSES" and "toLowerCase (trim s) = toLowerCase opt"
  shows "normalizeStatus (js_or (Str s) (Str DEFAULT_ORDER_STATUS)) = opt"
  using normalizeStatus_canonical [OF assms] by (simp add: js_or_def)

lemma orderModel_create_status:
  assumes "orderModel_create F userId invoiceNumber payload db = Inr (oid, db1)"
  shows "\<exists>row. orders db1 = orders db @ [row]
           \<and> o_status row = normalizeStatus (js_or (t_status payload) (Str DEFAULT_ORDER_STATUS))"
  using assms by (simp add: orderModel_create_def Let_def split: if_splits) force

lemma orderModel_update_status:
  assumes "orderModel_update F orderId d db = Inr db2" and "row \<in> set (orders db2)"
  shows "(o_id row = orderId \<longrightarrow> o_status row = normalizeStatus (u_status d))
         \<and> (o_id row \<noteq> orderId \<longrightarrow> row \<in> set (orders db))"
proof -
  from assms(1) have "orders db2 = map (\<lambda>row. if o_id row = orderId
                         then row\<lparr>o_invoiceNumber := u_invoiceNumber d,
                                  o_subtotal := safeSubtotal d,
                                  o_tax_amount := safeTaxAmount d,
                                  o_total := safeTotal d,
                                  o_status := normalizeStatus (u_status d)\<rparr>
                         else row) (orders db)"
    by (simp add: orderModel_update_def split: if_splits) force
  with assms(2) show ?thesis by auto
qed

lemma shipped_unmatched:
  "toLowerCase (trim ''shipped'') \<notin> set (map toLowerCase ORDER_STATUSES)"
  by code_simp

lemma padded_status:
  "'' order delivered '' \<notin> set ORDER_STATUSES"
  "toLowerCase '' order delivered '' \<notin> set (map toLowerCase ORDER_STATUSES)"
  "toLowerCase (trim '' order delivered '') = toLowerCase ''Order delivered''"
  "normalizeStatus (Str '' order delivered '') = ''Order delivered''"
  by code_simp+

lemma shop_create:
  "orderModel_create {} 7 ''INV-42'' (checkout_payload [apple_line]) shop_db
     = Inr (1, after_header 42 7 shop_db)"
proof -
  have "string_of_nat 42 = ''42''" by code_simp
  moreover have "next_order_id shop_db = 1" by (simp add: shop_db_def)
  ultimately show ?thesis
    using create_checkout [of "{}" 7 42 shop_db]
    by (simp add: shop_cart shop_totals_storable)
qed

lemma shop_update:
  "\<exists>db2. orderModel_update {} 1 edit_shipped (after_header 42 7 shop_db) = Inr db2"
proof -
  have "safeSubtotal edit_shipped = Fin 20"
    "safeTaxAmount edit_shipped = Fin (8106479329266893 / 4503599627370496)"
    "safeTotal edit_shipped = Fin (6136154492292301 / 281474976710656)"
    by (simp_all add: safeSubtotal_def safeTaxAmount_def safeTotal_def edit_shipped_def
        shop_formatMoney)
  then show ?thesis by (simp add: orderModel_update_def)
qed

lemma padded_update:
  "orderModel_update {} 1 edit_padded (after_header 42 7 shop_db)
     = Inr (after_header 42 7 shop_db
              \<lparr>orders := [(order_header 42 7 shop_db)
                   \<lparr>o_invoiceNumber := ''INV-43'', o_status := ''Order delivered''\<rparr>]\<rparr>)"
proof -
  have "safeSubtotal edit_padded = Fin 20"
    "safeTaxAmount edit_padded = Fin (8106479329266893 / 4503599627370496)"
    "safeTotal edit_padded = Fin (6136154492292301 / 281474976710656)"
    by (simp_all add: safeSubtotal_def safeTaxAmount_def safeTotal_def edit_shipped_def
        edit_padded_def shop_formatMoney)
  moreover have "u_status edit_padded = Str '' order delivered ''"
    "u_invoiceNumber edit_padded = ''INV-43''"
    by (simp_all add: edit_padded_def edit_shipped_def)
  ultimately show ?thesis
    using shop_header
    by (simp add: orderModel_update_def padded_status after_header_def shop_db_def)
qed

section \<open>Stock along the operations\<close>

lemma stock_nonneg_frame:
  "products db' = products db \<Longrightarrow> stock_nonneg db' = stock_nonneg db"
  by (simp add: stock_nonneg_def)

lemma setQuantity_products:
  "cartModel_setQuantity F userId pid qty db = Inr db' \<Longrightarrow> products db' = products db"
  by (auto simp: cartModel_setQuantity_def cartModel_removeItem_def split: if_splits jsnum.splits)

lemma removeItem_products:
  "cartModel_removeItem F userId pid db = Inr db' \<Longrightarrow> products db' = products db"
  by (auto simp: cartModel_removeItem_def split: if_splits)

lemma add_products: "products (snd (snd (add F userId pid bq br msgs db))) = products db"
  by (auto simp: add_def Let_def split: sum.splits option.splits dest: setQuantity_products)

lemma updateQuantity_products:
  "products (snd (snd (updateQuantity F userId pid bq msgs db))) = products db"
  by (auto simp: updateQuantity_def Let_def split: sum.splits option.splits
      dest: setQuantity_products removeItem_products)

lemma checkout_nonneg:
  assumes "stock_nonneg db"
  shows "stock_nonneg (snd (snd (checkout F now userId msgs db)))"
proof (cases "QGetCartItems \<in> F")
  case True
  with assms show ?thesis by (simp add: checkout_def cartModel_getCartItems_def)
next
  case nf: False
  show ?thesis
  proof (cases "user_cart userId db = []")
    case True
    with nf assms show ?thesis
      by (simp add: checkout_def cartModel_getCartItems_def user_cart_def)
  next
    case False
    have h: "stock_nonneg (after_header now userId db)"
      using assms by (simp add: stock_nonneg_def after_header_def)
    have l: "stock_nonneg (after_lines now userId db)"
      using assms by (simp add: stock_nonneg_def after_lines_def after_header_def)
    have s: "stock_nonneg (after_stock F now userId db)"
      using decreaseQuantities_nonneg [OF l] by (simp add: after_stock_def)
    have c: "stock_nonneg (after_clear F now userId db)"
      using s by (simp add: stock_nonneg_def after_clear_def)
    show ?thesis
      using assms h s c by (simp add: checkout_pipeline [OF nf False])
  qed
qed

lemma join_row_id: "join_row db c = Some row \<Longrightarrow> item_id (mapCartRow row) = c_productId c"
  by (auto simp: join_row_def mapCartRow_def split: option.splits)

lemma user_cart_ids:
  "map item_id (mapCartRows (List.map_filter (join_row db) rows))
     = map c_productId (filter (\<lambda>c. join_row db c \<noteq> None) rows)"
  by (induction rows) (auto simp: mapCartRows_def List.map_filter_def join_row_id)

lemma user_cart_distinct:
  assumes "distinct (map c_productId (filter (\<lambda>c. c_userId c = userId) (cart_items db)))"
  shows "distinct (map item_id (user_cart userId db))"
  unfolding user_cart_def user_cart_ids using assms by (rule distinct_map_filter)

lemma user_cart_member:
  assumes "c \<in> set (cart_items db)" and "c_userId c = userId"
    and "products db (c_productId c) = Some p"
  shows "mapCartRow (c_productId c, c_quantity c, p_productName p, fl (p_price p), p_image p)
           \<in> set (user_cart userId db)"
proof -
  have "join_row db c = Some (c_productId c, c_quantity c, p_productName p, fl (p_price p), p_image p)"
    using assms(3) by (simp add: join_row_def)
  moreover have "c \<in> set (filter (\<lambda>c. c_userId c = userId) (cart_items db))"
    using assms(1,2) by simp
  ultimately show ?thesis
    by (force simp: user_cart_def mapCartRows_def List.map_filter_def)
qed

lemma mapCartRow_quantity:
  assumes "1 \<le> q" and "q < 2 ^ 53"
  shows "item_quantity (mapCartRow (pid, q, name, pr, img)) = Fin (of_int q)"
    and "item_id (mapCartRow (pid, q, name, pr, img)) = pid"
  using assms num_of_int_exact [of q] by (simp_all add: mapCartRow_def truthy_num_def)

lemma checkout_line_stock:
  assumes ok: "checkout F now userId msgs db = (RenderCheckout v, msgs', db')"
    and dist: "distinct (map c_productId (filter (\<lambda>c. c_userId c = userId) (cart_items db)))"
    and line: "\<lparr>c_userId = userId, c_productId = pid, c_quantity = q\<rparr> \<in> set (cart_items db)"
    and q: "1 \<le> q" "q < 2 ^ 53"
    and p: "products db pid = Some p"
  shows "products db' pid = Some (p\<lparr>p_quantity := max 0 (p_quantity p - q)\<rparr>)"
proof -
  define c where "c = \<lparr>c_userId = userId, c_productId = pid, c_quantity = q\<rparr>"
  define item where "item = mapCartRow (pid, q, p_productName p, fl (p_price p), p_image p)"
  have mem: "item \<in> set (user_cart userId db)"
    using user_cart_member [of c db userId p] line p by (simp add: c_def item_def)
  then have ne: "user_cart userId db \<noteq> []" by auto
  have nf: "QGetCartItems \<notin> F"
    using ok by (auto simp: checkout_def cartModel_getCartItems_def split: if_splits)
  from ok have st: "\<not> stock_failed F now userId db" and db': "db' = after_clear F now userId db"
    by (auto simp: checkout_pipeline [OF nf ne] split: if_splits)
  have iq: "item_quantity item = Fin (of_int q)" and ii: "item_id item = pid"
    using mapCartRow_quantity [OF q] by (simp_all add: item_def)
  have pl: "products (snd (False, after_lines now userId db)) (item_id item) = Some p"
    using p by (simp add: ii after_lines_def after_header_def)
  have nfail: "\<not> fst (decrease_loop F (user_cart userId db) (False, after_lines now userId db))"
    using st ne by (simp add: stock_failed_def productModel_decreaseQuantities_def)
  from decrease_loop_line [OF user_cart_distinct [OF dist] mem iq q(1) pl nfail]
  have "products (after_stock F now userId db) pid = Some (p\<lparr>p_quantity := max 0 (p_quantity p - q)\<rparr>)"
    using ne by (simp add: after_stock_def productModel_decreaseQuantities_def ii)
  then show ?thesis by (simp add: db' after_clear_def)
qed

lemma shop_stock_ok: "\<not> stock_failed {} 42 7 shop_db"
  by (simp add: stock_failed_def shop_cart productModel_decreaseQuantities_def decrease_one_def
      apple_line_def truthy_num_def js_le_def)

lemma shop_checkout:
  "checkout {} 42 7 [] shop_db
     = (RenderCheckout (checkout_summary 42 [apple_line]), [], after_clear {} 42 7 shop_db)"
proof -
  have ne: "user_cart 7 shop_db \<noteq> []" by (simp add: shop_cart)
  have nf: "QGetCartItems \<notin> {}" by simp
  show ?thesis
    using shop_totals_storable shop_lines_storable shop_stock_ok
    by (simp add: checkout_pipeline [OF nf ne] shop_cart)
qed

lemma number_minus_5: "string_to_number ''-5'' = Fin (- 5)"
proof -
  have "trim ''-5'' = ''-5''" "parse_unsigned ''5'' = LitDec 5 0" by code_simp+
  then show ?thesis
    using string_to_number_minus [of "''-5''" "''5''"] fl_of_int [of "- 5"]
    by (simp add: pow10_def)
qed

lemma number_10: "string_to_number ''10'' = Fin 10"
proof -
  have "trim ''10'' = ''10''" "radix_of ''10'' = 0" "parse_unsigned ''10'' = LitDec 10 0"
    by code_simp+
  then show ?thesis
    using string_to_number_unsigned [of "''10''" "''10''"] fl_of_int [of 10]
    by (simp add: pow10_def)
qed

lemma shop_nonneg: "stock_nonneg shop_db"
  by (simp add: stock_nonneg_def shop_db_def apple_def)

section \<open>The scenario of a single line\<close>

lemma line_totals:
  assumes "item_price i = Fin 10" and "item_quantity i = Fin 2"
  shows "cart_subtotal [i] = Fin 20"
    and "cart_taxAmount [i] = Fin (8106479329266893 / 4503599627370496)"
    and "cart_total [i] = Fin (6136154492292301 / 281474976710656)"
proof -
  show s: "cart_subtotal [i] = Fin 20"
    by (simp add: cart_subtotal_def assms mul_10_2 add_0_20)
  show t: "cart_taxAmount [i] = Fin (8106479329266893 / 4503599627370496)"
    by (simp add: cart_taxAmount_def s mul_20_tax fixed_tax)
  show "cart_total [i] = Fin (6136154492292301 / 281474976710656)"
    by (simp add: cart_total_def s t add_20_tax fixed_total)
qed

lemma line_storable:
  assumes "item_price i = Fin 10" and "item_quantity i = Fin 2"
  shows "totals_storable [i]" and "lines_storable [i]"
    and "create_total (checkout_payload [i]) = Fin (6136154492292301 / 281474976710656)"
proof -
  show c: "create_total (checkout_payload [i]) = Fin (6136154492292301 / 281474976710656)"
    by (simp add: create_total_def checkout_payload_def line_totals [OF assms] shop_formatMoney)
  show "totals_storable [i]"
    by (simp add: totals_storable_def line_totals [OF assms] c shop_formatMoney)
  show "lines_storable [i]"
    by (simp add: lines_storable_def item_row_ok_def order_item_row_def assms mul_10_2)
qed

lemma scenario_cart:
  assumes "filter (\<lambda>c. c_userId c = userId) (cart_items db)
             = [\<lparr>c_userId = userId, c_productId = pid, c_quantity = 2\<rparr>]"
    and "products db pid = Some p" and "p_price p = 10"
  shows "user_cart userId db
     = [\<lparr>item_id = pid, item_productName = p_productName p, item_price = Fin 10,
         item_image = p_image p, item_quantity = Fin 2\<rparr>]"
  by (simp add: user_cart_def assms List.map_filter_def join_row_def mapCartRows_def
      mapCartRow_def num_2 fl_10 truthy_num_def)

lemma scenario_stock:
  assumes "QDecrease pid \<notin> F" and "products db pid = Some p" and "2 \<le> p_quantity p"
    and "item_id i = pid" and "item_quantity i = Fin 2"
  shows "productModel_decreaseQuantities F [i] db
     = (False, db\<lparr>products := (products db)(pid \<mapsto> p\<lparr>p_quantity := p_quantity p - 2\<rparr>)\<rparr>)"
proof -
  have "max (of_int (p_quantity p) - 2) (0::rat) = of_int (p_quantity p - 2)"
    using assms(3) by (simp add: max_def)
  then have "sql_round (max (of_int (p_quantity p) - 2) 0) = p_quantity p - 2"
    by (simp only: sql_round_of_int)
  then show ?thesis
    using assms(1,2)
    by (simp add: productModel_decreaseQuantities_def decrease_one_def assms(4,5) truthy_num_def
        js_le_def decrease_stock_def)
qed

lemma checkout_success:
  assumes "checkout F now userId msgs db = (RenderCheckout v, msgs', db')"
  shows "user_cart userId db \<noteq> [] \<and> v = checkout_summary now (user_cart userId db)
     \<and> msgs' = msgs \<and> db' = after_clear F now userId db
     \<and> totals_storable (user_cart userId db)"
proof -
  have nf: "QGetCartItems \<notin> F"
    using assms by (auto simp: checkout_def cartModel_getCartItems_def split: if_splits)
  have ne: "user_cart userId db \<noteq> []"
    using assms nf
    by (auto simp: checkout_def cartModel_getCartItems_def user_cart_def Let_def split: if_splits)
  from assms show ?thesis
    by (auto simp: checkout_pipeline [OF nf ne] ne split: if_splits)
qed

lemma fl_values:
  "fl (9 / 100) = Fin (3242591731706757 / 36028797018963968)"
  "fl (9 / 5) = Fin (8106479329266893 / 4503599627370496)"
  "fl (109 / 5) = Fin (6136154492292301 / 281474976710656)"
  by (simp_all add: fl_eval)

lemma filter_out_user: "filter (\<lambda>c. c_userId c = userId) (filter (\<lambda>c. c_userId c \<noteq> userId) rows) = []"
  by (induction rows) auto

section \<open>Rounding error of the number model\<close>

lemma round_half_even_nonneg: "0 \<le> r \<Longrightarrow> 0 \<le> round_half_even r"
  by (auto simp: round_half_even_def)

lemma fl_mag_error:
  assumes "0 < a"
  shows "\<bar>fl_mag a - a\<bar> \<le> a / 2 ^ 53 + pow2 (- 1075)" and "0 \<le> fl_mag a"
proof -
  define u where "u = ulp_of a"
  have upos: "0 < u" by (simp add: u_def ulp_of_def pow2_pos)
  define m where "m = round_half_even (a / u)"
  have me: "\<bar>of_int m - a / u\<bar> \<le> 1 / 2"
    unfolding m_def by (rule round_half_even_error)
  have fm: "fl_mag a = of_int m * u" by (simp add: fl_mag_def m_def u_def)
  have "\<bar>of_int m * u - a\<bar> = \<bar>of_int m - a / u\<bar> * u"
  proof -
    have "of_int m * u - a = (of_int m - a / u) * u" using upos by (simp add: field_simps)
    then show ?thesis using upos by (simp add: abs_mult)
  qed
  also have "\<dots> \<le> 1 / 2 * u" using me upos by (intro mult_right_mono) simp_all
  finally have err: "\<bar>fl_mag a - a\<bar> \<le> u / 2" by (simp add: fm)
  have ub: "u / 2 \<le> a / 2 ^ 53 + pow2 (- 1075)"
  proof (cases "- 1022 \<le> ilog2 a")
    case True
    then have "u = pow2 (ilog2 a + (- 52))" by (simp add: u_def ulp_of_def max_def)
    also have "\<dots> = pow2 (ilog2 a) * pow2 (- 52)" by (rule pow2_add)
    also have "\<dots> \<le> a * pow2 (- 52)"
      using ilog2_bounds [OF assms] by (intro mult_right_mono) (simp_all add: pow2_def)
    finally have "u \<le> a / 2 ^ 52" by (simp add: pow2_def)
    then have "u / 2 \<le> a / 2 ^ 53" by simp
    moreover have "0 \<le> pow2 (- 1075)" using pow2_pos [of "- 1075"] by simp
    ultimately show ?thesis by linarith
  next
    case False
    then have "u = pow2 (- 1074)" by (simp add: u_def ulp_of_def max_def)
    then have "u / 2 = pow2 (- 1075)" by (simp add: pow2_def)
    then show ?thesis using assms by simp
  qed
  from err ub show "\<bar>fl_mag a - a\<bar> \<le> a / 2 ^ 53 + pow2 (- 1075)" by linarith
  have "0 \<le> a / u" using assms upos by simp
  then have "0 \<le> m" unfolding m_def by (rule round_half_even_nonneg)
  then show "0 \<le> fl_mag a" using upos by (simp add: fm)
qed

lemma fl_near:
  assumes "0 \<le> a" and "a \<le> 10 ^ 10"
  shows "\<exists>y. fl a = Fin y \<and> 0 \<le> y \<and> \<bar>y - a\<bar> \<le> a / 2 ^ 53 + 1 / 10 ^ 300"
proof (cases "a = 0")
  case True
  then show ?thesis by (simp add: fl_def)
next
  case False
  with assms have pos: "0 < a" by simp
  have tiny: "pow2 (- 1075) \<le> 1 / 10 ^ 300" by (simp add: pow2_def)
  from fl_mag_error [OF pos] tiny
  have e: "\<bar>fl_mag a - a\<bar> \<le> a / 2 ^ 53 + 1 / 10 ^ 300" and n: "0 \<le> fl_mag a" by linarith+
  have "a / 2 ^ 53 \<le> a" using pos by (simp add: field_simps)
  with e assms(2) have "fl_mag a \<le> 10 ^ 10 + 10 ^ 10 + 1" by (simp add: abs_le_iff)
  moreover have "(10 ^ 10 + 10 ^ 10 + 1 :: rat) < pow2 1024" by (simp add: pow2_def)
  ultimately have "\<not> pow2 1024 \<le> fl_mag a" by linarith
  then have "fl a = Fin (fl_mag a)" using pos False by (simp add: fl_def)
  with e n show ?thesis by simp
qed

lemma round_half_up_near:
  assumes "\<bar>r - of_int k\<bar> < 1 / 2"
  shows "round_half_up r = k"
proof -
  have "of_int k \<le> r + 1 / 2" "r + 1 / 2 < of_int k + 1"
    using assms by linarith+
  then show ?thesis unfolding round_half_up_def by (rule floor_unique)
qed

lemma round_half_up_error: "\<bar>of_int (round_half_up r) - r\<bar> \<le> 1 / 2"
proof -
  have "of_int \<lfloor>r + 1 / 2\<rfloor> \<le> r + 1 / 2" "r + 1 / 2 < of_int \<lfloor>r + 1 / 2\<rfloor> + 1"
    by linarith+
  then show ?thesis unfolding round_half_up_def by linarith
qed

lemma toFixed2_cents:
  assumes "0 \<le> x" and "x \<le> 10 ^ 10" and "\<bar>x * 100 - of_int k\<bar> < 1 / 2"
  shows "toFixed2 (Fin x) = fl (of_int k / 100)"
proof -
  have "\<not> (10 ^ 21 \<le> \<bar>x\<bar>)" using assms(1,2) by simp
  moreover have "round_half_up (x * 100) = k" using assms(3) by (rule round_half_up_near)
  ultimately show ?thesis using assms(1) by (simp add: toFixed2.simps)
qed

lemma formatMoney_Fin: "formatMoney (Num (Fin y)) = toFixed2 (Fin y)"
  by (simp add: formatMoney_def truthy_num_def)

lemma fl_cents:
  assumes "0 \<le> k" and "k \<le> 5 * 10 ^ 11"
  shows "\<exists>y. fl (of_int k / 100) = Fin y \<and> 0 \<le> y \<and> y \<le> 10 ^ 10
           \<and> \<bar>y * 100 - of_int k\<bar> \<le> 1 / 1000"
proof -
  define a :: rat where "a = of_int k / 100"
  have a0: "0 \<le> a" using assms(1) by (simp add: a_def)
  have kb: "(of_int k :: rat) \<le> of_int (5 * 10 ^ 11)" using assms(2) by (simp only: of_int_le_iff)
  then have a1: "a \<le> 10 ^ 10" by (simp add: a_def)
  from fl_near [OF a0 a1] obtain y where
    y: "fl a = Fin y" "0 \<le> y" "\<bar>y - a\<bar> \<le> a / 2 ^ 53 + 1 / 10 ^ 300" by blast
  have "a / 2 ^ 53 \<le> 10 ^ 10 / 2 ^ 53" using a1 by (simp add: divide_right_mono)
  moreover have "(10 ^ 10 / 2 ^ 53 + 1 / 10 ^ 300 :: rat) \<le> 1 / 100000" by simp
  ultimately have e: "\<bar>y - a\<bar> \<le> 1 / 100000" using y(3) by linarith
  have "\<bar>y * 100 - of_int k\<bar> \<le> 1 / 1000" using e unfolding a_def by linarith
  moreover have "y \<le> 10 ^ 10"
  proof -
    have "(of_int k :: rat) \<le> 500000000000" using kb by simp
    with \<open>\<bar>y * 100 - of_int k\<bar> \<le> 1 / 1000\<close> have "y \<le> 10000000000" by linarith
    then show ?thesis by simp
  qed
  ultimately show ?thesis using y(1,2) by (auto simp: a_def)
qed

lemma toFixed2_stable:
  assumes "0 \<le> k" and "k \<le> 5 * 10 ^ 11"
  shows "toFixed2 (fl (of_int k / 100)) = fl (of_int k / 100)"
proof -
  from fl_cents [OF assms] obtain y where
    y: "fl (of_int k / 100) = Fin y" "0 \<le> y" "y \<le> 10 ^ 10" "\<bar>y * 100 - of_int k\<bar> \<le> 1 / 1000"
    by blast
  have "\<bar>y * 100 - of_int k\<bar> < 1 / 2" using y(4) by linarith
  from toFixed2_cents [OF y(2,3) this] show ?thesis by (simp add: y(1))
qed

lemma toFixed2_add_cents:
  assumes "0 \<le> x" and "x \<le> 2 * 10 ^ 9" and "0 \<le> y" and "y \<le> 2 * 10 ^ 9"
    and "\<bar>x * 100 - of_int i\<bar> \<le> 1 / 10" and "\<bar>y * 100 - of_int j\<bar> \<le> 1 / 10"
  shows "toFixed2 (js_add (Fin x) (Fin y)) = fl (of_int (i + j) / 100)"
proof -
  have a0: "0 \<le> x + y" and a1: "x + y \<le> 10 ^ 10" using assms(1-4) by simp_all
  from fl_near [OF a0 a1] obtain c where
    c: "fl (x + y) = Fin c" "0 \<le> c" "\<bar>c - (x + y)\<bar> \<le> (x + y) / 2 ^ 53 + 1 / 10 ^ 300" by blast
  have "(x + y) / 2 ^ 53 \<le> 10 ^ 10 / 2 ^ 53" using a1 by (simp add: divide_right_mono)
  moreover have "(10 ^ 10 / 2 ^ 53 + 1 / 10 ^ 300 :: rat) \<le> 1 / 100000" by simp
  ultimately have e: "\<bar>c - (x + y)\<bar> \<le> 1 / 100000" using c(3) by linarith
  have "x \<le> 2000000000" "y \<le> 2000000000" using assms(2,4) by simp_all
  with e have "c \<le> 10000000000" by linarith
  then have cb: "c \<le> 10 ^ 10" by simp
  have "\<bar>c * 100 - of_int (i + j)\<bar> < 1 / 2"
    using e assms(5,6) unfolding of_int_add by linarith
  from toFixed2_cents [OF c(2) cb this] show ?thesis by (simp add: js_add.simps c(1))
qed

lemma tax_rate_small: "TAX_RATE = Fin r \<Longrightarrow> 0 \<le> r \<and> r \<le> 1 / 10"
  by (simp add: tax_rate_value)

lemma taxAmount_cents:
  assumes "0 \<le> s" and "s \<le> 10 ^ 9"
  shows "\<exists>n. 0 \<le> n \<and> n \<le> 10 ^ 11 \<and> toFixed2 (js_mul (Fin s) TAX_RATE) = fl (of_int n / 100)"
proof -
  define r :: rat where "r = 3242591731706757 / 36028797018963968"
  have tr: "TAX_RATE = Fin r" by (simp add: tax_rate_value r_def)
  have r: "0 \<le> r" "r \<le> 1 / 10" by (simp_all add: r_def)
  have p0: "0 \<le> s * r" using assms(1) r(1) by simp
  have "s * r \<le> s * (1 / 10)" using assms(1) r(2) by (intro mult_left_mono) simp_all
  moreover have "s \<le> 1000000000" using assms(2) by simp
  ultimately have p1': "s * r \<le> 100000000" by linarith
  have n8: "(100000000::rat) = 10 ^ 8" and n10: "(10000000000::rat) = 10 ^ 10" by simp_all
  have p1: "s * r \<le> 10 ^ 8" using p1' unfolding n8 [symmetric] .
  have p2: "s * r \<le> 10 ^ 10" unfolding n10 [symmetric] using p1' by linarith
  from fl_near [OF p0 p2] obtain m where
    m: "fl (s * r) = Fin m" "0 \<le> m" "\<bar>m - s * r\<bar> \<le> s * r / 2 ^ 53 + 1 / 10 ^ 300" by blast
  have "s * r / 2 ^ 53 \<le> 10 ^ 8 / 2 ^ 53" using p1 by (rule divide_right_mono) simp
  moreover have "(10 ^ 8 / 2 ^ 53 + 1 / 10 ^ 300 :: rat) \<le> 1" by simp
  ultimately have mb: "m \<le> 10 ^ 8 + 1" using m(3) p1 by linarith
  define n where "n = round_half_up (m * 100)"
  have ne: "\<bar>of_int n - m * 100\<bar> \<le> 1 / 2" unfolding n_def by (rule round_half_up_error)
  have "- 1 < (of_int n :: rat)" using ne m(2) by linarith
  then have "- 1 < n" by (simp only: of_int_less_iff [symmetric] of_int_minus of_int_1)
  then have n0: "0 \<le> n" by simp
  have mb': "m \<le> 100000001" using mb by simp
  have "(of_int n :: rat) \<le> 10000000101" using ne mb' by linarith
  then have "(of_int n :: rat) \<le> of_int 10000000101" by simp
  then have "n \<le> 10000000101" by (simp only: of_int_le_iff)
  then have n1: "n \<le> 10 ^ 11" by simp
  have "toFixed2 (Fin m) = fl (of_int n / 100)"
    using m(2) mb by (simp add: toFixed2.simps n_def)
  then show ?thesis using n0 n1 by (auto simp: js_mul.simps tr m(1))
qed

section \<open>Stored totals of an order\<close>

lemma getByOrder_after_checkout:
  assumes "\<forall>r \<in> set (order_items db). i_orderId r \<noteq> next_order_id db"
  shows "orderItemModel_getByOrder (next_order_id db) (after_clear F now userId db)
           = map (order_item_row (next_order_id db)) (user_cart userId db)"
proof -
  have old: "filter (\<lambda>r. i_orderId r = next_order_id db) (order_items db) = []"
    using assms by (simp add: filter_empty_conv)
  have new: "filter (\<lambda>r. i_orderId r = oid) (map (order_item_row oid) cart)
      = map (order_item_row oid) cart" for oid cart
    by (induction cart) (simp_all add: order_item_row_def)
  show ?thesis
    by (simp add: orderItemModel_getByOrder_def after_clear_frame old new)
qed

lemma line_subtotals_sum:
  "foldl js_add (Fin 0) (map i_subtotal (map (order_item_row oid) cart)) = cart_subtotal cart"
proof -
  have "foldl js_add a (map i_subtotal (map (order_item_row oid) cart))
      = foldl (\<lambda>sum item. js_add sum (js_mul (item_price item) (item_quantity item))) a cart" for a
    by (induction cart arbitrary: a) (simp_all add: order_item_row_def)
  then show ?thesis by (simp add: cart_subtotal_def)
qed

lemma stored_totals_cents:
  assumes sub: "cart_subtotal cart = Fin s" and s0: "0 \<le> s" and s1: "s \<le> 10 ^ 9"
    and cents: "\<bar>s * 100 - of_int k\<bar> \<le> 1 / 10"
  shows "\<exists>a. formatMoney (Num (cart_subtotal cart)) = Fin a \<and> \<bar>s - a\<bar> \<le> 1 / 100
     \<and> toFixed2 (js_add (formatMoney (Num (cart_subtotal cart)))
                          (formatMoney (Num (cart_taxAmount cart))))
         = create_total (checkout_payload cart)"
proof -
  have s1': "s \<le> 1000000000" using s1 by simp
  have "- 1 < (of_int k :: rat)" using s0 cents by linarith
  then have "- 1 < k" by (simp only: of_int_less_iff [symmetric] of_int_minus of_int_1)
  then have k0: "0 \<le> k" by simp
  have kq: "(of_int k :: rat) \<le> 100000000001" using s1' cents by linarith
  then have "(of_int k :: rat) \<le> of_int 100000000001" by simp
  then have k1': "k \<le> 100000000001" by (simp only: of_int_le_iff)
  then have k1: "k \<le> 5 * 10 ^ 11" by simp
  have s10: "s \<le> 10 ^ 10" using s1' by simp
  have s2: "s \<le> 2 * 10 ^ 9" using s1' by simp
  \<comment> \<open>the stored subtotal\<close>
  have "\<bar>s * 100 - of_int k\<bar> < 1 / 2" using cents by linarith
  from toFixed2_cents [OF s0 s10 this]
  have fs: "formatMoney (Num (Fin s)) = fl (of_int k / 100)" by (simp add: formatMoney_Fin)
  from fl_cents [OF k0 k1] obtain a where
    a: "fl (of_int k / 100) = Fin a" "0 \<le> a" "\<bar>a * 100 - of_int k\<bar> \<le> 1 / 1000" by blast
  have near: "\<bar>s - a\<bar> \<le> 1 / 100" using cents a(3) by linarith
  from kq a(3) have "a \<le> 2000000000" by linarith
  then have a2: "a \<le> 2 * 10 ^ 9" by simp
  have a10: "\<bar>a * 100 - of_int k\<bar> \<le> 1 / 10" using a(3) by linarith
  \<comment> \<open>the tax\<close>
  from taxAmount_cents [OF s0 s1] obtain n where
    n: "0 \<le> n" "n \<le> 10 ^ 11" "toFixed2 (js_mul (Fin s) TAX_RATE) = fl (of_int n / 100)" by blast
  have n5: "n \<le> 5 * 10 ^ 11" using n(2) by simp
  from fl_cents [OF n(1) n5] obtain t where
    t: "fl (of_int n / 100) = Fin t" "0 \<le> t" "\<bar>t * 100 - of_int n\<bar> \<le> 1 / 1000" by blast
  have tax: "cart_taxAmount cart = Fin t" by (simp add: cart_taxAmount_def sub n(3) t(1))
  have "n \<le> 100000000000" using n(2) by simp
  then have "(of_int n :: rat) \<le> 100000000000" by simp
  with t(3) have "t \<le> 2000000000" by linarith
  then have t2: "t \<le> 2 * 10 ^ 9" by simp
  have t10: "\<bar>t * 100 - of_int n\<bar> \<le> 1 / 10" using t(3) by linarith
  have ft: "formatMoney (Num (Fin t)) = Fin t"
    using toFixed2_stable [OF n(1) n5] by (simp add: formatMoney_Fin t(1))
  \<comment> \<open>the total\<close>
  have kn0: "0 \<le> k + n" using k0 n(1) by simp
  have kn1: "k + n \<le> 5 * 10 ^ 11" using k1' \<open>n \<le> 100000000000\<close> by simp
  have tot: "cart_total cart = fl (of_int (k + n) / 100)"
    using toFixed2_add_cents [OF s0 s2 t(2) t2 cents t10] by (simp add: cart_total_def sub tax)
  from fl_cents [OF kn0 kn1] obtain d where
    d: "fl (of_int (k + n) / 100) = Fin d" by blast
  have tot': "cart_total cart = Fin d" unfolding tot d ..
  have st: "toFixed2 (Fin d) = Fin d" using toFixed2_stable [OF kn0 kn1] unfolding d .
  have ct: "create_total (checkout_payload cart) = Fin d"
    by (simp add: create_total_def checkout_payload_def tot' formatMoney_Fin st)
  have "toFixed2 (js_add (Fin a) (Fin t)) = Fin d"
    using toFixed2_add_cents [OF a(2) a2 t(2) t2 a10 t10] unfolding d .
  then show ?thesis
    using near by (simp add: sub tax fs a(1) ft ct)
qed

lemma odd_values:
  "fl (107 / 40) = Fin (3011782250804019 / 1125899906842624)"
  "fl (3011782250804019 / 1125899906842624) = Fin (3011782250804019 / 1125899906842624)"
  "fl (267 / 100) = Fin (1503076375634903 / 562949953421312)"
  "fl (6 / 25) = Fin (1080863910568919 / 4503599627370496)"
  "fl (291 / 100) = Fin (819092182228009 / 281474976710656)"
  "fl (73 / 25) = Fin (1643813863990231 / 562949953421312)"
  by (simp_all add: fl_eval)

lemma odd_steps:
  "js_mul (Fin (3011782250804019 / 1125899906842624)) TAX_RATE
     = Fin (4336966441157787 / 18014398509481984)"
  "toFixed2 (Fin (4336966441157787 / 18014398509481984)) = Fin (1080863910568919 / 4503599627370496)"
  "js_add (Fin (3011782250804019 / 1125899906842624)) (Fin (1080863910568919 / 4503599627370496))
     = Fin (3281998228446249 / 1125899906842624)"
  "toFixed2 (Fin (3281998228446249 / 1125899906842624)) = Fin (1643813863990231 / 562949953421312)"
  "toFixed2 (Fin (3011782250804019 / 1125899906842624)) = Fin (1503076375634903 / 562949953421312)"
  "toFixed2 (Fin (1080863910568919 / 4503599627370496)) = Fin (1080863910568919 / 4503599627370496)"
  "toFixed2 (Fin (1643813863990231 / 562949953421312)) = Fin (1643813863990231 / 562949953421312)"
  "js_add (Fin (1503076375634903 / 562949953421312)) (Fin (1080863910568919 / 4503599627370496))
     = Fin (819092182228009 / 281474976710656)"
  "toFixed2 (Fin (819092182228009 / 281474976710656)) = Fin (819092182228009 / 281474976710656)"
  by (simp_all add: tax_rate_value js_mul.simps js_add.simps toFixed2.simps round_half_up_def fl_eval)

lemma odd_cart:
  "user_cart 7 odd_db
     = [\<lparr>item_id = 3, item_productName = ''Apple'',
         item_price = Fin (3011782250804019 / 1125899906842624),
         item_image = ''apple.png'', item_quantity = Fin 1\<rparr>]"
proof -
  have "num_of_int 1 = Fin 1" using num_of_int_exact [of 1] by simp
  then show ?thesis
    by (simp add: user_cart_def odd_db_def List.map_filter_def join_row_def apple_def
        mapCartRows_def mapCartRow_def odd_values truthy_num_def)
qed

lemma odd_totals:
  "cart_subtotal (user_cart 7 odd_db) = Fin (3011782250804019 / 1125899906842624)"
  "cart_taxAmount (user_cart 7 odd_db) = Fin (1080863910568919 / 4503599627370496)"
  "cart_total (user_cart 7 odd_db) = Fin (1643813863990231 / 562949953421312)"
proof -
  show s: "cart_subtotal (user_cart 7 odd_db) = Fin (3011782250804019 / 1125899906842624)"
    by (simp add: odd_cart cart_subtotal_def js_mul.simps js_add.simps odd_values)
  show t: "cart_taxAmount (user_cart 7 odd_db) = Fin (1080863910568919 / 4503599627370496)"
    by (simp add: cart_taxAmount_def s odd_steps)
  show "cart_total (user_cart 7 odd_db) = Fin (1643813863990231 / 562949953421312)"
    by (simp add: cart_total_def s t odd_steps)
qed

lemma odd_header:
  "o_subtotal (order_header 42 7 odd_db) = fl (267 / 100)"
  "o_tax_amount (order_header 42 7 odd_db) = fl (24 / 100)"
  "o_total (order_header 42 7 odd_db) = fl (292 / 100)"
  by (simp_all add: order_header_def odd_totals formatMoney_Fin odd_steps odd_values
      create_total_def checkout_payload_def)

lemma odd_checkout:
  "checkout {} 42 7 [] odd_db
     = (RenderCheckout (checkout_summary 42 (user_cart 7 odd_db)), [], after_clear {} 42 7 odd_db)"
proof -
  have ne: "user_cart 7 odd_db \<noteq> []" by (simp add: odd_cart)
  have nf: "QGetCartItems \<notin> {}" by simp
  have ts: "totals_storable (user_cart 7 odd_db)"
    by (simp add: totals_storable_def odd_totals formatMoney_Fin odd_steps
        create_total_def checkout_payload_def)
  have ls: "lines_storable (user_cart 7 odd_db)"
    by (simp add: lines_storable_def item_row_ok_def order_item_row_def odd_cart js_mul.simps
        odd_values)
  have sf: "\<not> stock_failed {} 42 7 odd_db"
    by (simp add: stock_failed_def odd_cart productModel_decreaseQuantities_def decrease_one_def
        truthy_num_def js_le_def)
  show ?thesis
    using ts ls sf by (simp add: checkout_pipeline [OF nf ne])
qed

section \<open>The admin edit of an order\<close>

lemma one_plus_rate: "js_add (Fin 1) TAX_RATE = fl (109 / 100)"
  by (simp add: tax_rate_value js_add.simps fl_eval)

lemma rate_109: "fl (109 / 100) = Fin (4908923593833841 / 4503599627370496)"
  by (simp add: fl_eval)

lemma edit_subtotal_spec: "edit_subtotal t = inverse_subtotal t"
  by (simp add: edit_subtotal_def inverse_subtotal_def one_plus_rate)

lemma clamp_is_max: "(if js_lt v (Fin 0) then Fin 0 else v) = js_max (Fin 0) v"
  by (cases v) (auto simp: js_max_def)

lemma edit_taxAmount_spec: "edit_taxAmount t = inverse_taxAmount t"
  by (simp only: edit_taxAmount_def inverse_taxAmount_def edit_subtotal_spec clamp_is_max)

lemma number_2180: "string_to_number ''21.80'' = fl (109 / 5)"
proof -
  have "trim ''21.80'' = ''21.80''" "radix_of ''21.80'' = 0"
    "parse_unsigned ''21.80'' = LitDec 2180 (- 2)"
    by code_simp+
  then show ?thesis
    using string_to_number_unsigned [of "''21.80''" "''21.80''"]
    by (simp add: pow10_def)
qed

lemma inverse_2180:
  "inverse_subtotal (fl (109 / 5)) = Fin 20"
  "inverse_taxAmount (fl (109 / 5)) = fl (9 / 5)"
proof -
  have d: "js_div (Fin (6136154492292301 / 281474976710656)) (Fin (4908923593833841 / 4503599627370496))
      = Fin 20"
    by (simp add: js_div.simps fl_eval)
  show s: "inverse_subtotal (fl (109 / 5)) = Fin 20"
    by (simp add: inverse_subtotal_def fl_values rate_109 d fixed_20)
  have m: "js_sub (Fin (6136154492292301 / 281474976710656)) (Fin 20)
      = Fin (506654958079181 / 281474976710656)"
    by (simp add: js_sub_def js_add.simps fl_eval)
  have f: "toFixed2 (Fin (506654958079181 / 281474976710656))
      = Fin (8106479329266893 / 4503599627370496)"
    by (simp add: toFixed2.simps round_half_up_def fl_eval)
  show "inverse_taxAmount (fl (109 / 5)) = fl (9 / 5)"
    unfolding inverse_taxAmount_def s
    by (simp add: fl_values m f js_max_def)
qed

lemma fl_minus: "fl (- c) = js_neg (fl c)"
  by (simp add: fl_def)

lemma round_half_up_nonneg: "0 \<le> r \<Longrightarrow> 0 \<le> round_half_up r"
  by (simp add: round_half_up_def)

lemma toFixed2_nonneg:
  assumes "0 \<le> m" and "m \<le> 2000000000"
  shows "\<exists>y. toFixed2 (Fin m) = Fin y \<and> 0 \<le> y \<and> y \<le> m + 1 / 100 \<and> toFixed2 (Fin y) = Fin y"
proof -
  define n where "n = round_half_up (m * 100)"
  have e: "\<bar>of_int n - m * 100\<bar> \<le> 1 / 2" unfolding n_def by (rule round_half_up_error)
  have n0: "0 \<le> n" unfolding n_def using assms(1) by (simp add: round_half_up_nonneg)
  have "(of_int n :: rat) \<le> 200000000001" using e assms(2) by linarith
  then have "(of_int n :: rat) \<le> of_int 200000000001" by simp
  then have "n \<le> 200000000001" by (simp only: of_int_le_iff)
  then have n1: "n \<le> 5 * 10 ^ 11" by simp
  have t: "toFixed2 (Fin m) = fl (of_int n / 100)"
    using assms by (simp add: toFixed2.simps n_def)
  from fl_cents [OF n0 n1] obtain y where
    y: "fl (of_int n / 100) = Fin y" "0 \<le> y" "\<bar>y * 100 - of_int n\<bar> \<le> 1 / 1000" by blast
  have s: "toFixed2 (Fin y) = Fin y" using toFixed2_stable [OF n0 n1] by (simp add: y(1))
  have "y \<le> m + 1 / 100" using y(3) e by linarith
  with t y s show ?thesis by simp
qed

lemma toFixed2_negative:
  assumes "m < 0" and "- 2000000000 \<le> m"
  shows "\<exists>w. toFixed2 (Fin m) = Fin w \<and> w \<le> 0"
proof -
  define n where "n = round_half_up (- m * 100)"
  have e: "\<bar>of_int n - (- m * 100)\<bar> \<le> 1 / 2" unfolding n_def by (rule round_half_up_error)
  have n0: "0 \<le> n" unfolding n_def using assms(1) by (intro round_half_up_nonneg) simp
  have "(of_int n :: rat) \<le> 200000000001" using e assms(2) by linarith
  then have "(of_int n :: rat) \<le> of_int 200000000001" by simp
  then have "n \<le> 200000000001" by (simp only: of_int_le_iff)
  then have n1: "n \<le> 5 * 10 ^ 11" by simp
  have t: "toFixed2 (Fin m) = fl (- (of_int n / 100))"
    using assms by (simp add: toFixed2.simps n_def)
  from fl_cents [OF n0 n1] obtain y where
    y: "fl (of_int n / 100) = Fin y" "0 \<le> y" by blast
  have "toFixed2 (Fin m) = Fin (- y)" unfolding t fl_minus y(1) by simp
  with y(2) show ?thesis by simp
qed

lemma fixed_0: "toFixed2 (Fin 0) = Fin 0"
proof -
  have "\<lfloor>(1::rat) / 2\<rfloor> = 0" by (rule floor_unique) simp_all
  then show ?thesis by (simp add: toFixed2.simps round_half_up_def fl_def)
qed

lemma fl_near_unit:
  assumes "0 \<le> a" and "a \<le> 1000000002"
  shows "\<exists>y. fl a = Fin y \<and> 0 \<le> y \<and> y \<le> a + 1"
proof -
  have "a \<le> 10 ^ 10" using assms(2) by simp
  from fl_near [OF assms(1) this] obtain y where
    y: "fl a = Fin y" "0 \<le> y" "\<bar>y - a\<bar> \<le> a / 2 ^ 53 + 1 / 10 ^ 300" by blast
  have "a / 2 ^ 53 \<le> 1000000002 / 2 ^ 53" using assms(2) by (simp add: divide_right_mono)
  moreover have "(1000000002 / 2 ^ 53 + 1 / 10 ^ 300 :: rat) \<le> 1" by simp
  ultimately have "\<bar>y - a\<bar> \<le> 1" using y(3) by linarith
  then have "y \<le> a + 1" by linarith
  with y show ?thesis by blast
qed

lemma edit_values_stable:
  assumes "0 \<le> x" and "x \<le> 1000000000"
  shows "\<exists>s t. edit_subtotal (Fin x) = Fin s \<and> toFixed2 (Fin s) = Fin s
               \<and> edit_taxAmount (Fin x) = Fin t \<and> toFixed2 (Fin t) = Fin t"
proof -
  define d :: rat where "d = 4908923593833841 / 4503599627370496"
  have d1: "1 \<le> d" by (simp add: d_def)
  have q: "js_div (Fin x) (js_add (Fin 1) TAX_RATE) = fl (x / d)"
    using d1 by (simp add: one_plus_rate rate_109 js_div.simps d_def)
  have q0: "0 \<le> x / d" using assms(1) d1 by simp
  have "x / d \<le> x / 1" using d1 assms(1) by (intro divide_left_mono) simp_all
  then have q1: "x / d \<le> 1000000002" using assms(2) by simp
  from fl_near_unit [OF q0 q1] obtain m where
    m: "fl (x / d) = Fin m" "0 \<le> m" "m \<le> x / d + 1" by blast
  have m1: "m \<le> 2000000000" using m(3) q1 \<open>x / d \<le> x / 1\<close> assms(2) by simp
  from toFixed2_nonneg [OF m(2) m1] obtain s where
    s: "toFixed2 (Fin m) = Fin s" "0 \<le> s" "s \<le> m + 1 / 100" "toFixed2 (Fin s) = Fin s" by blast
  have es: "edit_subtotal (Fin x) = Fin s" by (simp add: edit_subtotal_def q m(1) s(1))
  have sub: "js_sub (Fin x) (Fin s) = fl (x - s)" by (simp add: js_sub_def js_add.simps)
  have sb: "s \<le> 1000000002" using s(3) m(3) \<open>x / d \<le> x / 1\<close> assms(2) by simp
  have "\<exists>t. edit_taxAmount (Fin x) = Fin t \<and> toFixed2 (Fin t) = Fin t"
  proof (cases "0 \<le> x - s")
    case True
    have "x - s \<le> 1000000002" using s(2) assms(2) by simp
    from fl_near_unit [OF True this] obtain z where
      z: "fl (x - s) = Fin z" "0 \<le> z" "z \<le> x - s + 1" by blast
    have "z \<le> 2000000000" using z(3) s(2) assms(2) by simp
    from toFixed2_nonneg [OF z(2) this] obtain t where
      t: "toFixed2 (Fin z) = Fin t" "0 \<le> t" "toFixed2 (Fin t) = Fin t" by blast
    have "edit_taxAmount (Fin x) = Fin t"
      using t(2) by (simp add: edit_taxAmount_def es sub z(1) t(1))
    with t(3) show ?thesis by blast
  next
    case False
    then have p: "0 \<le> s - x" by simp
    have "s - x \<le> 1000000002" using sb assms(1) by simp
    from fl_near_unit [OF p this] obtain z where
      z: "fl (s - x) = Fin z" "0 \<le> z" "z \<le> s - x + 1" by blast
    have "fl (x - s) = js_neg (fl (s - x))" using fl_minus [of "s - x"] by simp
    then have f: "fl (x - s) = Fin (- z)" by (simp add: z(1))
    show ?thesis
    proof (cases "z = 0")
      case True
      have "edit_taxAmount (Fin x) = Fin 0"
        by (simp add: edit_taxAmount_def es sub f True fixed_0)
      then show ?thesis using fixed_0 by blast
    next
      case False
      then have neg: "- z < 0" using z(2) by simp
      have "- 2000000000 \<le> - z" using z(3) sb assms(1) by simp
      from toFixed2_negative [OF neg this] obtain w where
        w: "toFixed2 (Fin (- z)) = Fin w" "w \<le> 0" by blast
      have "edit_taxAmount (Fin x) = Fin 0"
        using w(2) by (auto simp add: edit_taxAmount_def es sub f w(1))
      then show ?thesis using fixed_0 by blast
    qed
  qed
  with es s(4) show ?thesis by blast
qed

lemma update_total_finite:
  assumes "update_errors b_invoiceNumber b_total b_status = []"
  shows "\<exists>x. to_number b_total = Fin x \<and> 0 \<le> x"
proof -
  from assms have a: "isFinite (to_number b_total)" and b: "\<not> js_lt (to_number b_total) (Fin 0)"
    by (simp_all add: update_errors_def split: if_splits)
  from a obtain x where x: "to_number b_total = Fin x" by (cases "to_number b_total") simp_all
  with b show ?thesis by simp
qed

lemma orderModel_update_row:
  assumes "orderModel_update F orderId d db = Inr db2" and "row \<in> set (orders db2)"
    and "o_id row = orderId"
  shows "o_invoiceNumber row = u_invoiceNumber d \<and> o_subtotal row = safeSubtotal d
         \<and> o_tax_amount row = safeTaxAmount d \<and> o_total row = safeTotal d"
proof -
  from assms(1) have "orders db2 = map (\<lambda>row. if o_id row = orderId
                         then row\<lparr>o_invoiceNumber := u_invoiceNumber d,
                                  o_subtotal := safeSubtotal d,
                                  o_tax_amount := safeTaxAmount d,
                                  o_total := safeTotal d,
                                  o_status := normalizeStatus (u_status d)\<rparr>
                         else row) (orders db)"
    by (simp add: orderModel_update_def split: if_splits) force
  with assms(2) have "row \<in> (\<lambda>row. if o_id row = orderId
                         then row\<lparr>o_invoiceNumber := u_invoiceNumber d,
                                  o_subtotal := safeSubtotal d,
                                  o_tax_amount := safeTaxAmount d,
                                  o_total := safeTotal d,
                                  o_status := normalizeStatus (u_status d)\<rparr>
                         else row) ` set (orders db)"
    by (simp only: set_map)
  then obtain r where
    r: "row = (if o_id r = orderId
               then r\<lparr>o_invoiceNumber := u_invoiceNumber d,
                      o_subtotal := safeSubtotal d,
                      o_tax_amount := safeTaxAmount d,
                      o_total := safeTotal d,
                      o_status := normalizeStatus (u_status d)\<rparr>
               else r)"
    by (rule imageE)
  show ?thesis
  proof (cases "o_id r = orderId")
    case True
    with r show ?thesis by simp
  next
    case False
    with r have "row = r" by simp
    with False assms(3) show ?thesis by simp
  qed
qed

lemma orderModel_update_ok:
  assumes "QOrderUpdate \<notin> F" and "isFinite (safeSubtotal d)" and "isFinite (safeTaxAmount d)"
    and "isFinite (safeTotal d)"
  shows "\<exists>db2. orderModel_update F orderId d db = Inr db2"
  using assms by (simp add: orderModel_update_def)

lemma edit_stored:
  assumes "QOrderUpdate \<notin> F" and "0 \<le> x" and "x \<le> 1000000000"
  shows "\<exists>db2. orderModel_update F orderId
            \<lparr>u_invoiceNumber = i, u_subtotal = Num (edit_subtotal (Fin x)),
             u_taxAmount = Num (edit_taxAmount (Fin x)), u_total = Num (Fin x), u_status = st\<rparr> db
            = Inr db2
          \<and> (\<forall>row \<in> set (orders db2). o_id row = orderId \<longrightarrow>
                o_subtotal row = edit_subtotal (Fin x) \<and> o_tax_amount row = edit_taxAmount (Fin x))"
proof -
  from edit_values_stable [OF assms(2,3)] obtain s t where
    es: "edit_subtotal (Fin x) = Fin s" and fs: "toFixed2 (Fin s) = Fin s"
    and et: "edit_taxAmount (Fin x) = Fin t" and ft: "toFixed2 (Fin t) = Fin t" by blast
  have "x \<le> 2000000000" using assms(3) by simp
  from toFixed2_nonneg [OF assms(2) this] obtain y where y: "toFixed2 (Fin x) = Fin y" by blast
  define d where "d = \<lparr>u_invoiceNumber = i, u_subtotal = Num (Fin s),
             u_taxAmount = Num (Fin t), u_total = Num (Fin x), u_status = st\<rparr>"
  have v1: "safeSubtotal d = Fin s"
    by (simp add: safeSubtotal_def d_def formatMoney_Fin fs)
  have v2: "safeTaxAmount d = Fin t"
    by (simp add: safeTaxAmount_def d_def formatMoney_Fin ft)
  have v3: "safeTotal d = Fin y"
    by (simp add: safeTotal_def d_def formatMoney_Fin y)
  from orderModel_update_ok [OF assms(1), of d orderId db] obtain db2 where
    u: "orderModel_update F orderId d db = Inr db2"
    by (auto simp: v1 v2 v3)
  have "o_subtotal row = Fin s \<and> o_tax_amount row = Fin t"
    if "row \<in> set (orders db2)" and "o_id row = orderId" for row
    using orderModel_update_row [OF u that] by (simp add: v1 v2)
  with u show ?thesis unfolding es et d_def by blast
qed

lemma status_delivered: "statusValue (Str ''Order delivered'') = Some ''Order delivered''"
  by code_simp

lemma edit_2180_valid:
  "update_errors (Str ''INV-41'') (Str ''21.80'') (Str ''Order delivered'') = []"
  by (simp add: update_errors_def number_2180 fl_values status_delivered)

lemma normalize_delivered: "normalizeStatus (Str ''Order delivered'') = ''Order delivered''"
  by code_simp

lemma edit_2180_update:
  "orderModel_update {} 4
     \<lparr>u_invoiceNumber = ''INV-41'', u_subtotal = Num (Fin 20),
      u_taxAmount = Num (Fin (8106479329266893 / 4503599627370496)),
      u_total = Num (Fin (6136154492292301 / 281474976710656)),
      u_status = Str ''Order delivered''\<rparr> ledger_db
   = Inr (ledger_db\<lparr>orders :=
            [\<lparr>o_id = 4, o_invoiceNumber = ''INV-41'', o_userId = 7, o_subtotal = Fin 20,
              o_tax_amount = Fin (8106479329266893 / 4503599627370496),
              o_total = Fin (6136154492292301 / 281474976710656),
              o_status = ''Order delivered''\<rparr>]\<rparr>)"
  by (simp add: orderModel_update_def safeSubtotal_def safeTaxAmount_def safeTotal_def
      shop_formatMoney normalize_delivered ledger_db_def)

section \<open>Claims\<close>

text \<open>
  C4.  Checkout is not atomic.  For a non-empty cart whose lines were read: when the insert
  of the order header fails, nothing is written; when the bulk insert of the order lines
  fails after the header was inserted, the request ends with a server error and the
  database keeps the header, with no line added, the stock not decremented and the cart
  not cleared; when the stock update or the clearing of the cart fails, the header and the
  lines stay and the cart is not cleared.  No step undoes an earlier one.
\<close>

theorem checkout_not_atomic:
  assumes "QGetCartItems \<notin> F" and "user_cart userId db \<noteq> []"
  shows "(QOrderCreate \<in> F \<longrightarrow>
            checkout F now userId msgs db = (Send 500 ''Database error'', msgs, db))
    \<and> (QOrderCreate \<notin> F \<and> totals_storable (user_cart userId db) \<and> QCreateMany \<in> F \<longrightarrow>
          (\<exists>db'. checkout F now userId msgs db = (Send 500 ''Database error'', msgs, db')
             \<and> orders db' = orders db @ [order_header now userId db]
             \<and> order_items db' = order_items db
             \<and> products db' = products db
             \<and> cart_items db' = cart_items db))
    \<and> (QOrderCreate \<notin> F \<and> totals_storable (user_cart userId db)
          \<and> QCreateMany \<notin> F \<and> lines_storable (user_cart userId db)
          \<and> (stock_failed F now userId db \<or> QClearCart \<in> F) \<longrightarrow>
          (\<exists>db'. checkout F now userId msgs db = (Send 500 ''Database error'', msgs, db')
             \<and> orders db' = orders db @ [order_header now userId db]
             \<and> order_items db'
                 = order_items db @ map (order_item_row (next_order_id db)) (user_cart userId db)
             \<and> products db' = products (after_stock F now userId db)
             \<and> cart_items db' = cart_items db))"
  using assms
  by (simp add: checkout_pipeline after_header_frame after_stock_frame)

theorem checkout_not_atomic_witness:
  "checkout {QOrderCreate} 42 7 [] shop_db = (Send 500 ''Database error'', [], shop_db)
   \<and> (\<exists>db'. checkout {QCreateMany} 42 7 [] shop_db = (Send 500 ''Database error'', [], db')
         \<and> orders db' = [order_header 42 7 shop_db]
         \<and> orderItemModel_getByOrder 1 db' = []
         \<and> products db' = products shop_db
         \<and> cart_items db' = cart_items shop_db)
   \<and> (\<exists>db'. checkout {QDecrease 3} 42 7 [] shop_db = (Send 500 ''Database error'', [], db')
         \<and> orders db' = [order_header 42 7 shop_db]
         \<and> order_items db' = [order_item_row 1 apple_line]
         \<and> cart_items db' = cart_items shop_db)"
proof -
  have cart: "user_cart 7 shop_db \<noteq> []" by (simp add: shop_cart)
  have a: "checkout {QOrderCreate} 42 7 [] shop_db = (Send 500 ''Database error'', [], shop_db)"
    using checkout_not_atomic [of "{QOrderCreate}" 7 shop_db 42 "[]"] cart by simp
  have b: "\<exists>db'. checkout {QCreateMany} 42 7 [] shop_db = (Send 500 ''Database error'', [], db')
         \<and> orders db' = orders shop_db @ [order_header 42 7 shop_db]
         \<and> order_items db' = order_items shop_db
         \<and> products db' = products shop_db
         \<and> cart_items db' = cart_items shop_db"
    using checkout_not_atomic [of "{QCreateMany}" 7 shop_db 42 "[]"] cart shop_totals_storable
    by (simp add: shop_cart)
  have c: "\<exists>db'. checkout {QDecrease 3} 42 7 [] shop_db = (Send 500 ''Database error'', [], db')
         \<and> orders db' = orders shop_db @ [order_header 42 7 shop_db]
         \<and> order_items db'
             = order_items shop_db @ map (order_item_row (next_order_id shop_db)) (user_cart 7 shop_db)
         \<and> products db' = products (after_stock {QDecrease 3} 42 7 shop_db)
         \<and> cart_items db' = cart_items shop_db"
    using checkout_not_atomic [of "{QDecrease 3}" 7 shop_db 42 "[]"] cart shop_totals_storable
      shop_lines_storable shop_stock_failed
    by (simp add: shop_cart)
  from b have b': "\<exists>db'. checkout {QCreateMany} 42 7 [] shop_db = (Send 500 ''Database error'', [], db')
         \<and> orders db' = [order_header 42 7 shop_db]
         \<and> orderItemModel_getByOrder 1 db' = []
         \<and> products db' = products shop_db
         \<and> cart_items db' = cart_items shop_db"
    by (auto simp: shop_db_def orderItemModel_getByOrder_def)
  from c have c': "\<exists>db'. checkout {QDecrease 3} 42 7 [] shop_db = (Send 500 ''Database error'', [], db')
         \<and> orders db' = [order_header 42 7 shop_db]
         \<and> order_items db' = [order_item_row 1 apple_line]
         \<and> cart_items db' = cart_items shop_db"
    by (auto simp: shop_cart) (auto simp: shop_db_def)
  from a b' c' show ?thesis by blast
qed

text \<open>
  C7.  Checkout on an empty cart creates nothing: when the user has no cart line, checkout
  leaves the database as it is (no order, no order line), redirects to the cart and
  leaves the message ``Your cart is empty.''
\<close>

theorem checkout_empty_cart:
  assumes "QGetCartItems \<notin> F"
    and "filter (\<lambda>c. c_userId c = userId) (cart_items db) = []"
  shows "checkout F now userId msgs db = (Redirect ''/cart'', [''Your cart is empty.''], db)"
  using assms
  by (simp add: checkout_def cartModel_getCartItems_def mapCartRows_def List.map_filter_def)

theorem checkout_empty_cart_witness:
  "QGetCartItems \<notin> {QCreateMany} \<and> filter (\<lambda>c. c_userId c = 8) (cart_items shop_db) = []
   \<and> checkout {QCreateMany} 42 8 [''old''] shop_db = (Redirect ''/cart'', [''Your cart is empty.''], shop_db)"
proof -
  have h1: "QGetCartItems \<notin> {QCreateMany}" by simp
  have h2: "filter (\<lambda>c. c_userId c = 8) (cart_items shop_db) = []" by (simp add: shop_db_def)
  from checkout_empty_cart [OF h1 h2] h1 h2 show ?thesis by simp
qed

text \<open>
  C3.  Add-to-cart contract.  For a product with stock \<open>s\<close>, a cart quantity \<open>c\<close> (zero when
  the cart has no line for the product) and a requested quantity \<open>q \<ge> 1\<close>, all whole numbers,
  the stock and the cart quantity below \<open>2\<^sup>5\<^sup>2\<close> in magnitude, and no failing query:
  \<open>add\<close> succeeds exactly when \<open>q \<le> s - c\<close>; on success the cart quantity of the product
  becomes \<open>c + q\<close>; otherwise the database is unchanged and the session holds the one
  message ``Don't have sufficient stock for \<open>name\<close>.'', where \<open>name\<close> is the name of the
  product.
\<close>

theorem add_to_cart_contract:
  assumes "QGetById \<notin> F" and "QGetItemQuantity \<notin> F" and "QSetQuantity \<notin> F"
    and "products db pid = Some p"
    and "requestedQty bq = Fin (of_int q)" and "1 \<le> q"
    and "0 \<le> cart_quantity userId pid db"
    and "\<bar>p_quantity p\<bar> < 2 ^ 52" and "cart_quantity userId pid db < 2 ^ 52"
  shows "(q \<le> p_quantity p - cart_quantity userId pid db) =
           (\<exists>db'. add F userId pid bq br msgs db = (Redirect (redirect_target br), msgs, db')
                  \<and> cart_quantity userId pid db' = cart_quantity userId pid db + q)
    \<and> (q \<le> p_quantity p - cart_quantity userId pid db \<longrightarrow>
          add F userId pid bq br msgs db
            = (Redirect (redirect_target br), msgs,
               db\<lparr>cart_items := upsert_quantity userId pid (cart_quantity userId pid db + q)
                                    (cart_items db)\<rparr>))
    \<and> (\<not> q \<le> p_quantity p - cart_quantity userId pid db \<longrightarrow>
          add F userId pid bq br msgs db
            = (Redirect (redirect_target br),
               [''Don't have sufficient stock for '' @ p_productName p @ ''.''], db))"
  using assms(6)
  by (auto simp: add_outcome [OF assms] cart_quantity_upsert insufficientStockMessage_def)

theorem add_to_cart_contract_witness:
  "\<exists>db1. add {} 9 3 (Str ''3'') Undefined [] shop_db = (Redirect ''/shopping'', [], db1)
         \<and> cart_quantity 9 3 db1 = 3
         \<and> add {} 9 3 (Str ''3'') Undefined [] db1
             = (Redirect ''/shopping'', [''Don't have sufficient stock for Apple.''], db1)"
proof -
  define db1 where "db1 = shop_db\<lparr>cart_items := upsert_quantity 9 3 (0 + 3) (cart_items shop_db)\<rparr>"
  have p: "products shop_db 3 = Some apple" "products db1 3 = Some apple"
    by (simp_all add: shop_db_def db1_def)
  have s: "p_quantity apple = 5" "p_productName apple = ''Apple''" by (simp_all add: apple_def)
  have c0: "cart_quantity 9 3 shop_db = 0" by (simp add: cart_quantity_def shop_db_def)
  have c1: "cart_quantity 9 3 db1 = 3" by (simp add: db1_def cart_quantity_upsert)
  have nf: "QGetById \<notin> {}" "QGetItemQuantity \<notin> {}" "QSetQuantity \<notin> {}" by simp_all
  have q: "(1::int) \<le> 3" by simp
  have b: "\<bar>p_quantity apple\<bar> < 2 ^ 52" by (simp add: s)
  have c0': "0 \<le> cart_quantity 9 3 shop_db" "cart_quantity 9 3 shop_db < 2 ^ 52"
    using c0 by simp_all
  have c1': "0 \<le> cart_quantity 9 3 db1" "cart_quantity 9 3 db1 < 2 ^ 52"
    using c1 by simp_all
  have first: "add {} 9 3 (Str ''3'') Undefined [] shop_db = (Redirect ''/shopping'', [], db1)"
    using add_to_cart_contract [OF nf p(1) requested_3 q c0'(1) b c0'(2),
        where br = Undefined and msgs = "[]"] c0
    by (simp add: s redirect_default db1_def)
  have second: "add {} 9 3 (Str ''3'') Undefined [] db1
      = (Redirect ''/shopping'', [''Don't have sufficient stock for Apple.''], db1)"
    using add_to_cart_contract [OF nf p(2) requested_3 q c1'(1) b c1'(2),
        where br = Undefined and msgs = "[]"] c1
    by (simp add: s redirect_default)
  from first c1 second show ?thesis by blast
qed

text \<open>
  C8.  Update-quantity.  The requested quantity is \<open>Number(quantity || 1)\<close>.  The quantity
  \<open>r\<close> the request works with is the requested quantity clamped into \<open>[1, 999]\<close>: the
  requested quantity itself when it lies in that range, 1 when it is below 1, 999 when it is
  above 999, and 1 when it is not a finite number.  With no failing query: when the stock
  of the product is zero or less, the cart line is removed and the session holds the one
  message ``Don't have sufficient stock for \<open>name\<close>.'', \<open>name\<close> the name of the product;
  when the stock is positive and less than \<open>r\<close>, the stored quantity is the stock and the
  same message is left; otherwise \<open>r\<close> is stored and the messages are unchanged.
\<close>

theorem update_quantity_contract:
  assumes "QGetById \<notin> F" and "QRemoveItem \<notin> F" and "QSetQuantity \<notin> F"
    and "products db pid = Some p" and "\<bar>p_quantity p\<bar> < 2 ^ 53"
  shows "\<exists>r. clampQty bq = Fin r \<and> 1 \<le> r \<and> r \<le> 999
    \<and> (\<forall>n. to_number (js_or bq (Num (Fin 1))) = Fin n \<longrightarrow> r = max 1 (min 999 n))
    \<and> (\<not> isFinite (to_number (js_or bq (Num (Fin 1)))) \<longrightarrow> r = 1)
    \<and> (p_quantity p \<le> 0 \<longrightarrow>
          (\<exists>db'. updateQuantity F userId pid bq msgs db
                   = (Redirect ''/cart'',
                      [''Don't have sufficient stock for '' @ p_productName p @ ''.''], db')
             \<and> cart_items db'
                 = filter (\<lambda>c. \<not> (c_userId c = userId \<and> c_productId c = pid)) (cart_items db)
             \<and> cart_quantity userId pid db' = 0))
    \<and> (0 < p_quantity p \<and> of_int (p_quantity p) < r \<longrightarrow>
          (\<exists>db'. updateQuantity F userId pid bq msgs db
                   = (Redirect ''/cart'',
                      [''Don't have sufficient stock for '' @ p_productName p @ ''.''], db')
             \<and> cart_items db' = upsert_quantity userId pid (p_quantity p) (cart_items db)
             \<and> cart_quantity userId pid db' = p_quantity p))
    \<and> (0 < p_quantity p \<and> r \<le> of_int (p_quantity p) \<longrightarrow>
          (\<exists>db'. updateQuantity F userId pid bq msgs db = (Redirect ''/cart'', msgs, db')
             \<and> cart_items db' = upsert_quantity userId pid (sql_round r) (cart_items db)
             \<and> cart_quantity userId pid db' = sql_round r))"
proof -
  from clampQty_spec obtain r where r: "clampQty bq = Fin r" "1 \<le> r" "r \<le> 999"
    "\<forall>n. to_number (js_or bq (Num (Fin 1))) = Fin n \<longrightarrow> r = max 1 (min 999 n)"
    "\<not> isFinite (to_number (js_or bq (Num (Fin 1)))) \<longrightarrow> r = 1"
    by blast
  note out = updateQuantity_outcome [OF assms r(1,2), of userId msgs]
  have a: "p_quantity p \<le> 0 \<longrightarrow>
          (\<exists>db'. updateQuantity F userId pid bq msgs db
                   = (Redirect ''/cart'',
                      [''Don't have sufficient stock for '' @ p_productName p @ ''.''], db')
             \<and> cart_items db'
                 = filter (\<lambda>c. \<not> (c_userId c = userId \<and> c_productId c = pid)) (cart_items db)
             \<and> cart_quantity userId pid db' = 0)"
    by (auto simp: out cart_quantity_removed [simplified] insufficientStockMessage_def)
  have b: "0 < p_quantity p \<and> of_int (p_quantity p) < r \<longrightarrow>
          (\<exists>db'. updateQuantity F userId pid bq msgs db
                   = (Redirect ''/cart'',
                      [''Don't have sufficient stock for '' @ p_productName p @ ''.''], db')
             \<and> cart_items db' = upsert_quantity userId pid (p_quantity p) (cart_items db)
             \<and> cart_quantity userId pid db' = p_quantity p)"
    by (auto simp: out cart_quantity_upsert insufficientStockMessage_def)
  have c: "0 < p_quantity p \<and> r \<le> of_int (p_quantity p) \<longrightarrow>
          (\<exists>db'. updateQuantity F userId pid bq msgs db = (Redirect ''/cart'', msgs, db')
             \<and> cart_items db' = upsert_quantity userId pid (sql_round r) (cart_items db)
             \<and> cart_quantity userId pid db' = sql_round r)"
    by (auto simp: out cart_quantity_upsert)
  from r a b c show ?thesis by (intro exI [of _ r] conjI)
qed

theorem update_quantity_contract_witness:
  "(\<exists>db'. updateQuantity {} 7 3 (Str ''9'') [] shop_db
            = (Redirect ''/cart'', [''Don't have sufficient stock for Apple.''], db')
         \<and> cart_items db' = [\<lparr>c_userId = 7, c_productId = 3, c_quantity = 5\<rparr>]
         \<and> cart_quantity 7 3 db' = 5)
   \<and> (\<exists>db'. updateQuantity {} 7 3 (Str ''9'') [] soldout_db
            = (Redirect ''/cart'', [''Don't have sufficient stock for Apple.''], db')
         \<and> cart_items db' = []
         \<and> cart_quantity 7 3 db' = 0)
   \<and> (\<exists>db'. updateQuantity {} 7 3 (Str ''5000'') [] warehouse_db = (Redirect ''/cart'', [], db')
         \<and> cart_items db' = [\<lparr>c_userId = 7, c_productId = 3, c_quantity = 999\<rparr>])
   \<and> (\<exists>db'. updateQuantity {} 7 3 (Str ''0'') [] shop_db = (Redirect ''/cart'', [], db')
         \<and> cart_items db' = [\<lparr>c_userId = 7, c_productId = 3, c_quantity = 1\<rparr>])
   \<and> (\<exists>db'. updateQuantity {} 7 3 (Str ''abc'') [] shop_db = (Redirect ''/cart'', [], db')
         \<and> cart_items db' = [\<lparr>c_userId = 7, c_productId = 3, c_quantity = 1\<rparr>])
   \<and> (\<exists>db'. updateQuantity {} 7 3 (Str (CHR 0xA0 # ''4'')) [] shop_db = (Redirect ''/cart'', [], db')
         \<and> cart_items db' = [\<lparr>c_userId = 7, c_productId = 3, c_quantity = 4\<rparr>])"
proof -
  have nf: "QGetById \<notin> {}" "QRemoveItem \<notin> {}" "QSetQuantity \<notin> {}" by simp_all
  have p1: "products shop_db 3 = Some apple" by (simp add: shop_db_def)
  have b1: "\<bar>p_quantity apple\<bar> < 2 ^ 53" by (simp add: apple_def)
  have p2: "products soldout_db 3 = Some (apple\<lparr>p_quantity := 0\<rparr>)"
    by (simp add: soldout_db_def)
  have b2: "\<bar>p_quantity (apple\<lparr>p_quantity := 0\<rparr>)\<bar> < 2 ^ 53" by simp
  have b3: "\<bar>p_quantity (apple\<lparr>p_quantity := 2000\<rparr>)\<bar> < 2 ^ 53" by simp
  have sr: "sql_round 999 = 999" "sql_round 1 = 1" "sql_round 4 = 4"
    using sql_round_of_int [of 999] sql_round_of_int [of 1] sql_round_of_int [of 4] by simp_all
  have a: "\<exists>db'. updateQuantity {} 7 3 (Str ''9'') [] shop_db
            = (Redirect ''/cart'', [''Don't have sufficient stock for Apple.''], db')
         \<and> cart_items db' = [\<lparr>c_userId = 7, c_productId = 3, c_quantity = 5\<rparr>]
         \<and> cart_quantity 7 3 db' = 5"
    using update_quantity_contract [OF nf p1 b1, of "Str ''9''" 7 "[]"]
    by (auto simp: clamp_9 apple_def upsert_quantity_def shop_db_def)
  have b: "\<exists>db'. updateQuantity {} 7 3 (Str ''9'') [] soldout_db
            = (Redirect ''/cart'', [''Don't have sufficient stock for Apple.''], db')
         \<and> cart_items db' = []
         \<and> cart_quantity 7 3 db' = 0"
    using update_quantity_contract [OF nf p2 b2, of "Str ''9''" 7 "[]"]
    by (auto simp: clamp_9 apple_def soldout_db_def shop_db_def)
  have c: "\<exists>db'. updateQuantity {} 7 3 (Str ''5000'') [] warehouse_db = (Redirect ''/cart'', [], db')
         \<and> cart_items db' = [\<lparr>c_userId = 7, c_productId = 3, c_quantity = 999\<rparr>]"
    using update_quantity_contract [OF nf warehouse(1) b3, of "Str ''5000''" 7 "[]"]
    by (auto simp: clamp_values sr upsert_quantity_def warehouse(2))
  have d: "\<exists>db'. updateQuantity {} 7 3 (Str ''0'') [] shop_db = (Redirect ''/cart'', [], db')
         \<and> cart_items db' = [\<lparr>c_userId = 7, c_productId = 3, c_quantity = 1\<rparr>]"
    using update_quantity_contract [OF nf p1 b1, of "Str ''0''" 7 "[]"]
    by (auto simp: clamp_values sr apple_def upsert_quantity_def shop_db_def)
  have e: "\<exists>db'. updateQuantity {} 7 3 (Str ''abc'') [] shop_db = (Redirect ''/cart'', [], db')
         \<and> cart_items db' = [\<lparr>c_userId = 7, c_productId = 3, c_quantity = 1\<rparr>]"
    using update_quantity_contract [OF nf p1 b1, of "Str ''abc''" 7 "[]"]
    by (auto simp: clamp_values sr apple_def upsert_quantity_def shop_db_def)
  have f: "\<exists>db'. updateQuantity {} 7 3 (Str (CHR 0xA0 # ''4'')) [] shop_db
            = (Redirect ''/cart'', [], db')
         \<and> cart_items db' = [\<lparr>c_userId = 7, c_productId = 3, c_quantity = 4\<rparr>]"
    using update_quantity_contract [OF nf p1 b1, of "Str (CHR 0xA0 # ''4'')" 7 "[]"]
    by (auto simp: clamp_values sr apple_def upsert_quantity_def shop_db_def)
  from a b c d e f show ?thesis by (intro conjI)
qed

text \<open>
  C9.  The requested quantity of \<open>add\<close> is \<open>Math.max(1, Number(quantity || 1))\<close>.  A missing,
  empty, zero or negative field gives 1.  A field that is not a numeral gives \<open>NaN\<close>, which
  passes both stock comparisons; the upsert of \<open>NaN\<close> then fails and the request ends with a
  server error, where \<open>add\<close> with quantity 1 puts one unit in the cart.
\<close>

theorem add_non_numeric_quantity:
  "requestedQty Undefined = Fin 1
   \<and> requestedQty (Str []) = Fin 1
   \<and> requestedQty (Str ''0'') = Fin 1
   \<and> requestedQty (Str ''-4'') = Fin 1
   \<and> requestedQty (Str ''abc'') = NaN
   \<and> add {} 9 3 (Str ''abc'') Undefined [] shop_db = (Send 500 ''Database error'', [], shop_db)
   \<and> add {} 9 3 (Str ''1'') Undefined [] shop_db
       = (Redirect ''/shopping'', [],
          shop_db\<lparr>cart_items := cart_items shop_db
                     @ [\<lparr>c_userId = 9, c_productId = 3, c_quantity = 1\<rparr>]\<rparr>)"
  by (simp only: requested_values add_nan_shop add_one_shop simp_thms)

text \<open>
  C10, as stated, fails on its second half: \<open>normalizeStatus\<close> trims the status before it
  compares, so a status with surrounding white space that is neither one of the four
  values nor a case-insensitive match of one is stored in the spelling of the value it
  matches after trimming, not as ``Pending for delivery''.
\<close>

theorem padded_status_not_coerced:
  "'' order delivered '' \<notin> set ORDER_STATUSES
   \<and> toLowerCase '' order delivered '' \<notin> set (map toLowerCase ORDER_STATUSES)
   \<and> normalizeStatus (Str '' order delivered '') = ''Order delivered''
   \<and> (\<exists>db2. orderModel_update {} 1 edit_padded (after_header 42 7 shop_db) = Inr db2
          \<and> map o_id (orders db2) = [1]
          \<and> map o_status (orders db2) = [''Order delivered''])"
proof -
  have "\<exists>db2. orderModel_update {} 1 edit_padded (after_header 42 7 shop_db) = Inr db2
          \<and> map o_id (orders db2) = [1]
          \<and> map o_status (orders db2) = [''Order delivered'']"
    unfolding padded_update by (simp add: shop_header)
  with padded_status(1) padded_status(2) padded_status(4) show ?thesis by (intro conjI)
qed

text \<open>
  C10, amended.  The status of every order written by \<open>create\<close> or \<open>update\<close> is one of the
  four allowed values.  It is ``Pending for delivery'' whenever the given status is not a
  string or, with surrounding white space trimmed and case ignored, equals none of the
  allowed values (a blank string among them); a status that equals an allowed value after
  trimming, case ignored, is stored in the spelling of that value.
\<close>

theorem order_status_allowed:
  "normalizeStatus v
      \<in> {''Pending for delivery'', ''Order delivered'', ''Order completed'', ''Order cancelled''}
   \<and> ((\<forall>s. v = Str s \<longrightarrow> toLowerCase (trim s) \<notin> set (map toLowerCase ORDER_STATUSES)) \<longrightarrow>
        normalizeStatus v = ''Pending for delivery'')
   \<and> (opt \<in> set ORDER_STATUSES \<and> toLowerCase (trim s) = toLowerCase opt \<longrightarrow>
        normalizeStatus (Str s) = opt)
   \<and> (orderModel_create F userId invoiceNumber payload db = Inr (oid, db1) \<longrightarrow>
        (\<exists>row. orders db1 = orders db @ [row]
           \<and> o_status row
               \<in> {''Pending for delivery'', ''Order delivered'', ''Order completed'', ''Order cancelled''}
           \<and> ((\<forall>s. t_status payload = Str s \<longrightarrow>
                    toLowerCase (trim s) \<notin> set (map toLowerCase ORDER_STATUSES)) \<longrightarrow>
                 o_status row = ''Pending for delivery'')
           \<and> (t_status payload = Str s \<and> opt \<in> set ORDER_STATUSES
                 \<and> toLowerCase (trim s) = toLowerCase opt \<longrightarrow> o_status row = opt)))
   \<and> (orderModel_update F orderId d db = Inr db2 \<longrightarrow>
        (\<forall>row \<in> set (orders db2).
            (o_id row = orderId \<longrightarrow>
               o_status row
                 \<in> {''Pending for delivery'', ''Order delivered'', ''Order completed'', ''Order cancelled''}
               \<and> ((\<forall>s. u_status d = Str s \<longrightarrow>
                        toLowerCase (trim s) \<notin> set (map toLowerCase ORDER_STATUSES)) \<longrightarrow>
                     o_status row = ''Pending for delivery'')
               \<and> (u_status d = Str s \<and> opt \<in> set ORDER_STATUSES
                     \<and> toLowerCase (trim s) = toLowerCase opt \<longrightarrow> o_status row = opt))
            \<and> (o_id row \<noteq> orderId \<longrightarrow> row \<in> set (orders db))))"
  unfolding allowed_statuses [symmetric]
proof (intro conjI impI ballI)
  show "normalizeStatus v \<in> set ORDER_STATUSES" by (rule normalizeStatus_allowed)
next
  assume "\<forall>s. v = Str s \<longrightarrow> toLowerCase (trim s) \<notin> set (map toLowerCase ORDER_STATUSES)"
  then show "normalizeStatus v = ''Pending for delivery''" by (rule normalizeStatus_unmatched)
next
  assume "opt \<in> set ORDER_STATUSES \<and> toLowerCase (trim s) = toLowerCase opt"
  then show "normalizeStatus (Str s) = opt" by (simp add: normalizeStatus_canonical(1))
next
  assume "orderModel_create F userId invoiceNumber payload db = Inr (oid, db1)"
  from orderModel_create_status [OF this] obtain row where
    row: "orders db1 = orders db @ [row]"
      "o_status row = normalizeStatus (js_or (t_status payload) (Str DEFAULT_ORDER_STATUS))"
    by blast
  have a: "o_status row \<in> set ORDER_STATUSES"
    unfolding row(2) by (rule normalizeStatus_allowed)
  have b: "(\<forall>s. t_status payload = Str s \<longrightarrow>
               toLowerCase (trim s) \<notin> set (map toLowerCase ORDER_STATUSES)) \<longrightarrow>
           o_status row = ''Pending for delivery''"
    unfolding row(2) using create_status_unmatched by blast
  have c: "t_status payload = Str s \<and> opt \<in> set ORDER_STATUSES
             \<and> toLowerCase (trim s) = toLowerCase opt \<longrightarrow> o_status row = opt"
    unfolding row(2) by (simp add: create_status_canonical)
  from row(1) a b c
  show "\<exists>row. orders db1 = orders db @ [row] \<and> o_status row \<in> set ORDER_STATUSES
      \<and> ((\<forall>s. t_status payload = Str s \<longrightarrow>
               toLowerCase (trim s) \<notin> set (map toLowerCase ORDER_STATUSES)) \<longrightarrow>
            o_status row = ''Pending for delivery'')
      \<and> (t_status payload = Str s \<and> opt \<in> set ORDER_STATUSES
            \<and> toLowerCase (trim s) = toLowerCase opt \<longrightarrow> o_status row = opt)"
    by (intro exI [of _ row] conjI)
next
  fix row
  assume u: "orderModel_update F orderId d db = Inr db2" and r: "row \<in> set (orders db2)"
    and i: "o_id row = orderId"
  from orderModel_update_status [OF u r] i
  have "o_status row = normalizeStatus (u_status d)" by simp
  then show "o_status row \<in> set ORDER_STATUSES" by (simp only: normalizeStatus_allowed)
next
  fix row
  assume u: "orderModel_update F orderId d db = Inr db2" and r: "row \<in> set (orders db2)"
    and i: "o_id row = orderId"
    and c: "\<forall>s. u_status d = Str s \<longrightarrow>
              toLowerCase (trim s) \<notin> set (map toLowerCase ORDER_STATUSES)"
  from orderModel_update_status [OF u r] i
  have "o_status row = normalizeStatus (u_status d)" by simp
  with c show "o_status row = ''Pending for delivery''" by (simp only: normalizeStatus_unmatched)
next
  fix row
  assume u: "orderModel_update F orderId d db = Inr db2" and r: "row \<in> set (orders db2)"
    and i: "o_id row = orderId"
    and c: "u_status d = Str s \<and> opt \<in> set ORDER_STATUSES
              \<and> toLowerCase (trim s) = toLowerCase opt"
  from orderModel_update_status [OF u r] i
  have "o_status row = normalizeStatus (u_status d)" by simp
  with c show "o_status row = opt" by (simp add: normalizeStatus_canonical(1))
next
  fix row
  assume u: "orderModel_update F orderId d db = Inr db2" and r: "row \<in> set (orders db2)"
    and i: "o_id row \<noteq> orderId"
  from orderModel_update_status [OF u r] i show "row \<in> set (orders db)" by simp
qed

theorem order_status_allowed_witness:
  "normalizeStatus (Str ''shipped'') = ''Pending for delivery''
   \<and> normalizeStatus (Str '' order delivered '') = ''Order delivered''
   \<and> (\<exists>row. orders (after_header 42 7 shop_db) = orders shop_db @ [row]
         \<and> o_status row = ''Pending for delivery'')
   \<and> (\<exists>db2. orderModel_update {} 1 edit_shipped (after_header 42 7 shop_db) = Inr db2
         \<and> (\<forall>row \<in> set (orders db2). o_id row = 1 \<longrightarrow> o_status row = ''Pending for delivery''))
   \<and> (\<exists>db2. orderModel_update {} 1 edit_padded (after_header 42 7 shop_db) = Inr db2
         \<and> (\<forall>row \<in> set (orders db2). o_id row = 1 \<longrightarrow> o_status row = ''Order delivered''))"
proof -
  from shop_update obtain db2 where
    u: "orderModel_update {} 1 edit_shipped (after_header 42 7 shop_db) = Inr db2" ..
  from padded_update obtain db3 where
    p: "orderModel_update {} 1 edit_padded (after_header 42 7 shop_db) = Inr db3" ..
  have su: "\<forall>s. Str ''shipped'' = Str s \<longrightarrow>
      toLowerCase (trim s) \<notin> set (map toLowerCase ORDER_STATUSES)"
    using shipped_unmatched by simp
  have cu: "\<forall>s. u_status edit_shipped = Str s \<longrightarrow>
      toLowerCase (trim s) \<notin> set (map toLowerCase ORDER_STATUSES)"
    using shipped_unmatched by (simp add: edit_shipped_def)
  have cc: "\<forall>s. t_status (checkout_payload [apple_line]) = Str s \<longrightarrow>
      toLowerCase (trim s) \<notin> set (map toLowerCase ORDER_STATUSES)"
    by (simp add: checkout_payload_def)
  have od: "''Order delivered'' \<in> set ORDER_STATUSES" by (simp add: ORDER_STATUSES_def)
  have pm: "u_status edit_padded = Str '' order delivered '' \<and> ''Order delivered'' \<in> set ORDER_STATUSES
      \<and> toLowerCase (trim '' order delivered '') = toLowerCase ''Order delivered''"
    using od padded_status(3) by (simp add: edit_padded_def)
  note T = order_status_allowed [where v = "Str ''shipped''" and F = "{}" and userId = 7
      and invoiceNumber = "''INV-42''" and payload = "checkout_payload [apple_line]"
      and db = shop_db and oid = 1 and ?db1.0 = "after_header 42 7 shop_db"
      and s = "'' order delivered ''" and opt = "''Order delivered''"]
  note U = order_status_allowed [where F = "{}" and orderId = 1 and d = edit_shipped
      and db = "after_header 42 7 shop_db" and ?db2.0 = db2]
  note V = order_status_allowed [where F = "{}" and orderId = 1 and d = edit_padded
      and db = "after_header 42 7 shop_db" and ?db2.0 = db3
      and s = "'' order delivered ''" and opt = "''Order delivered''"]
  note T2 = T [THEN conjunct2, THEN conjunct1, THEN mp, OF su]
  have T2b: "normalizeStatus (Str '' order delivered '') = ''Order delivered''"
    using T [THEN conjunct2, THEN conjunct2, THEN conjunct1] od padded_status(3) by blast
  note T3 = T [THEN conjunct2, THEN conjunct2, THEN conjunct2, THEN conjunct1, THEN mp,
      OF shop_create]
  note T4 = U [THEN conjunct2, THEN conjunct2, THEN conjunct2, THEN conjunct2, THEN mp, OF u]
  note T5 = V [THEN conjunct2, THEN conjunct2, THEN conjunct2, THEN conjunct2, THEN mp, OF p]
  from T3 obtain row where row: "orders (after_header 42 7 shop_db) = orders shop_db @ [row]"
    "(\<forall>s. t_status (checkout_payload [apple_line]) = Str s \<longrightarrow>
        toLowerCase (trim s) \<notin> set (map toLowerCase ORDER_STATUSES)) \<longrightarrow>
     o_status row = ''Pending for delivery''"
    by blast
  from row cc have b: "\<exists>row. orders (after_header 42 7 shop_db) = orders shop_db @ [row]
         \<and> o_status row = ''Pending for delivery''"
    by blast
  have "\<forall>row \<in> set (orders db2). o_id row = 1 \<longrightarrow> o_status row = ''Pending for delivery''"
    using T4 cu by blast
  with u have c: "\<exists>db2. orderModel_update {} 1 edit_shipped (after_header 42 7 shop_db) = Inr db2
         \<and> (\<forall>row \<in> set (orders db2). o_id row = 1 \<longrightarrow> o_status row = ''Pending for delivery'')"
    by blast
  have "\<forall>row \<in> set (orders db3). o_id row = 1 \<longrightarrow> o_status row = ''Order delivered''"
    using T5 pm by blast
  with p have d: "\<exists>db2. orderModel_update {} 1 edit_padded (after_header 42 7 shop_db) = Inr db2
         \<and> (\<forall>row \<in> set (orders db2). o_id row = 1 \<longrightarrow> o_status row = ''Order delivered'')"
    by blast
  from T2 T2b b c d show ?thesis by (intro conjI)
qed

text \<open>
  C1, as stated, fails on the last clause: the admin product form stores the submitted
  quantity unvalidated, so an edit to \<open>-5\<close> breaks ``stock is never negative''.
\<close>

theorem admin_update_negative_stock:
  "stock_nonneg shop_db
   \<and> productController_update {} 3 (Str ''Apple'') (Str ''-5'') (Str ''10'') ''apple.png'' shop_db
       = (Redirect ''/inventory'', shop_db\<lparr>products := [3 \<mapsto> apple\<lparr>p_quantity := - 5\<rparr>]\<rparr>)
   \<and> \<not> stock_nonneg (shop_db\<lparr>products := [3 \<mapsto> apple\<lparr>p_quantity := - 5\<rparr>]\<rparr>)"
proof -
  have "sql_round (- 5) = - 5" using sql_round_of_int [of "- 5"] by simp
  then have "productController_update {} 3 (Str ''Apple'') (Str ''-5'') (Str ''10'') ''apple.png'' shop_db
       = (Redirect ''/inventory'', shop_db\<lparr>products := [3 \<mapsto> apple\<lparr>p_quantity := - 5\<rparr>]\<rparr>)"
    by (simp add: productController_update_def productModel_update_def number_minus_5 number_10
        the_string_def shop_db_def apple_def)
  moreover have "\<not> stock_nonneg (shop_db\<lparr>products := [3 \<mapsto> apple\<lparr>p_quantity := - 5\<rparr>]\<rparr>)"
    by (simp add: stock_nonneg_def)
  ultimately show ?thesis using shop_nonneg by simp
qed

text \<open>
  C1, amended.  The stock decrement of checkout floors at zero: it keeps every stock at
  least zero, and so do checkout as a whole, \<open>add\<close> and \<open>updateQuantity\<close>; for purchased
  items with distinct products and a whole quantity \<open>q \<ge> 1\<close>, whose update did not fail,
  the product's stock becomes \<open>max 0 (previous - q)\<close>; after a successful checkout of a
  cart line \<open>{productId, quantity = q}\<close> the catalog holds that value.  (Admin edits of a
  product store the submitted quantity as it is.)
\<close>

theorem stock_floor_at_checkout:
  "(stock_nonneg db \<longrightarrow>
       stock_nonneg (snd (productModel_decreaseQuantities F items db))
     \<and> stock_nonneg (snd (snd (checkout F now userId msgs db)))
     \<and> stock_nonneg (snd (snd (add F userId pid bq br msgs db)))
     \<and> stock_nonneg (snd (snd (updateQuantity F userId pid bq msgs db))))
   \<and> (distinct (map item_id items) \<and> item \<in> set items
        \<and> item_quantity item = Fin (of_int q) \<and> 1 \<le> q
        \<and> products db (item_id item) = Some p
        \<and> \<not> fst (productModel_decreaseQuantities F items db) \<longrightarrow>
        products (snd (productModel_decreaseQuantities F items db)) (item_id item)
          = Some (p\<lparr>p_quantity := max 0 (p_quantity p - q)\<rparr>))
   \<and> (checkout F now userId msgs db = (RenderCheckout v, msgs', db')
        \<and> distinct (map c_productId (filter (\<lambda>c. c_userId c = userId) (cart_items db)))
        \<and> \<lparr>c_userId = userId, c_productId = pid, c_quantity = q\<rparr> \<in> set (cart_items db)
        \<and> 1 \<le> q \<and> q < 2 ^ 53 \<and> products db pid = Some p \<longrightarrow>
        products db' pid = Some (p\<lparr>p_quantity := max 0 (p_quantity p - q)\<rparr>))"
proof (intro conjI impI)
  assume "stock_nonneg db"
  then show "stock_nonneg (snd (productModel_decreaseQuantities F items db))"
    by (rule decreaseQuantities_nonneg)
next
  assume "stock_nonneg db"
  then show "stock_nonneg (snd (snd (checkout F now userId msgs db)))"
    by (rule checkout_nonneg)
next
  assume "stock_nonneg db"
  then show "stock_nonneg (snd (snd (add F userId pid bq br msgs db)))"
    by (simp add: stock_nonneg_frame [OF add_products])
next
  assume "stock_nonneg db"
  then show "stock_nonneg (snd (snd (updateQuantity F userId pid bq msgs db)))"
    by (simp add: stock_nonneg_frame [OF updateQuantity_products])
next
  assume a: "distinct (map item_id items) \<and> item \<in> set items
        \<and> item_quantity item = Fin (of_int q) \<and> 1 \<le> q
        \<and> products db (item_id item) = Some p
        \<and> \<not> fst (productModel_decreaseQuantities F items db)"
  then have ne: "items \<noteq> []" by auto
  from a have nfail: "\<not> fst (decrease_loop F items (False, db))"
    using ne by (simp add: productModel_decreaseQuantities_def)
  from a have pl: "products (snd (False, db)) (item_id item) = Some p" by simp
  from a decrease_loop_line [OF _ _ _ _ pl nfail]
  show "products (snd (productModel_decreaseQuantities F items db)) (item_id item)
          = Some (p\<lparr>p_quantity := max 0 (p_quantity p - q)\<rparr>)"
    using ne by (simp add: productModel_decreaseQuantities_def)
next
  assume "checkout F now userId msgs db = (RenderCheckout v, msgs', db')
        \<and> distinct (map c_productId (filter (\<lambda>c. c_userId c = userId) (cart_items db)))
        \<and> \<lparr>c_userId = userId, c_productId = pid, c_quantity = q\<rparr> \<in> set (cart_items db)
        \<and> 1 \<le> q \<and> q < 2 ^ 53 \<and> products db pid = Some p"
  then show "products db' pid = Some (p\<lparr>p_quantity := max 0 (p_quantity p - q)\<rparr>)"
    using checkout_line_stock by blast
qed

theorem stock_floor_at_checkout_witness:
  "stock_nonneg shop_db
   \<and> stock_nonneg (snd (snd (checkout {} 42 7 [] shop_db)))
   \<and> products (snd (snd (checkout {} 42 7 [] shop_db))) 3 = Some (apple\<lparr>p_quantity := 3\<rparr>)"
proof -
  note T = stock_floor_at_checkout [where db = shop_db and F = "{}" and now = 42 and userId = 7
      and msgs = "[]" and v = "checkout_summary 42 [apple_line]" and msgs' = "[]"
      and db' = "after_clear {} 42 7 shop_db" and pid = 3 and q = 2 and p = apple]
  have a: "stock_nonneg (snd (snd (checkout {} 42 7 [] shop_db)))"
    using T [THEN conjunct1] shop_nonneg by blast
  have h: "checkout {} 42 7 [] shop_db
      = (RenderCheckout (checkout_summary 42 [apple_line]), [], after_clear {} 42 7 shop_db)
        \<and> distinct (map c_productId (filter (\<lambda>c. c_userId c = 7) (cart_items shop_db)))
        \<and> \<lparr>c_userId = 7, c_productId = 3, c_quantity = 2\<rparr> \<in> set (cart_items shop_db)
        \<and> (1::int) \<le> 2 \<and> (2::int) < 2 ^ 53 \<and> products shop_db 3 = Some apple"
    using shop_checkout by (simp add: shop_db_def)
  have "products (after_clear {} 42 7 shop_db) 3 = Some (apple\<lparr>p_quantity := max 0 (p_quantity apple - 2)\<rparr>)"
    using T [THEN conjunct2, THEN conjunct2, rule_format, OF h] .
  then have b: "products (snd (snd (checkout {} 42 7 [] shop_db))) 3 = Some (apple\<lparr>p_quantity := 3\<rparr>)"
    by (simp add: shop_checkout apple_def)
  from shop_nonneg a b show ?thesis by (intro conjI)
qed

text \<open>
  C2.  Forward pricing at checkout.  Whenever checkout renders the order summary, the cart
  is not empty, the subtotal is the sum of price times quantity over the cart lines (in
  cart order), the tax is \<open>Number((subtotal * 0.09).toFixed(2))\<close>, the total is
  \<open>Number((subtotal + taxAmount).toFixed(2))\<close>, and the inserted order row holds these
  values as \<open>formatMoney\<close> rounds them.  For a cart of one line of two units of a product
  priced 10.00, with at least two in stock and no failing query: subtotal 20, tax 1.8 and
  total 21.8 are shown and stored, the user's cart is emptied and the stock decreases by 2.
\<close>

theorem forward_pricing:
  "(checkout F now userId msgs db = (RenderCheckout v, msgs', db') \<longrightarrow>
      v_cart v = user_cart userId db \<and> v_cart v \<noteq> []
    \<and> v_subtotal v
        = foldl (\<lambda>sum item. js_add sum (js_mul (item_price item) (item_quantity item))) (Fin 0) (v_cart v)
    \<and> v_taxAmount v = toFixed2 (js_mul (v_subtotal v) (fl (9 / 100)))
    \<and> v_total v = toFixed2 (js_add (v_subtotal v) (v_taxAmount v))
    \<and> (\<exists>row. orders db' = orders db @ [row]
          \<and> o_subtotal row = formatMoney (Num (v_subtotal v))
          \<and> o_tax_amount row = formatMoney (Num (v_taxAmount v))
          \<and> (isFinite (v_total v) \<longrightarrow> o_total row = formatMoney (Num (v_total v)))))
   \<and> (QGetCartItems \<notin> F \<and> QOrderCreate \<notin> F \<and> QCreateMany \<notin> F \<and> QDecrease pid \<notin> F
        \<and> QClearCart \<notin> F
        \<and> filter (\<lambda>c. c_userId c = userId) (cart_items db)
            = [\<lparr>c_userId = userId, c_productId = pid, c_quantity = 2\<rparr>]
        \<and> products db pid = Some p \<and> p_price p = 10 \<and> 2 \<le> p_quantity p \<longrightarrow>
      (\<exists>w db''. checkout F now userId msgs db = (RenderCheckout w, msgs, db'')
          \<and> v_subtotal w = Fin 20 \<and> v_taxAmount w = fl (9 / 5) \<and> v_total w = fl (109 / 5)
          \<and> (\<exists>row. orders db'' = orders db @ [row] \<and> o_userId row = userId
                \<and> o_subtotal row = Fin 20 \<and> o_tax_amount row = fl (9 / 5)
                \<and> o_total row = fl (109 / 5))
          \<and> filter (\<lambda>c. c_userId c = userId) (cart_items db'') = []
          \<and> products db'' pid = Some (p\<lparr>p_quantity := p_quantity p - 2\<rparr>)))"
proof (intro conjI impI)
  assume ok: "checkout F now userId msgs db = (RenderCheckout v, msgs', db')"
  note s = checkout_success [OF ok]
  from s show "v_cart v = user_cart userId db" by (simp add: checkout_summary_def)
  from s show "v_cart v \<noteq> []" by (simp add: checkout_summary_def)
  from s show "v_subtotal v
        = foldl (\<lambda>sum item. js_add sum (js_mul (item_price item) (item_quantity item))) (Fin 0) (v_cart v)"
    by (simp add: checkout_summary_def cart_subtotal_def)
  from s show "v_taxAmount v = toFixed2 (js_mul (v_subtotal v) (fl (9 / 100)))"
    by (simp add: checkout_summary_def cart_taxAmount_def TAX_RATE_def)
  from s show "v_total v = toFixed2 (js_add (v_subtotal v) (v_taxAmount v))"
    by (simp add: checkout_summary_def cart_total_def)
  have "orders db' = orders db @ [order_header now userId db]"
    using s by (simp add: after_clear_frame)
  moreover have "o_subtotal (order_header now userId db) = formatMoney (Num (v_subtotal v))"
    "o_tax_amount (order_header now userId db) = formatMoney (Num (v_taxAmount v))"
    "isFinite (v_total v) \<longrightarrow> o_total (order_header now userId db) = formatMoney (Num (v_total v))"
    using s by (simp_all add: order_header_def checkout_summary_def create_total_def checkout_payload_def)
  ultimately show "\<exists>row. orders db' = orders db @ [row]
          \<and> o_subtotal row = formatMoney (Num (v_subtotal v))
          \<and> o_tax_amount row = formatMoney (Num (v_taxAmount v))
          \<and> (isFinite (v_total v) \<longrightarrow> o_total row = formatMoney (Num (v_total v)))"
    by blast
next
  assume a: "QGetCartItems \<notin> F \<and> QOrderCreate \<notin> F \<and> QCreateMany \<notin> F \<and> QDecrease pid \<notin> F
        \<and> QClearCart \<notin> F
        \<and> filter (\<lambda>c. c_userId c = userId) (cart_items db)
            = [\<lparr>c_userId = userId, c_productId = pid, c_quantity = 2\<rparr>]
        \<and> products db pid = Some p \<and> p_price p = 10 \<and> 2 \<le> p_quantity p"
  define i where "i = \<lparr>item_id = pid, item_productName = p_productName p, item_price = Fin 10,
         item_image = p_image p, item_quantity = Fin 2\<rparr>"
  have ip: "item_price i = Fin 10" "item_quantity i = Fin 2" "item_id i = pid"
    by (simp_all add: i_def)
  have cart: "user_cart userId db = [i]"
    using a scenario_cart [of userId db pid p] by (simp add: i_def)
  have ne: "user_cart userId db \<noteq> []" by (simp add: cart)
  have pl: "products (after_lines now userId db) pid = Some p"
    using a by (simp add: after_lines_frame)
  have st: "productModel_decreaseQuantities F [i] (after_lines now userId db)
     = (False, (after_lines now userId db)
          \<lparr>products := (products (after_lines now userId db))(pid \<mapsto> p\<lparr>p_quantity := p_quantity p - 2\<rparr>)\<rparr>)"
    using a by (intro scenario_stock pl ip) simp_all
  have nfail: "\<not> stock_failed F now userId db"
    by (simp add: stock_failed_def cart st)
  have prod: "products (after_stock F now userId db) pid = Some (p\<lparr>p_quantity := p_quantity p - 2\<rparr>)"
    by (simp add: after_stock_def cart st)
  have co: "checkout F now userId msgs db
      = (RenderCheckout (checkout_summary now [i]), msgs, after_clear F now userId db)"
    using a nfail line_storable [OF ip(1,2)]
    by (simp add: checkout_pipeline [of F userId db] ne cart)
  have hdr: "o_userId (order_header now userId db) = userId"
    "o_subtotal (order_header now userId db) = Fin 20"
    "o_tax_amount (order_header now userId db) = fl (9 / 5)"
    "o_total (order_header now userId db) = fl (109 / 5)"
    by (simp_all add: order_header_def cart line_totals [OF ip(1,2)] line_storable [OF ip(1,2)]
        shop_formatMoney fl_values)
  have vw: "v_subtotal (checkout_summary now [i]) = Fin 20"
    "v_taxAmount (checkout_summary now [i]) = fl (9 / 5)"
    "v_total (checkout_summary now [i]) = fl (109 / 5)"
    by (simp_all add: checkout_summary_def line_totals [OF ip(1,2)] fl_values)
  have cl: "filter (\<lambda>c. c_userId c = userId) (cart_items (after_clear F now userId db)) = []"
    by (simp add: after_clear_frame filter_out_user)
  have pc: "products (after_clear F now userId db) pid = Some (p\<lparr>p_quantity := p_quantity p - 2\<rparr>)"
    by (simp add: after_clear_frame prod)
  have oc: "orders (after_clear F now userId db) = orders db @ [order_header now userId db]"
    by (simp add: after_clear_frame)
  from co vw hdr cl pc oc
  show "\<exists>w db''. checkout F now userId msgs db = (RenderCheckout w, msgs, db'')
          \<and> v_subtotal w = Fin 20 \<and> v_taxAmount w = fl (9 / 5) \<and> v_total w = fl (109 / 5)
          \<and> (\<exists>row. orders db'' = orders db @ [row] \<and> o_userId row = userId
                \<and> o_subtotal row = Fin 20 \<and> o_tax_amount row = fl (9 / 5)
                \<and> o_total row = fl (109 / 5))
          \<and> filter (\<lambda>c. c_userId c = userId) (cart_items db'') = []
          \<and> products db'' pid = Some (p\<lparr>p_quantity := p_quantity p - 2\<rparr>)"
    by blast
qed

theorem forward_pricing_witness:
  "\<exists>w db''. checkout {} 42 7 [] shop_db = (RenderCheckout w, [], db'')
      \<and> v_subtotal w = Fin 20 \<and> v_taxAmount w = fl (9 / 5) \<and> v_total w = fl (109 / 5)
      \<and> v_taxAmount w = toFixed2 (js_mul (v_subtotal w) (fl (9 / 100)))
      \<and> v_total w = toFixed2 (js_add (v_subtotal w) (v_taxAmount w))
      \<and> (\<exists>row. orders db'' = orders shop_db @ [row] \<and> o_userId row = 7
            \<and> o_subtotal row = Fin 20 \<and> o_tax_amount row = fl (9 / 5)
            \<and> o_total row = fl (109 / 5))
      \<and> filter (\<lambda>c. c_userId c = 7) (cart_items db'') = []
      \<and> products db'' 3 = Some (apple\<lparr>p_quantity := p_quantity apple - 2\<rparr>)"
proof -
  have h: "QGetCartItems \<notin> {} \<and> QOrderCreate \<notin> {} \<and> QCreateMany \<notin> {} \<and> QDecrease 3 \<notin> {}
        \<and> QClearCart \<notin> {}
        \<and> filter (\<lambda>c. c_userId c = 7) (cart_items shop_db)
            = [\<lparr>c_userId = 7, c_productId = 3, c_quantity = 2\<rparr>]
        \<and> products shop_db 3 = Some apple \<and> p_price apple = 10 \<and> 2 \<le> p_quantity apple"
    by (simp add: shop_db_def apple_def)
  note S = forward_pricing [where F = "{}" and now = 42 and userId = 7 and msgs = "[]"
      and db = shop_db and pid = 3 and p = apple, THEN conjunct2, rule_format, OF h]
  then obtain w db'' where
    w: "checkout {} 42 7 [] shop_db = (RenderCheckout w, [], db'')"
      "v_subtotal w = Fin 20" "v_taxAmount w = fl (9 / 5)" "v_total w = fl (109 / 5)"
      "\<exists>row. orders db'' = orders shop_db @ [row] \<and> o_userId row = 7
            \<and> o_subtotal row = Fin 20 \<and> o_tax_amount row = fl (9 / 5)
            \<and> o_total row = fl (109 / 5)"
      "filter (\<lambda>c. c_userId c = 7) (cart_items db'') = []"
      "products db'' 3 = Some (apple\<lparr>p_quantity := p_quantity apple - 2\<rparr>)"
    by blast
  note G = forward_pricing [where F = "{}" and now = 42 and userId = 7 and msgs = "[]"
      and db = shop_db and v = w and msgs' = "[]" and db' = db'', THEN conjunct1, rule_format, OF w(1)]
  from G have g: "v_taxAmount w = toFixed2 (js_mul (v_subtotal w) (fl (9 / 100)))"
    "v_total w = toFixed2 (js_add (v_subtotal w) (v_taxAmount w))"
    by blast+
  from w g show ?thesis by blast
qed

text \<open>
  C6, as stated, fails for a price that is not a whole number of cents.  With one unit at
  2.675 in the cart, the subtotal is the binary64 value just below 2.675: it is stored as
  2.67, the tax is 0.24, and the total, rounded from the unrounded subtotal plus the tax,
  is 2.92, while 2.67 + 0.24 rounds to 2.91.
\<close>

theorem subcent_price_breaks_round_trip:
  "checkout {} 42 7 [] odd_db
     = (RenderCheckout (checkout_summary 42 (user_cart 7 odd_db)), [], after_clear {} 42 7 odd_db)
   \<and> orders (after_clear {} 42 7 odd_db) = [order_header 42 7 odd_db]
   \<and> o_subtotal (order_header 42 7 odd_db) = fl (267 / 100)
   \<and> o_tax_amount (order_header 42 7 odd_db) = fl (24 / 100)
   \<and> o_total (order_header 42 7 odd_db) = fl (292 / 100)
   \<and> toFixed2 (js_add (fl (267 / 100)) (fl (24 / 100))) = fl (291 / 100)
   \<and> fl (291 / 100) \<noteq> fl (292 / 100)"
proof -
  have o: "orders (after_clear {} 42 7 odd_db) = [order_header 42 7 odd_db]"
    by (simp add: after_clear_frame) (simp add: odd_db_def)
  have r: "toFixed2 (js_add (fl (267 / 100)) (fl (24 / 100))) = fl (291 / 100)"
    by (simp add: odd_values odd_steps)
  have n: "fl (291 / 100) \<noteq> fl (292 / 100)" by (simp add: odd_values)
  from odd_checkout o odd_header r n show ?thesis by (intro conjI)
qed

text \<open>
  C6, amended.  For an order created by checkout whose computed subtotal is at most
  \<open>10\<^sup>9\<close> and within a tenth of a cent of a whole number of cents (as for prices in whole
  cents), and whose new order id has no earlier lines: the line subtotals that \<open>getByOrder\<close>
  returns, each \<open>unitPrice * quantity\<close>, sum to a value within 0.01 of the stored subtotal,
  and the stored subtotal plus the stored tax, rounded to two decimals, is the stored
  total.
\<close>

theorem order_round_trip:
  assumes ok: "checkout F now userId msgs db = (RenderCheckout v, msgs', db')"
    and fresh: "\<forall>r \<in> set (order_items db). i_orderId r \<noteq> next_order_id db"
    and sub: "cart_subtotal (user_cart userId db) = Fin s" and s0: "0 \<le> s" and s1: "s \<le> 10 ^ 9"
    and cents: "\<bar>s * 100 - of_int k\<bar> \<le> 1 / 10"
  shows "\<exists>row a. orders db' = orders db @ [row]
     \<and> foldl js_add (Fin 0) (map i_subtotal (orderItemModel_getByOrder (o_id row) db')) = Fin s
     \<and> o_subtotal row = Fin a \<and> \<bar>s - a\<bar> \<le> 1 / 100
     \<and> toFixed2 (js_add (o_subtotal row) (o_tax_amount row)) = o_total row"
proof -
  from checkout_success [OF ok] have db': "db' = after_clear F now userId db" by simp
  from stored_totals_cents [OF sub s0 s1 cents] obtain a where
    a: "formatMoney (Num (cart_subtotal (user_cart userId db))) = Fin a" "\<bar>s - a\<bar> \<le> 1 / 100"
      "toFixed2 (js_add (formatMoney (Num (cart_subtotal (user_cart userId db))))
                          (formatMoney (Num (cart_taxAmount (user_cart userId db)))))
         = create_total (checkout_payload (user_cart userId db))"
    by blast
  have o: "orders db' = orders db @ [order_header now userId db]"
    by (simp add: db' after_clear_frame)
  have i: "o_id (order_header now userId db) = next_order_id db" by (simp add: order_header_def)
  have l: "foldl js_add (Fin 0)
      (map i_subtotal (orderItemModel_getByOrder (o_id (order_header now userId db)) db')) = Fin s"
    unfolding i db' getByOrder_after_checkout [OF fresh] line_subtotals_sum by (rule sub)
  have h: "o_subtotal (order_header now userId db) = Fin a"
    "toFixed2 (js_add (o_subtotal (order_header now userId db))
        (o_tax_amount (order_header now userId db))) = o_total (order_header now userId db)"
    using a(1,3) by (simp_all add: order_header_def)
  from o l h a(2) show ?thesis by blast
qed

theorem order_round_trip_witness:
  "\<exists>row a. orders (snd (snd (checkout {} 42 7 [] shop_db))) = orders shop_db @ [row]
     \<and> foldl js_add (Fin 0)
          (map i_subtotal (orderItemModel_getByOrder (o_id row) (snd (snd (checkout {} 42 7 [] shop_db)))))
         = Fin 20
     \<and> o_subtotal row = Fin a \<and> \<bar>20 - a\<bar> \<le> 1 / 100
     \<and> toFixed2 (js_add (o_subtotal row) (o_tax_amount row)) = o_total row"
proof -
  have fresh: "\<forall>r \<in> set (order_items shop_db). i_orderId r \<noteq> next_order_id shop_db"
    by (simp add: shop_db_def)
  have sub: "cart_subtotal (user_cart 7 shop_db) = Fin 20"
    by (simp add: shop_cart shop_subtotal)
  have b: "(0::rat) \<le> 20" "(20::rat) \<le> 10 ^ 9" "\<bar>(20::rat) * 100 - of_int 2000\<bar> \<le> 1 / 10"
    by simp_all
  from order_round_trip [OF shop_checkout fresh sub b]
  show ?thesis by (simp add: shop_checkout)
qed

text \<open>
  C5.  The admin edit of an order recomputes the subtotal and the tax from the edited
  total as the specification words it: the subtotal is the total divided by 1.09 and
  rounded to two decimals, the tax is the total minus that rounded subtotal, rounded to two
  decimals and not below zero.  A valid edit (no validation message, so a finite total that
  is not negative) passes exactly these two values to the order update, and for a total of
  at most \<open>10\<^sup>9\<close> with no failing query they are the values stored in the order row.  The
  total 21.80 gives the subtotal 20 and the tax 1.80, the values that checkout computes
  forward for a cart of subtotal 20, whose total is 21.80.
\<close>

theorem inverse_tax_on_edit:
  "edit_subtotal t = inverse_subtotal t
   \<and> edit_taxAmount t = inverse_taxAmount t
   \<and> (update_errors b_invoiceNumber b_total b_status = [] \<longrightarrow>
        (\<exists>x. to_number b_total = Fin x \<and> 0 \<le> x)
        \<and> adminOrders_update F orderId b_invoiceNumber b_total b_status msgs db
            = (case orderModel_update F orderId
                     \<lparr>u_invoiceNumber = the_string b_invoiceNumber,
                      u_subtotal = Num (inverse_subtotal (to_number b_total)),
                      u_taxAmount = Num (inverse_taxAmount (to_number b_total)),
                      u_total = Num (to_number b_total),
                      u_status = (case statusValue b_status of Some s \<Rightarrow> Str s | None \<Rightarrow> Null)\<rparr>
                     db of
                 Inl err \<Rightarrow> (Redirect (''/admin/orders/'' @ string_of_nat orderId @ ''/edit''),
                             [''Failed to update order''], db)
               | Inr db' \<Rightarrow> (Redirect ''/admin/orders'', [''Order updated''], db')))
   \<and> (update_errors b_invoiceNumber b_total b_status = [] \<and> QOrderUpdate \<notin> F
        \<and> to_number b_total = Fin x \<and> x \<le> 1000000000 \<longrightarrow>
        (\<exists>db'. adminOrders_update F orderId b_invoiceNumber b_total b_status msgs db
                  = (Redirect ''/admin/orders'', [''Order updated''], db')
           \<and> (\<forall>row \<in> set (orders db'). o_id row = orderId \<longrightarrow>
                 o_subtotal row = inverse_subtotal (Fin x)
                 \<and> o_tax_amount row = inverse_taxAmount (Fin x))))
   \<and> to_number (Str ''21.80'') = fl (109 / 5)
   \<and> inverse_subtotal (fl (109 / 5)) = Fin 20
   \<and> inverse_taxAmount (fl (109 / 5)) = fl (9 / 5)
   \<and> cart_subtotal [apple_line] = Fin 20
   \<and> cart_taxAmount [apple_line] = fl (9 / 5)
   \<and> cart_total [apple_line] = fl (109 / 5)"
proof -
  have eq: "adminOrders_update F orderId b_invoiceNumber b_total b_status msgs db
            = (case orderModel_update F orderId
                     \<lparr>u_invoiceNumber = the_string b_invoiceNumber,
                      u_subtotal = Num (inverse_subtotal (to_number b_total)),
                      u_taxAmount = Num (inverse_taxAmount (to_number b_total)),
                      u_total = Num (to_number b_total),
                      u_status = (case statusValue b_status of Some s \<Rightarrow> Str s | None \<Rightarrow> Null)\<rparr>
                     db of
                 Inl err \<Rightarrow> (Redirect (''/admin/orders/'' @ string_of_nat orderId @ ''/edit''),
                             [''Failed to update order''], db)
               | Inr db' \<Rightarrow> (Redirect ''/admin/orders'', [''Order updated''], db'))"
    if "update_errors b_invoiceNumber b_total b_status = []"
    using that
    by (simp add: adminOrders_update_def Let_def edit_subtotal_spec edit_taxAmount_spec)
  have stored: "\<exists>db'. adminOrders_update F orderId b_invoiceNumber b_total b_status msgs db
                  = (Redirect ''/admin/orders'', [''Order updated''], db')
           \<and> (\<forall>row \<in> set (orders db'). o_id row = orderId \<longrightarrow>
                 o_subtotal row = inverse_subtotal (Fin x)
                 \<and> o_tax_amount row = inverse_taxAmount (Fin x))"
    if v: "update_errors b_invoiceNumber b_total b_status = []" and f: "QOrderUpdate \<notin> F"
      and n: "to_number b_total = Fin x" and b: "x \<le> 1000000000"
  proof -
    from update_total_finite [OF v] n have x0: "0 \<le> x" by simp
    from edit_stored [OF f x0 b, of orderId "the_string b_invoiceNumber"
        "case statusValue b_status of Some s \<Rightarrow> Str s | None \<Rightarrow> Null" db]
    obtain db2 where
      u: "orderModel_update F orderId
            \<lparr>u_invoiceNumber = the_string b_invoiceNumber,
             u_subtotal = Num (inverse_subtotal (Fin x)),
             u_taxAmount = Num (inverse_taxAmount (Fin x)), u_total = Num (Fin x),
             u_status = (case statusValue b_status of Some s \<Rightarrow> Str s | None \<Rightarrow> Null)\<rparr> db
            = Inr db2"
      and r: "\<forall>row \<in> set (orders db2). o_id row = orderId \<longrightarrow>
                o_subtotal row = inverse_subtotal (Fin x)
                \<and> o_tax_amount row = inverse_taxAmount (Fin x)"
      unfolding edit_subtotal_spec edit_taxAmount_spec by blast
    have "adminOrders_update F orderId b_invoiceNumber b_total b_status msgs db
        = (Redirect ''/admin/orders'', [''Order updated''], db2)"
      unfolding eq [OF v] n u by simp
    with r show ?thesis by blast
  qed
  have fwd: "cart_subtotal [apple_line] = Fin 20" "cart_taxAmount [apple_line] = fl (9 / 5)"
    "cart_total [apple_line] = fl (109 / 5)"
    using line_totals [of apple_line] by (simp_all add: apple_line_def fl_values)
  have num: "to_number (Str ''21.80'') = fl (109 / 5)" by (simp add: number_2180)
  show ?thesis
    using edit_subtotal_spec edit_taxAmount_spec update_total_finite eq stored num
      inverse_2180 fwd
    by (intro conjI impI) blast+
qed

theorem inverse_tax_on_edit_witness:
  "adminOrders_update {} 4 (Str ''INV-41'') (Str ''21.80'') (Str ''Order delivered'') [] ledger_db
     = (Redirect ''/admin/orders'', [''Order updated''],
        ledger_db\<lparr>orders :=
          [\<lparr>o_id = 4, o_invoiceNumber = ''INV-41'', o_userId = 7, o_subtotal = Fin 20,
            o_tax_amount = fl (9 / 5), o_total = fl (109 / 5), o_status = ''Order delivered''\<rparr>]\<rparr>)
   \<and> (\<exists>db'. adminOrders_update {} 4 (Str ''INV-41'') (Str ''21.80'') (Str ''Order delivered'') []
               ledger_db
             = (Redirect ''/admin/orders'', [''Order updated''], db')
          \<and> (\<forall>row \<in> set (orders db'). o_id row = 4 \<longrightarrow>
                o_subtotal row = Fin 20 \<and> o_tax_amount row = fl (9 / 5)))"
proof -
  note T = inverse_tax_on_edit [where b_invoiceNumber = "Str ''INV-41''" and b_total = "Str ''21.80''"
      and b_status = "Str ''Order delivered''" and F = "{}" and orderId = 4 and msgs = "[]"
      and db = ledger_db and x = "6136154492292301 / 281474976710656"]
  have n: "to_number (Str ''21.80'') = Fin (6136154492292301 / 281474976710656)"
    by (simp add: number_2180 fl_values)
  have h: "update_errors (Str ''INV-41'') (Str ''21.80'') (Str ''Order delivered'') = []
      \<and> QOrderUpdate \<notin> {} \<and> to_number (Str ''21.80'') = Fin (6136154492292301 / 281474976710656)
      \<and> (6136154492292301 / 281474976710656 :: rat) \<le> 1000000000"
    using edit_2180_valid n by simp
  have v: "inverse_subtotal (Fin (6136154492292301 / 281474976710656)) = Fin 20"
    "inverse_taxAmount (Fin (6136154492292301 / 281474976710656))
       = Fin (8106479329266893 / 4503599627370496)"
    using inverse_2180 by (simp_all add: fl_values)
  from T [THEN conjunct2, THEN conjunct2, THEN conjunct1, THEN mp, OF edit_2180_valid]
  have a: "adminOrders_update {} 4 (Str ''INV-41'') (Str ''21.80'') (Str ''Order delivered'') [] ledger_db
     = (Redirect ''/admin/orders'', [''Order updated''],
        ledger_db\<lparr>orders :=
          [\<lparr>o_id = 4, o_invoiceNumber = ''INV-41'', o_userId = 7, o_subtotal = Fin 20,
            o_tax_amount = fl (9 / 5), o_total = fl (109 / 5), o_status = ''Order delivered''\<rparr>]\<rparr>)"
    unfolding n v status_delivered
    by (simp add: the_string_def edit_2180_update fl_values)
  from T [THEN conjunct2, THEN conjunct2, THEN conjunct2, THEN conjunct1, THEN mp, OF h]
  have b: "\<exists>db'. adminOrders_update {} 4 (Str ''INV-41'') (Str ''21.80'') (Str ''Order delivered'') []
               ledger_db
             = (Redirect ''/admin/orders'', [''Order updated''], db')
          \<and> (\<forall>row \<in> set (orders db'). o_id row = 4 \<longrightarrow>
                o_subtotal row = Fin 20 \<and> o_tax_amount row = fl (9 / 5))"
    unfolding v by (simp add: fl_values)
  from a b show ?thesis ..
qed

end
